theory Spec2Isabelle
  imports Main "HOL-Library.Word" "HOL-Library.Sublist"
begin

section \<open>The CTC loss adapter (theano/tensor/nnet/ctc\_wrapper.c)\<close>

text \<open>
  The adapter marshals three numpy arrays into the flat buffers of the external CTC
  library, asks the library for its workspace size, runs the loss computation and frees
  its own buffers. The model below follows the C text function by function. Everything
  the C code obtains from outside (the allocator, numpy, the CTC library, the bytes of
  freshly allocated memory) is a field of the environment \<open>env\<close>, so each run of the
  model is one run of the code against one behaviour of its surroundings.
\<close>

subsection \<open>Machine values\<close>

text \<open>
  An \<open>addr\<close> names one allocation (a malloc block or a Python object). Every allocation
  gets a name that was never used before, so two names are equal exactly when they denote
  the same object; \<open>None\<close> of type \<open>addr option\<close> is the NULL pointer.
\<close>

type_synonym addr = nat

text \<open>A C \<open>int\<close> stored in memory, and the bit pattern of an \<open>npy_float32\<close>.\<close>

type_synonym int32 = "32 word"
type_synonym float32 = "32 word"

text \<open>
  The conversion of an \<open>npy_intp\<close> dimension to a C \<open>int\<close> (lines 62, 78, 79, 164, 165):
  the value is reduced to 32 bits, two's complement.
\<close>

definition c_int :: "nat \<Rightarrow> int" where
  "c_int d = (int d + 2 ^ 31) mod 2 ^ 32 - 2 ^ 31"

definition fits_int :: "nat \<Rightarrow> bool" where
  "fits_int d = (d < 2 ^ 31)"

text \<open>
  Arithmetic on C \<open>int\<close>s as the machine does it, in 32 bits, two's complement: the
  product \<open>rows * cols\<close> of line 81 and the increment \<open>label_index++\<close> of line 102.
\<close>

definition int_mul :: "int \<Rightarrow> int \<Rightarrow> int" where
  "int_mul x y = (x * y + 2 ^ 31) mod 2 ^ 32 - 2 ^ 31"

definition int_succ :: "int \<Rightarrow> int" where
  "int_succ x = (x + 1 + 2 ^ 31) mod 2 ^ 32 - 2 ^ 31"

text \<open>
  The number of \<open>int\<close> cells of the block that \<open>malloc( n * sizeof(int) )\<close> asks for
  (lines 81 and 85): \<open>n\<close> is converted to \<open>size_t\<close> (64 bits, unsigned) and multiplied
  there by \<open>sizeof(int)\<close>, which is 4.
\<close>

definition block_cells :: "int \<Rightarrow> nat" where
  "block_cells n = nat ((n mod 2 ^ 64) * 4 mod 2 ^ 64 div 4)"

subsection \<open>numpy arrays\<close>

datatype npy_type = NPY_INT32 | NPY_FLOAT32

text \<open>
  A \<open>PyArrayObject\<close>: its identity, element type, shape, whether its buffer is
  C-contiguous, and the element stored at each multi-index (what \<open>PyArray_GETPTR\<close>
  reads through the strides).
\<close>

record PyArrayObject =
  ob_addr :: addr
  type_num :: npy_type
  dims :: "nat list"
  c_contiguous :: bool
  item :: "nat list \<Rightarrow> 32 word"

definition PyArray_NDIM :: "PyArrayObject \<Rightarrow> nat" where
  "PyArray_NDIM a = length (dims a)"

definition PyArray_DIMS :: "PyArrayObject \<Rightarrow> nat list" where
  "PyArray_DIMS a = dims a"

definition PyArray_IS_C_CONTIGUOUS :: "PyArrayObject \<Rightarrow> bool" where
  "PyArray_IS_C_CONTIGUOUS a = c_contiguous a"

definition PyArray_GETPTR1 :: "PyArrayObject \<Rightarrow> nat \<Rightarrow> int32" where
  "PyArray_GETPTR1 a i = item a [i]"

definition PyArray_GETPTR2 :: "PyArrayObject \<Rightarrow> nat \<Rightarrow> nat \<Rightarrow> int32" where
  "PyArray_GETPTR2 a i j = item a [i, j]"

text \<open>
  A pointer to the data of an array: the object whose buffer it addresses, and the
  elements found there.
\<close>

record data_ptr =
  buffer_of :: addr
  cells :: "nat list \<Rightarrow> float32"

definition PyArray_DATA :: "PyArrayObject \<Rightarrow> data_ptr" where
  "PyArray_DATA a = \<lparr>buffer_of = ob_addr a, cells = item a\<rparr>"

text \<open>
  A pointer to a malloc'ed array of \<open>int\<close>: the block and its cells. A cell that was
  never written holds \<open>None\<close>.
\<close>

type_synonym int_ptr = "addr \<times> int32 option list"

subsection \<open>The external CTC library\<close>

text \<open>
  Modelled from the spec: the header of the external CTC library (ctc.h) is not part of
  the sources. The spec speaks of a compute location that is CPU or not, a thread count,
  and a status that is success or not; the options structure also carries the library's
  blank label.
\<close>

datatype ctcComputeLocation = CTC_CPU | CTC_GPU

record ctcOptions =
  loc :: ctcComputeLocation
  num_threads :: nat
  blank_label :: int

datatype ctcStatus_t = CTC_STATUS_SUCCESS | CTC_STATUS_FAILURE nat

text \<open>The arguments of the two library calls, as the adapter passes them.\<close>

record size_query_args =
  sq_label_lengths :: "int_ptr option"
  sq_input_lengths :: "int_ptr option"
  sq_alphabet_size :: int
  sq_minibatch :: int
  sq_options :: ctcOptions

record compute_args =
  cp_activations :: data_ptr
  cp_gradients :: data_ptr
  cp_flat_labels :: "int_ptr option"
  cp_label_lengths :: "int_ptr option"
  cp_input_lengths :: "int_ptr option"
  cp_alphabet_size :: int
  cp_minibatch :: int
  cp_costs :: data_ptr
  cp_workspace :: "addr option"
  cp_options :: ctcOptions

subsection \<open>The adapter's own data\<close>

text \<open>The struct \<open>ctc_context\<close> (lines 3 to 10).\<close>

record ctc_context =
  options :: ctcOptions
  workspace :: "addr option"
  input_lengths :: "int_ptr option"
  flat_labels :: "int_ptr option"
  label_lengths :: "int_ptr option"
  activations_copy :: "PyArrayObject option"

text \<open>The places where the adapter asks for storage.\<close>

datatype site =
  Context | ActivationsCopy | InputLengths | FlatLabels | LabelLengths
  | Costs | Gradients | Workspace

datatype exc = MemoryError | RuntimeError

text \<open>
  What the adapter does to its surroundings, in order: a malloc and its result, a new
  numpy array (\<open>PyArray_GETCONTIGUOUS\<close>, \<open>PyArray_ZEROS\<close>) and its result, a released
  allocation (\<open>free\<close>, \<open>Py_XDECREF\<close>), and the two library calls with their status.
\<close>

datatype event =
    Malloc site "addr option"
  | NewArray site "PyArrayObject option"
  | Release addr
  | GetWorkspaceSize size_query_args ctcStatus_t
  | ComputeCtcLoss compute_args ctcStatus_t

text \<open>
  The state the code runs in: the allocations that are live, the next unused allocation
  name, the events so far, and Python's error indicator.
\<close>

record world =
  live :: "addr list"
  next_addr :: addr
  trace :: "event list"
  py_err :: "(exc \<times> string) option"

text \<open>
  The surroundings of one call: whether the request for storage at each site succeeds,
  the bytes malloc hands out for the context struct, and the three functions of the
  library.
\<close>

record env =
  alloc_ok :: "site \<Rightarrow> bool"
  fresh_context :: ctc_context
  get_workspace_size :: "size_query_args \<Rightarrow> ctcStatus_t \<times> nat"
  compute_ctc_loss ::
    "compute_args \<Rightarrow> ctcStatus_t \<times> (nat list \<Rightarrow> float32) \<times> (nat list \<Rightarrow> float32)"
  ctcGetStatusString :: "ctcStatus_t \<Rightarrow> string"

subsection \<open>Allocation and release\<close>

text \<open>
  A request for storage is granted or refused as the environment says for its site; the
  size asked for (which malloc may refuse, also when it is zero) does not appear.
\<close>

definition take_block :: "world \<Rightarrow> world" where
  "take_block s = s\<lparr>live := next_addr s # live s, next_addr := Suc (next_addr s)\<rparr>"

definition new_block :: "env \<Rightarrow> site \<Rightarrow> world \<Rightarrow> addr option \<times> world" where
  "new_block e k s =
     (if alloc_ok e k then (Some (next_addr s), take_block s) else (None, s))"

definition log_event :: "event \<Rightarrow> world \<Rightarrow> world" where
  "log_event ev s = s\<lparr>trace := trace s @ [ev]\<rparr>"

definition malloc :: "env \<Rightarrow> site \<Rightarrow> world \<Rightarrow> addr option \<times> world" where
  "malloc e k s = (case new_block e k s of (p, s') \<Rightarrow> (p, log_event (Malloc k p) s'))"

definition free :: "addr \<Rightarrow> world \<Rightarrow> world" where
  "free p s = log_event (Release p) (s\<lparr>live := removeAll p (live s)\<rparr>)"

text \<open>
  \<open>Py_XDECREF\<close> does nothing on NULL. Every array the adapter releases holds the one
  reference the adapter owns, so dropping it ends the adapter's hold on the object.
\<close>

definition Py_XDECREF :: "PyArrayObject option \<Rightarrow> world \<Rightarrow> world" where
  "Py_XDECREF a s = (case a of None \<Rightarrow> s | Some arr \<Rightarrow> free (ob_addr arr) s)"

definition PyErr_Format :: "exc \<Rightarrow> string \<Rightarrow> world \<Rightarrow> world" where
  "PyErr_Format x msg s = s\<lparr>py_err := Some (x, msg)\<rparr>"

text \<open>
  Modelled from the spec: numpy is not part of the sources. For a non-contiguous array
  \<open>PyArray_GETCONTIGUOUS\<close> returns a new contiguous array with the same shape, type and
  elements, or NULL; the adapter calls it on non-contiguous arrays only (line 129).
\<close>

definition PyArray_GETCONTIGUOUS ::
  "env \<Rightarrow> PyArrayObject \<Rightarrow> world \<Rightarrow> PyArrayObject option \<times> world" where
  "PyArray_GETCONTIGUOUS e a s =
     (case new_block e ActivationsCopy s of
        (None, s') \<Rightarrow> (None, log_event (NewArray ActivationsCopy None) s')
      | (Some p, s') \<Rightarrow>
          (let c = a\<lparr>ob_addr := p, c_contiguous := True\<rparr>
           in (Some c, log_event (NewArray ActivationsCopy (Some c)) s')))"

text \<open>
  Modelled from the spec: \<open>PyArray_ZEROS\<close> returns a new C-contiguous array of the given
  shape and type with every element zero, or NULL; a negative dimension is refused.
\<close>

definition PyArray_ZEROS ::
  "env \<Rightarrow> site \<Rightarrow> int list \<Rightarrow> npy_type \<Rightarrow> world \<Rightarrow> PyArrayObject option \<times> world" where
  "PyArray_ZEROS e k shape t s =
     (if list_all (\<lambda>d. 0 \<le> d) shape
      then (case new_block e k s of
              (None, s') \<Rightarrow> (None, log_event (NewArray k None) s')
            | (Some p, s') \<Rightarrow>
                (let z = \<lparr>ob_addr = p, type_num = t, dims = map nat shape,
                          c_contiguous = True, item = (\<lambda>_. 0)\<rparr>
                 in (Some z, log_event (NewArray k (Some z)) s')))
      else (None, log_event (NewArray k None) s))"

subsection \<open>support\_code (lines 12 to 108)\<close>

definition zero_options :: ctcOptions where
  "zero_options = \<lparr>loc = CTC_CPU, num_threads = 0, blank_label = 0\<rparr>"

text \<open>
  \<open>ctc_context_init\<close> (lines 12 to 24). Line 14 copies the options of the context into
  a local variable; lines 15 to 17 work on that local, which is dropped at the end of the
  function. The five pointers are set through the context pointer.
\<close>

definition ctc_context_init :: "ctc_context \<Rightarrow> ctc_context" where
  "ctc_context_init ctx =
     (let local_options = options ctx;
          local_options = zero_options;
          local_options = local_options\<lparr>loc := CTC_CPU\<rparr>;
          local_options = local_options\<lparr>num_threads := 1\<rparr>
      in ctx\<lparr>workspace := None, input_lengths := None, flat_labels := None,
             label_lengths := None, activations_copy := None\<rparr>)"

text \<open>\<open>ctc_context_destroy\<close> (lines 26 to 41).\<close>

definition free_opt :: "addr option \<Rightarrow> world \<Rightarrow> world" where
  "free_opt p s = (case p of None \<Rightarrow> s | Some q \<Rightarrow> free q s)"

definition ctc_context_destroy :: "ctc_context \<Rightarrow> world \<Rightarrow> world" where
  "ctc_context_destroy ctx s =
     (let s1 = free_opt (workspace ctx) s;
          s2 = free_opt (map_option fst (input_lengths ctx)) s1;
          s3 = free_opt (map_option fst (flat_labels ctx)) s2;
          s4 = free_opt (map_option fst (label_lengths ctx)) s3
      in Py_XDECREF (activations_copy ctx) s4)"

text \<open>\<open>ctc_check_result\<close> (lines 43 to 57).\<close>

definition ctc_check_result :: "env \<Rightarrow> ctcStatus_t \<Rightarrow> string \<Rightarrow> world \<Rightarrow> int \<times> world" where
  "ctc_check_result e retcode msg s =
     (if CTC_STATUS_SUCCESS \<noteq> retcode
      then (let ctc_msg = ctcGetStatusString e retcode
            in (1, PyErr_Format RuntimeError
                     (msg @ '' | CTC library error message: '' @ ctc_msg) s))
      else (0, s))"

text \<open>
  \<open>create_contiguous_input_lengths\<close> (lines 59 to 73); first its loop (lines 69 to
  72), which fills a block of \<open>num_elements\<close> cells.
\<close>

definition input_lengths_loop :: "PyArrayObject \<Rightarrow> int \<Rightarrow> int32 option list" where
  "input_lengths_loop input_lengths_arr num_elements =
     fold (\<lambda>elem_idx buf.
             buf[elem_idx := Some (PyArray_GETPTR1 input_lengths_arr elem_idx)])
       [0..<nat num_elements] (replicate (nat num_elements) None)"

definition create_contiguous_input_lengths ::
  "env \<Rightarrow> PyArrayObject \<Rightarrow> world \<Rightarrow> int_ptr option \<times> world" where
  "create_contiguous_input_lengths e input_lengths_arr s =
     (let num_elements = c_int (PyArray_DIMS input_lengths_arr ! 0)
      in case malloc e InputLengths s of
           (None, s') \<Rightarrow> (None, s')
         | (Some p, s') \<Rightarrow> (Some (p, input_lengths_loop input_lengths_arr num_elements), s'))"

text \<open>
  A store through a pointer to a malloc'ed array lands in a cell of the block, or outside
  the block. C gives no meaning to a run after a store outside the block (the machine
  overwrites other memory or stops the process), so the model stops there: code ends
  \<open>Normal\<close> in the state it reached, or \<open>Overrun\<close> in the state in which it attempted a
  store outside a block.
\<close>

datatype 'a outcome = Normal 'a | Overrun 'a

fun returned :: "'a outcome \<Rightarrow> bool" where
  "returned (Normal x) = True"
| "returned (Overrun x) = False"

fun reached :: "'a outcome \<Rightarrow> 'a" where
  "reached (Normal x) = x"
| "reached (Overrun x) = x"

definition store :: "int32 option list \<Rightarrow> int \<Rightarrow> int32 \<Rightarrow> int32 option list option" where
  "store block idx v =
     (if 0 \<le> idx \<and> idx < int (length block) then Some (block[nat idx := Some v]) else None)"

text \<open>
  \<open>create_flat_labels\<close> (lines 75 to 108). The body of the inner loop (lines 99 to 104)
  works on the flat buffer, \<open>label_index\<close> and \<open>label_length\<close>; the body of the outer
  loop (lines 96 to 106) on the flat buffer, the lengths buffer and \<open>label_index\<close>.
  \<open>label_length\<close> counts entries of one row and stays below \<open>cols\<close>, an \<open>int\<close>.
\<close>

definition label_step ::
  "PyArrayObject \<Rightarrow> nat \<Rightarrow> nat \<Rightarrow> (int32 option list \<times> int \<times> int) outcome
     \<Rightarrow> (int32 option list \<times> int \<times> int) outcome" where
  "label_step label_matrix row_idx col_idx st =
     (case st of
        Overrun x \<Rightarrow> Overrun x
      | Normal (flat, label_index, label_length) \<Rightarrow>
          (let label = PyArray_GETPTR2 label_matrix row_idx col_idx
           in if 0 \<le>s label
              then (case store flat label_index label of
                      None \<Rightarrow> Overrun (flat, label_index, label_length)
                    | Some flat' \<Rightarrow> Normal (flat', int_succ label_index, label_length + 1))
              else Normal (flat, label_index, label_length)))"

definition row_step ::
  "PyArrayObject \<Rightarrow> int \<Rightarrow> nat \<Rightarrow> (int32 option list \<times> int32 option list \<times> int) outcome
     \<Rightarrow> (int32 option list \<times> int32 option list \<times> int) outcome" where
  "row_step label_matrix cols row_idx st =
     (case st of
        Overrun x \<Rightarrow> Overrun x
      | Normal (flat, lens, label_index) \<Rightarrow>
          (case fold (label_step label_matrix row_idx) [0..<nat cols]
                  (Normal (flat, label_index, 0)) of
             Overrun (flat', label_index', label_length) \<Rightarrow> Overrun (flat', lens, label_index')
           | Normal (flat', label_index', label_length) \<Rightarrow>
               (case store lens (int row_idx) (word_of_int label_length) of
                  None \<Rightarrow> Overrun (flat', lens, label_index')
                | Some lens' \<Rightarrow> Normal (flat', lens', label_index'))))"

text \<open>
  Lines 93 to 107 on the two fresh blocks of lines 81 and 85: the flat block has the cells
  of \<open>malloc( rows * cols * sizeof(int) )\<close>, with the product \<open>rows * cols\<close> taken in
  \<open>int\<close>, the lengths block those of \<open>malloc( rows * sizeof(int) )\<close>. The result is the
  flat buffer, the lengths buffer and \<open>label_index\<close>.
\<close>

definition label_loops ::
  "PyArrayObject \<Rightarrow> int \<Rightarrow> int
     \<Rightarrow> (int32 option list \<times> int32 option list \<times> int) outcome" where
  "label_loops label_matrix rows cols =
     fold (row_step label_matrix cols) [0..<nat rows]
       (Normal (replicate (block_cells (int_mul rows cols)) None,
                replicate (block_cells rows) None, 0))"

text \<open>
  The two out-parameters are passed as the values they hold on entry. Line 81 overwrites
  the first whatever it held; the second is written at line 85 only.
\<close>

definition create_flat_labels ::
  "env \<Rightarrow> PyArrayObject \<Rightarrow> int_ptr option \<Rightarrow> int_ptr option \<Rightarrow> world
     \<Rightarrow> (int_ptr option \<times> int_ptr option \<times> world) outcome" where
  "create_flat_labels e label_matrix flat_labels0 label_lengths0 s =
     (let rows = c_int (PyArray_DIMS label_matrix ! 0);
          cols = c_int (PyArray_DIMS label_matrix ! 1)
      in case malloc e FlatLabels s of
           (None, s1) \<Rightarrow> Normal (None, label_lengths0, s1)
         | (Some fp, s1) \<Rightarrow>
             (case malloc e LabelLengths s1 of
                (None, s2) \<Rightarrow> Normal (None, None, free fp s2)
              | (Some lp, s2) \<Rightarrow>
                  (case label_loops label_matrix rows cols of
                     Overrun (flat, lens, label_index) \<Rightarrow>
                       Overrun (Some (fp, flat), Some (lp, lens), s2)
                   | Normal (flat, lens, label_index) \<Rightarrow>
                       Normal (Some (fp, flat), Some (lp, lens), s2))))"

subsection \<open>support\_code\_apply: the entry point (lines 112 to 252)\<close>

text \<open>
  How a call ends: it returns an \<open>int\<close>, or it does not return: it dereferences the NULL
  pointer that the unchecked malloc of line 118 returned (line 119), or it stores outside
  the flat block (line 102).
\<close>

datatype exit = Return int | Crash

text \<open>
  What the caller has after the call: the return value, the state, the two output
  handles \<open>*out_costs\<close> and \<open>*out_gradients\<close>, and (for inspection) the context struct
  as the function left it.
\<close>

record result =
  ret :: exit
  final :: world
  costs_out :: "PyArrayObject option"
  gradients_out :: "PyArrayObject option"
  ctx_out :: "ctc_context option"

definition option_list :: "'a option \<Rightarrow> 'a list" where
  "option_list x = (case x of None \<Rightarrow> [] | Some y \<Rightarrow> [y])"

text \<open>The arrays the caller passes are live, and allocation names start above them.\<close>

definition caller_objects ::
  "PyArrayObject \<Rightarrow> PyArrayObject \<Rightarrow> PyArrayObject \<Rightarrow> PyArrayObject option
     \<Rightarrow> PyArrayObject option \<Rightarrow> addr list" where
  "caller_objects a l i c g = map ob_addr (a # l # i # option_list c @ option_list g)"

definition init_world :: "addr list \<Rightarrow> world" where
  "init_world objs =
     \<lparr>live = objs, next_addr = Suc (fold max objs 0), trace = [], py_err = None\<rparr>"

text \<open>The argument lists of lines 220 to 222 and of lines 240 to 242.\<close>

definition size_query_of :: "ctc_context \<Rightarrow> int \<Rightarrow> int \<Rightarrow> size_query_args" where
  "size_query_of ctx alphabet_size minibatch_size =
     \<lparr>sq_label_lengths = label_lengths ctx, sq_input_lengths = input_lengths ctx,
      sq_alphabet_size = alphabet_size, sq_minibatch = minibatch_size,
      sq_options = options ctx\<rparr>"

definition compute_args_of ::
  "ctc_context \<Rightarrow> data_ptr \<Rightarrow> data_ptr \<Rightarrow> int \<Rightarrow> int \<Rightarrow> data_ptr \<Rightarrow> compute_args" where
  "compute_args_of ctx activations gradients alphabet_size minibatch_size costs =
     \<lparr>cp_activations = activations, cp_gradients = gradients,
      cp_flat_labels = flat_labels ctx, cp_label_lengths = label_lengths ctx,
      cp_input_lengths = input_lengths ctx, cp_alphabet_size = alphabet_size,
      cp_minibatch = minibatch_size, cp_costs = costs, cp_workspace = workspace ctx,
      cp_options = options ctx\<rparr>"

text \<open>
  Lines 217 to 251: the size query, the workspace, the computation, the cleanup.
  \<open>costs\<close> and \<open>gradients\<close> are the data pointers taken at lines 189 and 215. The
  library writes its results through them; the model stores what it wrote in the two
  output arrays.
\<close>

definition call_library ::
  "env \<Rightarrow> addr \<Rightarrow> ctc_context \<Rightarrow> data_ptr \<Rightarrow> int \<Rightarrow> int \<Rightarrow> PyArrayObject \<Rightarrow> PyArrayObject
     \<Rightarrow> world \<Rightarrow> result" where
  "call_library e ctx_addr ctx activations alphabet_size minibatch_size
       costs_arr gradients_arr s =
     (let costs = PyArray_DATA costs_arr;
          gradients = PyArray_DATA gradients_arr;
          sq = size_query_of ctx alphabet_size minibatch_size;
          (status, cpu_workspace_size) = get_workspace_size e sq;
          s1 = log_event (GetWorkspaceSize sq status) s;
          (ctc_error, s2) = ctc_check_result e status ''Failed to obtain CTC workspace size!'' s1
      in if ctc_error \<noteq> 0
         then \<lparr>ret = Return 1, final = s2, costs_out = Some costs_arr,
               gradients_out = Some gradients_arr, ctx_out = Some ctx\<rparr>
         else
           (let (ws, s3) = malloc e Workspace s2;
                ctx1 = ctx\<lparr>workspace := ws\<rparr>
            in if ws = None
               then \<lparr>ret = Return 1,
                     final = PyErr_Format MemoryError
                               ''Failed to allocate memory for CTC workspace!''
                               (ctc_context_destroy ctx1 s3),
                     costs_out = Some costs_arr, gradients_out = Some gradients_arr,
                     ctx_out = Some ctx1\<rparr>
               else
                 (let cp = compute_args_of ctx1 activations gradients alphabet_size
                            minibatch_size costs;
                      (status2, costs_written, gradients_written) = compute_ctc_loss e cp;
                      s4 = log_event (ComputeCtcLoss cp status2) s3;
                      costs_arr1 = costs_arr\<lparr>item := costs_written\<rparr>;
                      gradients_arr1 = gradients_arr\<lparr>item := gradients_written\<rparr>;
                      (ctc_error2, s5) =
                        ctc_check_result e status2 ''Failed to compute CTC loss function!'' s4
                  in if ctc_error2 \<noteq> 0
                     then \<lparr>ret = Return 1, final = s5, costs_out = Some costs_arr1,
                           gradients_out = Some gradients_arr1, ctx_out = Some ctx1\<rparr>
                     else \<lparr>ret = Return 0,
                           final = free ctx_addr (ctc_context_destroy ctx1 s5),
                           costs_out = Some costs_arr1, gradients_out = Some gradients_arr1,
                           ctx_out = Some ctx1\<rparr>)))"

text \<open>
  Lines 164 to 215: the two output arrays. The tests of lines 170 to 172 and 191 to 195
  decide whether the array the caller passed is replaced.
\<close>

definition costs_replaced :: "PyArrayObject option \<Rightarrow> int \<Rightarrow> bool" where
  "costs_replaced out_costs cost_size =
     (case out_costs of
        None \<Rightarrow> True
      | Some c \<Rightarrow> PyArray_NDIM c \<noteq> 1 \<or> int (PyArray_DIMS c ! 0) \<noteq> cost_size)"

definition gradients_replaced :: "PyArrayObject option \<Rightarrow> PyArrayObject \<Rightarrow> bool" where
  "gradients_replaced out_gradients in_activations =
     (case out_gradients of
        None \<Rightarrow> True
      | Some g \<Rightarrow>
          PyArray_NDIM g \<noteq> 3 \<or>
          PyArray_DIMS g ! 0 \<noteq> PyArray_DIMS in_activations ! 0 \<or>
          PyArray_DIMS g ! 1 \<noteq> PyArray_DIMS in_activations ! 1 \<or>
          PyArray_DIMS g ! 2 \<noteq> PyArray_DIMS in_activations ! 2)"

text \<open>
  Lines 170 to 176 and lines 191 to 202: the array the caller passed is kept, or its
  reference is dropped and a zeroed array takes its place in the output handle.
\<close>

definition ensure_costs ::
  "env \<Rightarrow> PyArrayObject option \<Rightarrow> int \<Rightarrow> world \<Rightarrow> PyArrayObject option \<times> world" where
  "ensure_costs e out_costs cost_size s =
     (if costs_replaced out_costs cost_size
      then PyArray_ZEROS e Costs [cost_size] NPY_FLOAT32 (Py_XDECREF out_costs s)
      else (out_costs, s))"

definition ensure_gradients ::
  "env \<Rightarrow> PyArrayObject option \<Rightarrow> PyArrayObject \<Rightarrow> world
     \<Rightarrow> PyArrayObject option \<times> world" where
  "ensure_gradients e out_gradients in_activations s =
     (if gradients_replaced out_gradients in_activations
      then PyArray_ZEROS e Gradients
             (map int (take 3 (PyArray_DIMS in_activations))) NPY_FLOAT32
             (Py_XDECREF out_gradients s)
      else (out_gradients, s))"

definition prepare_outputs ::
  "env \<Rightarrow> addr \<Rightarrow> ctc_context \<Rightarrow> data_ptr \<Rightarrow> PyArrayObject \<Rightarrow> PyArrayObject option
     \<Rightarrow> PyArrayObject option \<Rightarrow> world \<Rightarrow> result" where
  "prepare_outputs e ctx_addr ctx activations in_activations out_costs out_gradients s =
     (let minibatch_size = c_int (PyArray_DIMS in_activations ! 1);
          alphabet_size = c_int (PyArray_DIMS in_activations ! 2);
          cost_size = minibatch_size;
          (out_costs1, s1) = ensure_costs e out_costs cost_size s
      in case out_costs1 of
           None \<Rightarrow>
             \<lparr>ret = Return 1,
              final = PyErr_Format MemoryError ''Could not allocate storage for CTC costs''
                        (ctc_context_destroy ctx s1),
              costs_out = None, gradients_out = out_gradients, ctx_out = Some ctx\<rparr>
         | Some costs_arr \<Rightarrow>
             (let (out_gradients1, s2) = ensure_gradients e out_gradients in_activations s1
              in case out_gradients1 of
                   None \<Rightarrow>
                     \<lparr>ret = Return 1,
                      final = PyErr_Format MemoryError
                                ''Could not allocate storage for CTC gradients!''
                                (ctc_context_destroy ctx s2),
                      costs_out = Some costs_arr, gradients_out = None, ctx_out = Some ctx\<rparr>
                 | Some gradients_arr \<Rightarrow>
                     call_library e ctx_addr ctx activations alphabet_size minibatch_size
                       costs_arr gradients_arr s2))"

text \<open>Lines 142 to 162: the input lengths and the flattened labels.\<close>

definition marshal_inputs ::
  "env \<Rightarrow> addr \<Rightarrow> ctc_context \<Rightarrow> data_ptr \<Rightarrow> PyArrayObject \<Rightarrow> PyArrayObject \<Rightarrow> PyArrayObject
     \<Rightarrow> PyArrayObject option \<Rightarrow> PyArrayObject option \<Rightarrow> world \<Rightarrow> result" where
  "marshal_inputs e ctx_addr ctx activations in_activations in_labels in_input_lengths
       out_costs out_gradients s =
     (let (il, s1) = create_contiguous_input_lengths e in_input_lengths s;
          ctx1 = ctx\<lparr>input_lengths := il\<rparr>
      in if input_lengths ctx1 = None
         then \<lparr>ret = Return 1,
               final = PyErr_Format MemoryError
                         ''Could not allocate storage for input lengths'' s1,
               costs_out = out_costs, gradients_out = out_gradients, ctx_out = Some ctx1\<rparr>
         else
           (case create_flat_labels e in_labels (flat_labels ctx1) (label_lengths ctx1) s1 of
              Overrun (fl, ll, s2) \<Rightarrow>
                \<lparr>ret = Crash, final = s2, costs_out = out_costs, gradients_out = out_gradients,
                 ctx_out = Some (ctx1\<lparr>flat_labels := fl, label_lengths := ll\<rparr>)\<rparr>
            | Normal (fl, ll, s2) \<Rightarrow>
                (let ctx2 = ctx1\<lparr>flat_labels := fl, label_lengths := ll\<rparr>
                 in if label_lengths ctx2 = None \<or> flat_labels ctx2 = None
                    then \<lparr>ret = Return 1,
                          final = PyErr_Format MemoryError
                                    ''Could not allocate storage for labels and their lengths''
                                    (ctc_context_destroy ctx2 s2),
                          costs_out = out_costs, gradients_out = out_gradients,
                          ctx_out = Some ctx2\<rparr>
                    else prepare_outputs e ctx_addr ctx2 activations in_activations
                           out_costs out_gradients s2)))"

text \<open>Lines 118 to 140, and from there the rest of the function.\<close>

definition ctc_cost_cpu ::
  "env \<Rightarrow> PyArrayObject \<Rightarrow> PyArrayObject \<Rightarrow> PyArrayObject \<Rightarrow> PyArrayObject option
     \<Rightarrow> PyArrayObject option \<Rightarrow> result" where
  "ctc_cost_cpu e in_activations in_labels in_input_lengths out_costs out_gradients =
     (let s0 = init_world
                 (caller_objects in_activations in_labels in_input_lengths
                    out_costs out_gradients)
      in case malloc e Context s0 of
           (None, s1) \<Rightarrow>
             \<lparr>ret = Crash, final = s1, costs_out = out_costs,
              gradients_out = out_gradients, ctx_out = None\<rparr>
         | (Some ctx_addr, s1) \<Rightarrow>
             (let ctx = ctc_context_init (fresh_context e)
              in if PyArray_IS_C_CONTIGUOUS in_activations
                 then marshal_inputs e ctx_addr ctx (PyArray_DATA in_activations)
                        in_activations in_labels in_input_lengths out_costs out_gradients s1
                 else
                   (let (c, s2) = PyArray_GETCONTIGUOUS e in_activations s1;
                        ctx1 = ctx\<lparr>activations_copy := c\<rparr>
                    in case activations_copy ctx1 of
                         Some arr \<Rightarrow>
                           marshal_inputs e ctx_addr ctx1 (PyArray_DATA arr)
                             in_activations in_labels in_input_lengths
                             out_costs out_gradients s2
                       | None \<Rightarrow>
                           \<lparr>ret = Return 1,
                            final = PyErr_Format MemoryError
                                      ''Could not create a contiguous copy of activations array.''
                                      s2,
                            costs_out = out_costs, gradients_out = out_gradients,
                            ctx_out = Some ctx1\<rparr>)))"

subsection \<open>Reading a run\<close>

text \<open>
  The buffers the adapter owns (the five pointers of the context struct) are requested at
  these sites; the context struct itself and the two output arrays are not among them.
\<close>

fun owned_site :: "site \<Rightarrow> bool" where
  "owned_site ActivationsCopy = True"
| "owned_site InputLengths = True"
| "owned_site FlatLabels = True"
| "owned_site LabelLengths = True"
| "owned_site Workspace = True"
| "owned_site Context = False"
| "owned_site Costs = False"
| "owned_site Gradients = False"

text \<open>The owned buffer an event hands out, and all of them along a trace.\<close>

fun handed_out :: "event \<Rightarrow> addr list" where
  "handed_out (Malloc k (Some p)) = (if owned_site k then [p] else [])"
| "handed_out (NewArray k (Some arr)) = (if owned_site k then [ob_addr arr] else [])"
| "handed_out _ = []"

definition allocated :: "event list \<Rightarrow> addr list" where
  "allocated tr = concat (map handed_out tr)"

text \<open>The owned buffers that are still live when the call ends.\<close>

definition leaked :: "result \<Rightarrow> addr list" where
  "leaked r = filter (\<lambda>p. p \<in> set (live (final r))) (allocated (trace (final r)))"

text \<open>The five pointers of a context struct that are not NULL, in the order of its fields.\<close>

definition owned_buffers :: "ctc_context \<Rightarrow> addr list" where
  "owned_buffers ctx =
     option_list (workspace ctx) @ option_list (map_option fst (input_lengths ctx)) @
     option_list (map_option fst (flat_labels ctx)) @
     option_list (map_option fst (label_lengths ctx)) @
     option_list (map_option ob_addr (activations_copy ctx))"

text \<open>A request for storage that was refused, and the site that asked.\<close>

fun failed_site :: "event \<Rightarrow> site option" where
  "failed_site (Malloc k None) = Some k"
| "failed_site (NewArray k None) = Some k"
| "failed_site _ = None"

fun is_release :: "event \<Rightarrow> bool" where
  "is_release (Release p) = True"
| "is_release _ = False"

text \<open>The events that follow the first refused request.\<close>

definition after_failure :: "event list \<Rightarrow> event list" where
  "after_failure tr = drop 1 (dropWhile (\<lambda>ev. failed_site ev = None) tr)"

text \<open>The message of the \<open>MemoryError\<close> the entry point raises for each site.\<close>

fun oom_message :: "site \<Rightarrow> string" where
  "oom_message ActivationsCopy = ''Could not create a contiguous copy of activations array.''"
| "oom_message InputLengths = ''Could not allocate storage for input lengths''"
| "oom_message FlatLabels = ''Could not allocate storage for labels and their lengths''"
| "oom_message LabelLengths = ''Could not allocate storage for labels and their lengths''"
| "oom_message Costs = ''Could not allocate storage for CTC costs''"
| "oom_message Gradients = ''Could not allocate storage for CTC gradients!''"
| "oom_message Workspace = ''Failed to allocate memory for CTC workspace!''"
| "oom_message Context = []"

text \<open>What a library call was given: its options, and its alphabet and batch sizes.\<close>

fun library_options :: "event \<Rightarrow> ctcOptions option" where
  "library_options (GetWorkspaceSize args st) = Some (sq_options args)"
| "library_options (ComputeCtcLoss args st) = Some (cp_options args)"
| "library_options _ = None"

fun library_sizes :: "event \<Rightarrow> (int \<times> int) option" where
  "library_sizes (GetWorkspaceSize args st) = Some (sq_alphabet_size args, sq_minibatch args)"
| "library_sizes (ComputeCtcLoss args st) = Some (cp_alphabet_size args, cp_minibatch args)"
| "library_sizes _ = None"

fun is_library_call :: "event \<Rightarrow> bool" where
  "is_library_call (GetWorkspaceSize args st) = True"
| "is_library_call (ComputeCtcLoss args st) = True"
| "is_library_call _ = False"

subsection \<open>Concrete inputs\<close>

text \<open>
  The examples of the spec: activations of shape [4, 2, 7], the label rows
  [3, 5, -1, -1] and [-1, -1, -1, -1], two input lengths.
\<close>

definition demo_activations :: PyArrayObject where
  "demo_activations =
     \<lparr>ob_addr = 1, type_num = NPY_FLOAT32, dims = [4, 2, 7], c_contiguous = True,
      item = (\<lambda>_. 0)\<rparr>"

definition demo_strided :: PyArrayObject where
  "demo_strided = demo_activations\<lparr>c_contiguous := False\<rparr>"

definition demo_labels :: PyArrayObject where
  "demo_labels =
     \<lparr>ob_addr = 2, type_num = NPY_INT32, dims = [2, 4], c_contiguous = True,
      item = (\<lambda>idx. [[3, 5, - 1, - 1], [- 1, - 1, - 1, - 1]] ! (idx ! 0) ! (idx ! 1))\<rparr>"

definition demo_input_lengths :: PyArrayObject where
  "demo_input_lengths =
     \<lparr>ob_addr = 3, type_num = NPY_INT32, dims = [2], c_contiguous = True,
      item = (\<lambda>_. 4)\<rparr>"

text \<open>Fresh memory that is all zero, and fresh memory that holds other bytes.\<close>

definition zeroed_context :: ctc_context where
  "zeroed_context =
     \<lparr>options = zero_options, workspace = None, input_lengths = None, flat_labels = None,
      label_lengths = None, activations_copy = None\<rparr>"

definition stale_context :: ctc_context where
  "stale_context =
     zeroed_context\<lparr>options := \<lparr>loc = CTC_GPU, num_threads = 8, blank_label = 0\<rparr>\<rparr>"

text \<open>
  A library that succeeds and writes zeros, with every allocation granted; and the
  variations used below.
\<close>

definition demo_env :: env where
  "demo_env =
     \<lparr>alloc_ok = (\<lambda>_. True), fresh_context = zeroed_context,
      get_workspace_size = (\<lambda>_. (CTC_STATUS_SUCCESS, 64)),
      compute_ctc_loss = (\<lambda>_. (CTC_STATUS_SUCCESS, (\<lambda>_. 0), (\<lambda>_. 0))),
      ctcGetStatusString = (\<lambda>_. ''execution failed'')\<rparr>"

definition compute_fails_env :: env where
  "compute_fails_env =
     demo_env\<lparr>compute_ctc_loss := (\<lambda>_. (CTC_STATUS_FAILURE 3, (\<lambda>_. 0), (\<lambda>_. 0)))\<rparr>"

definition size_fails_env :: env where
  "size_fails_env = demo_env\<lparr>get_workspace_size := (\<lambda>_. (CTC_STATUS_FAILURE 2, 0))\<rparr>"

definition no_workspace_env :: env where
  "no_workspace_env = demo_env\<lparr>alloc_ok := (\<lambda>k. k \<noteq> Workspace)\<rparr>"

definition stale_env :: env where
  "stale_env = demo_env\<lparr>fresh_context := stale_context\<rparr>"

subsection \<open>What the blocks of the entry point rely on\<close>

text \<open>
  A trace is quiet when it holds granted requests and releases only: no refused request
  and no library call.
\<close>

definition quiet :: "event list \<Rightarrow> bool" where
  "quiet tr = list_all (\<lambda>ev. \<not> is_library_call ev \<and> failed_site ev = None) tr"

text \<open>
  The context holds what a trace handed out: the workspace pointer is still NULL and
  every owned buffer of the trace is one of the context's pointers.
\<close>

definition held :: "ctc_context \<Rightarrow> event list \<Rightarrow> bool" where
  "held ctx tr = (workspace ctx = None \<and> set (allocated tr) \<subseteq> set (owned_buffers ctx))"

text \<open>The three integer buffers were granted somewhere along the trace.\<close>

definition stocked :: "event list \<Rightarrow> bool" where
  "stocked tr =
     ((\<exists>p. Malloc InputLengths (Some p) \<in> set tr) \<and>
      (\<exists>p. Malloc FlatLabels (Some p) \<in> set tr) \<and>
      (\<exists>p. Malloc LabelLengths (Some p) \<in> set tr))"

subsection \<open>Flattening, in the words of the spec\<close>

text \<open>
  Row \<open>r\<close> of the label matrix, the entries of a list that are not negative (read as
  signed 32-bit integers), the non-negative entries of all rows in row-major order, and
  their number per row.
\<close>

definition label_row :: "PyArrayObject \<Rightarrow> nat \<Rightarrow> int32 list" where
  "label_row m r = map (\<lambda>col. item m [r, col]) [0..<dims m ! 1]"

definition non_negative :: "int32 list \<Rightarrow> int32 list" where
  "non_negative vs = filter (\<lambda>v. \<not> sint v < 0) vs"

definition spec_flat_labels :: "PyArrayObject \<Rightarrow> int32 list" where
  "spec_flat_labels m = concat (map (\<lambda>r. non_negative (label_row m r)) [0..<dims m ! 0])"

definition spec_label_lengths :: "PyArrayObject \<Rightarrow> nat list" where
  "spec_label_lengths m = map (\<lambda>r. length (non_negative (label_row m r))) [0..<dims m ! 0]"

text \<open>What the inner loop of \<open>create_flat_labels\<close> appends for row \<open>r\<close>.\<close>

definition row_values :: "PyArrayObject \<Rightarrow> nat \<Rightarrow> nat \<Rightarrow> int32 list" where
  "row_values m ncols r = filter (\<lambda>v. 0 \<le>s v) (map (PyArray_GETPTR2 m r) [0..<ncols])"

subsection \<open>Properties of a result, as they are carried from block to block\<close>

abbreviation status_reported :: "env \<Rightarrow> result \<Rightarrow> bool" where
  "status_reported e r \<equiv>
     (\<forall>args st. GetWorkspaceSize args st \<in> set (trace (final r)) \<and> st \<noteq> CTC_STATUS_SUCCESS \<longrightarrow>
        ret r = Return 1 \<and>
        py_err (final r) =
          Some (RuntimeError,
                ''Failed to obtain CTC workspace size!'' @
                '' | CTC library error message: '' @ ctcGetStatusString e st)) \<and>
     (\<forall>args st. ComputeCtcLoss args st \<in> set (trace (final r)) \<and> st \<noteq> CTC_STATUS_SUCCESS \<longrightarrow>
        ret r = Return 1 \<and>
        py_err (final r) =
          Some (RuntimeError,
                ''Failed to compute CTC loss function!'' @
                '' | CTC library error message: '' @ ctcGetStatusString e st))"

abbreviation workspace_cleanup :: "result \<Rightarrow> bool" where
  "workspace_cleanup r \<equiv>
     Malloc Workspace None \<in> set (trace (final r)) \<longrightarrow>
       ret r = Return 1 \<and>
       py_err (final r) = Some (MemoryError, ''Failed to allocate memory for CTC workspace!'') \<and>
       stocked (trace (final r)) \<and>
       (\<forall>p \<in> set (allocated (trace (final r))).
          Release p \<in> set (trace (final r)) \<and> p \<notin> set (live (final r))) \<and>
       (\<forall>args st. ComputeCtcLoss args st \<notin> set (trace (final r)))"

abbreviation refusal_reported :: "result \<Rightarrow> bool" where
  "refusal_reported r \<equiv>
     (\<forall>ev k. ev \<in> set (trace (final r)) \<and> failed_site ev = Some k \<and> k \<noteq> Context \<longrightarrow>
        ret r = Return 1 \<and>
        py_err (final r) = Some (MemoryError, oom_message k) \<and>
        list_all is_release (after_failure (trace (final r))))"

abbreviation sizes_from :: "PyArrayObject \<Rightarrow> result \<Rightarrow> bool" where
  "sizes_from a r \<equiv>
     (\<forall>ev \<in> set (trace (final r)). \<forall>p. library_sizes ev = Some p \<longrightarrow>
        p = (c_int (PyArray_DIMS a ! 2), c_int (PyArray_DIMS a ! 1))) \<and>
     (ret r = Return 0 \<longrightarrow>
        (\<exists>z. costs_out r = Some z \<and> PyArray_NDIM z = 1 \<and>
             int (PyArray_DIMS z ! 0) = c_int (PyArray_DIMS a ! 1)))"

abbreviation activations_passed ::
  "data_ptr \<Rightarrow> PyArrayObject option \<Rightarrow> world \<Rightarrow> result \<Rightarrow> bool" where
  "activations_passed act cp s r \<equiv>
     (\<forall>args st. ComputeCtcLoss args st \<in> set (trace (final r)) \<longrightarrow> cp_activations args = act) \<and>
     (\<exists>ctx'. ctx_out r = Some ctx' \<and> activations_copy ctx' = cp) \<and>
     (\<forall>x. NewArray ActivationsCopy x \<in> set (trace (final r)) \<longrightarrow>
          NewArray ActivationsCopy x \<in> set (trace s))"

abbreviation options_from :: "ctcOptions \<Rightarrow> result \<Rightarrow> bool" where
  "options_from given r \<equiv>
     (\<forall>ev \<in> set (trace (final r)). \<forall>opts. library_options ev = Some opts \<longrightarrow> opts = given)"

abbreviation leaks_on_failure :: "result \<Rightarrow> bool" where
  "leaks_on_failure r \<equiv>
     (\<forall>args st. ComputeCtcLoss args st \<in> set (trace (final r)) \<and> st \<noteq> CTC_STATUS_SUCCESS \<longrightarrow>
        ret r = Return 1 \<and> (\<exists>p. Malloc Workspace (Some p) \<in> set (trace (final r)) \<and>
                                p \<in> set (leaked r)))"

abbreviation labels_paired :: "result \<Rightarrow> bool" where
  "labels_paired r \<equiv>
     (\<forall>ctx'. ctx_out r = Some ctx' \<longrightarrow>
        (flat_labels ctx' = None \<longleftrightarrow> label_lengths ctx' = None))"

abbreviation outputs_kept :: "PyArrayObject \<Rightarrow> PyArrayObject \<Rightarrow> world \<Rightarrow> result \<Rightarrow> bool" where
  "outputs_kept costs_arr grads_arr s r \<equiv>
     (\<exists>x. costs_out r = Some x \<and> ob_addr x = ob_addr costs_arr) \<and>
     (\<exists>y. gradients_out r = Some y \<and> ob_addr y = ob_addr grads_arr) \<and>
     (\<forall>k x. NewArray k x \<in> set (trace (final r)) \<longrightarrow> NewArray k x \<in> set (trace s))"

subsection \<open>More concrete inputs\<close>

text \<open>A gradients array of the shape of the activations, and surroundings that refuse one request.\<close>

definition demo_gradients :: PyArrayObject where
  "demo_gradients =
     \<lparr>ob_addr = 4, type_num = NPY_FLOAT32, dims = [4, 2, 7], c_contiguous = True,
      item = (\<lambda>_. 0)\<rparr>"

text \<open>Activations with a batch of three, one more than the label matrix has rows.\<close>

definition demo_wide :: PyArrayObject where
  "demo_wide = demo_activations\<lparr>dims := [4, 3, 7]\<rparr>"

definition no_copy_env :: env where
  "no_copy_env = demo_env\<lparr>alloc_ok := (\<lambda>k. k \<noteq> ActivationsCopy)\<rparr>"

definition no_input_lengths_env :: env where
  "no_input_lengths_env = demo_env\<lparr>alloc_ok := (\<lambda>k. k \<noteq> InputLengths)\<rparr>"

definition no_label_lengths_env :: env where
  "no_label_lengths_env = demo_env\<lparr>alloc_ok := (\<lambda>k. k \<noteq> LabelLengths)\<rparr>"

text \<open>
  A label matrix of 65536 rows and 65536 columns with every entry 0: the number of its
  cells, 4294967296, is 0 as a 32-bit integer.
\<close>

definition square_labels :: PyArrayObject where
  "square_labels =
     \<lparr>ob_addr = 2, type_num = NPY_INT32, dims = [65536, 65536], c_contiguous = True,
      item = (\<lambda>_. 0)\<rparr>"

text \<open>
  A label matrix of 4294967297 rows and no column: it has no cell, and the number of its
  rows is 1 as a 32-bit integer.
\<close>

definition tall_labels :: PyArrayObject where
  "tall_labels =
     \<lparr>ob_addr = 2, type_num = NPY_INT32, dims = [4294967297, 0], c_contiguous = True,
      item = (\<lambda>_. 0)\<rparr>"

section \<open>Properties\<close>

subsection \<open>The effect of each operation on the state\<close>

lemma log_event_simps [simp]:
  "trace (log_event ev s) = trace s @ [ev]" "live (log_event ev s) = live s"
  "py_err (log_event ev s) = py_err s" "next_addr (log_event ev s) = next_addr s"
  by (simp_all add: log_event_def)

lemma take_block_simps [simp]:
  "trace (take_block s) = trace s" "live (take_block s) = next_addr s # live s"
  "py_err (take_block s) = py_err s" "next_addr (take_block s) = Suc (next_addr s)"
  by (simp_all add: take_block_def)

lemma free_simps [simp]:
  "trace (free p s) = trace s @ [Release p]" "live (free p s) = removeAll p (live s)"
  "py_err (free p s) = py_err s" "next_addr (free p s) = next_addr s"
  by (simp_all add: free_def)

lemma PyErr_Format_simps [simp]:
  "trace (PyErr_Format x m s) = trace s" "live (PyErr_Format x m s) = live s"
  "py_err (PyErr_Format x m s) = Some (x, m)" "next_addr (PyErr_Format x m s) = next_addr s"
  by (simp_all add: PyErr_Format_def)

lemma Py_XDECREF_simps [simp]:
  "trace (Py_XDECREF a s) = trace s @ map Release (option_list (map_option ob_addr a))"
  "set (live (Py_XDECREF a s)) = set (live s) - set (option_list (map_option ob_addr a))"
  "py_err (Py_XDECREF a s) = py_err s" "next_addr (Py_XDECREF a s) = next_addr s"
  by (auto simp: Py_XDECREF_def option_list_def split: option.splits)

lemma ctc_context_destroy_simps [simp]:
  "trace (ctc_context_destroy ctx s) = trace s @ map Release (owned_buffers ctx)"
  "set (live (ctc_context_destroy ctx s)) = set (live s) - set (owned_buffers ctx)"
  "py_err (ctc_context_destroy ctx s) = py_err s"
  "next_addr (ctc_context_destroy ctx s) = next_addr s"
  by (auto simp: ctc_context_destroy_def owned_buffers_def option_list_def free_opt_def
      Py_XDECREF_def Let_def split: option.splits)

lemma ctc_check_result_eq:
  "ctc_check_result e st msg s =
     (if st = CTC_STATUS_SUCCESS then (0, s)
      else (1, PyErr_Format RuntimeError
                 (msg @ '' | CTC library error message: '' @ ctcGetStatusString e st) s))"
  by (auto simp: ctc_check_result_def)

lemma malloc_eq:
  "malloc e k s =
     (if alloc_ok e k
      then (Some (next_addr s), log_event (Malloc k (Some (next_addr s))) (take_block s))
      else (None, log_event (Malloc k None) s))"
  by (simp add: malloc_def new_block_def)

subsection \<open>Each block of the entry point, by cases\<close>

text \<open>
  One rule per block of the entry point: the paths through the block, the conditions under
  which each is taken, and what the block returns or hands on to the next block.
\<close>

lemma call_library_cases [consumes 1, case_names size_fail ws_fail compute_fail ok]:
  assumes r: "r = call_library e ctx_addr ctx act al mb costs_arr grads_arr s"
  obtains
    (size_fail) st n where
      "get_workspace_size e (size_query_of ctx al mb) = (st, n)"
      "st \<noteq> CTC_STATUS_SUCCESS"
      "r = \<lparr>ret = Return 1,
            final = PyErr_Format RuntimeError
                      (''Failed to obtain CTC workspace size!'' @
                       '' | CTC library error message: '' @ ctcGetStatusString e st)
                      (log_event (GetWorkspaceSize (size_query_of ctx al mb) st) s),
            costs_out = Some costs_arr, gradients_out = Some grads_arr, ctx_out = Some ctx\<rparr>"
  | (ws_fail) n where
      "get_workspace_size e (size_query_of ctx al mb) = (CTC_STATUS_SUCCESS, n)"
      "\<not> alloc_ok e Workspace"
      "r = \<lparr>ret = Return 1,
            final = PyErr_Format MemoryError ''Failed to allocate memory for CTC workspace!''
                      (ctc_context_destroy (ctx\<lparr>workspace := None\<rparr>)
                         (log_event (Malloc Workspace None)
                            (log_event (GetWorkspaceSize (size_query_of ctx al mb)
                                          CTC_STATUS_SUCCESS) s))),
            costs_out = Some costs_arr, gradients_out = Some grads_arr,
            ctx_out = Some (ctx\<lparr>workspace := None\<rparr>)\<rparr>"
  | (compute_fail) n st cw gw ctx1 cp s3 where
      "get_workspace_size e (size_query_of ctx al mb) = (CTC_STATUS_SUCCESS, n)"
      "alloc_ok e Workspace"
      "ctx1 = ctx\<lparr>workspace := Some (next_addr s)\<rparr>"
      "cp = compute_args_of ctx1 act (PyArray_DATA grads_arr) al mb (PyArray_DATA costs_arr)"
      "s3 = log_event (Malloc Workspace (Some (next_addr s)))
              (take_block (log_event (GetWorkspaceSize (size_query_of ctx al mb)
                                        CTC_STATUS_SUCCESS) s))"
      "compute_ctc_loss e cp = (st, cw, gw)"
      "st \<noteq> CTC_STATUS_SUCCESS"
      "r = \<lparr>ret = Return 1,
            final = PyErr_Format RuntimeError
                      (''Failed to compute CTC loss function!'' @
                       '' | CTC library error message: '' @ ctcGetStatusString e st)
                      (log_event (ComputeCtcLoss cp st) s3),
            costs_out = Some (costs_arr\<lparr>item := cw\<rparr>),
            gradients_out = Some (grads_arr\<lparr>item := gw\<rparr>), ctx_out = Some ctx1\<rparr>"
  | (ok) n cw gw ctx1 cp s3 where
      "get_workspace_size e (size_query_of ctx al mb) = (CTC_STATUS_SUCCESS, n)"
      "alloc_ok e Workspace"
      "ctx1 = ctx\<lparr>workspace := Some (next_addr s)\<rparr>"
      "cp = compute_args_of ctx1 act (PyArray_DATA grads_arr) al mb (PyArray_DATA costs_arr)"
      "s3 = log_event (Malloc Workspace (Some (next_addr s)))
              (take_block (log_event (GetWorkspaceSize (size_query_of ctx al mb)
                                        CTC_STATUS_SUCCESS) s))"
      "compute_ctc_loss e cp = (CTC_STATUS_SUCCESS, cw, gw)"
      "r = \<lparr>ret = Return 0,
            final = free ctx_addr
                      (ctc_context_destroy ctx1
                         (log_event (ComputeCtcLoss cp CTC_STATUS_SUCCESS) s3)),
            costs_out = Some (costs_arr\<lparr>item := cw\<rparr>),
            gradients_out = Some (grads_arr\<lparr>item := gw\<rparr>), ctx_out = Some ctx1\<rparr>"
proof -
  obtain st n where q: "get_workspace_size e (size_query_of ctx al mb) = (st, n)"
    by (cases "get_workspace_size e (size_query_of ctx al mb)")
  show thesis
  proof (cases "st = CTC_STATUS_SUCCESS")
    case False
    with q r show thesis
      by (intro size_fail [of st n]) (simp_all add: call_library_def Let_def ctc_check_result_eq)
  next
    case True
    note st = True
    show thesis
    proof (cases "alloc_ok e Workspace")
      case False
      with q st r show thesis
        by (intro ws_fail [of n])
          (simp_all add: call_library_def Let_def ctc_check_result_eq malloc_eq)
    next
      case True
      note ws = True
      define ctx1 where "ctx1 = ctx\<lparr>workspace := Some (next_addr s)\<rparr>"
      define cp where
        "cp = compute_args_of ctx1 act (PyArray_DATA grads_arr) al mb (PyArray_DATA costs_arr)"
      define s3 where
        "s3 = log_event (Malloc Workspace (Some (next_addr s)))
                (take_block (log_event (GetWorkspaceSize (size_query_of ctx al mb)
                                          CTC_STATUS_SUCCESS) s))"
      obtain st2 cw gw where c: "compute_ctc_loss e cp = (st2, cw, gw)"
        by (cases "compute_ctc_loss e cp")
      show thesis
      proof (cases "st2 = CTC_STATUS_SUCCESS")
        case False
        show thesis
          by (rule compute_fail [OF _ ws ctx1_def cp_def s3_def c False])
            (use q st ws c False r in
              \<open>simp_all add: call_library_def Let_def ctc_check_result_eq malloc_eq
                 ctx1_def [symmetric] cp_def [symmetric] s3_def [symmetric]\<close>)
      next
        case True
        show thesis
          by (rule ok [OF _ ws ctx1_def cp_def s3_def c [unfolded True]])
            (use q st ws c True r in
              \<open>simp_all add: call_library_def Let_def ctc_check_result_eq malloc_eq
                 ctx1_def [symmetric] cp_def [symmetric] s3_def [symmetric]\<close>)
      qed
    qed
  qed
qed


lemma PyArray_ZEROS_eq:
  "PyArray_ZEROS e k shape t s =
     (if alloc_ok e k \<and> list_all (\<lambda>d. 0 \<le> d) shape
      then (Some \<lparr>ob_addr = next_addr s, type_num = t, dims = map nat shape,
                  c_contiguous = True, item = (\<lambda>_. 0)\<rparr>,
            log_event (NewArray k (Some \<lparr>ob_addr = next_addr s, type_num = t,
                                         dims = map nat shape, c_contiguous = True,
                                         item = (\<lambda>_. 0)\<rparr>))
              (take_block s))
      else (None, log_event (NewArray k None) s))"
  by (simp add: PyArray_ZEROS_def new_block_def Let_def)

lemma PyArray_GETCONTIGUOUS_eq:
  "PyArray_GETCONTIGUOUS e a s =
     (if alloc_ok e ActivationsCopy
      then (Some (a\<lparr>ob_addr := next_addr s, c_contiguous := True\<rparr>),
            log_event (NewArray ActivationsCopy
                         (Some (a\<lparr>ob_addr := next_addr s, c_contiguous := True\<rparr>)))
              (take_block s))
      else (None, log_event (NewArray ActivationsCopy None) s))"
  by (simp add: PyArray_GETCONTIGUOUS_def new_block_def Let_def)

lemma ensure_costs_cases [consumes 1, case_names kept fresh refused]:
  assumes "ensure_costs e c n s = (x, s1)"
  obtains
    (kept) arr where
      "c = Some arr" "PyArray_NDIM arr = 1" "int (PyArray_DIMS arr ! 0) = n"
      "x = Some arr" "s1 = s"
  | (fresh) z where
      "costs_replaced c n" "alloc_ok e Costs" "0 \<le> n"
      "z = \<lparr>ob_addr = next_addr s, type_num = NPY_FLOAT32, dims = [nat n],
            c_contiguous = True, item = (\<lambda>_. 0)\<rparr>"
      "x = Some z"
      "s1 = log_event (NewArray Costs (Some z)) (take_block (Py_XDECREF c s))"
  | (refused)
      "costs_replaced c n" "\<not> (alloc_ok e Costs \<and> 0 \<le> n)"
      "x = None" "s1 = log_event (NewArray Costs None) (Py_XDECREF c s)"
proof (cases "costs_replaced c n")
  case False
  then obtain arr where "c = Some arr" "PyArray_NDIM arr = 1" "int (PyArray_DIMS arr ! 0) = n"
    by (cases c) (simp_all add: costs_replaced_def)
  moreover from assms False have "x = c" "s1 = s"
    by (simp_all add: ensure_costs_def)
  ultimately show thesis
    by (intro kept [of arr]) simp_all
next
  case True
  note rep = True
  show thesis
  proof (cases "alloc_ok e Costs \<and> 0 \<le> n")
    case True
    with assms rep show thesis
      by (intro fresh [OF rep _ _ refl]) (auto simp: ensure_costs_def PyArray_ZEROS_eq)
  next
    case False
    with assms rep show thesis
      by (intro refused [OF rep False]) (simp_all add: ensure_costs_def PyArray_ZEROS_eq)
  qed
qed

lemma ensure_gradients_cases [consumes 1, case_names kept fresh refused]:
  assumes "ensure_gradients e g a s = (x, s1)"
  obtains
    (kept) arr where
      "g = Some arr" "PyArray_NDIM arr = 3"
      "PyArray_DIMS arr ! 0 = PyArray_DIMS a ! 0"
      "PyArray_DIMS arr ! 1 = PyArray_DIMS a ! 1"
      "PyArray_DIMS arr ! 2 = PyArray_DIMS a ! 2"
      "x = Some arr" "s1 = s"
  | (fresh) z where
      "gradients_replaced g a" "alloc_ok e Gradients"
      "z = \<lparr>ob_addr = next_addr s, type_num = NPY_FLOAT32, dims = take 3 (PyArray_DIMS a),
            c_contiguous = True, item = (\<lambda>_. 0)\<rparr>"
      "x = Some z"
      "s1 = log_event (NewArray Gradients (Some z)) (take_block (Py_XDECREF g s))"
  | (refused)
      "gradients_replaced g a" "\<not> alloc_ok e Gradients"
      "x = None" "s1 = log_event (NewArray Gradients None) (Py_XDECREF g s)"
proof (cases "gradients_replaced g a")
  case False
  then obtain arr where "g = Some arr" "PyArray_NDIM arr = 3"
      "PyArray_DIMS arr ! 0 = PyArray_DIMS a ! 0"
      "PyArray_DIMS arr ! 1 = PyArray_DIMS a ! 1"
      "PyArray_DIMS arr ! 2 = PyArray_DIMS a ! 2"
    by (cases g) (simp_all add: gradients_replaced_def)
  moreover from assms False have "x = g" "s1 = s"
    by (simp_all add: ensure_gradients_def)
  ultimately show thesis
    by (intro kept [of arr]) simp_all
next
  case True
  note rep = True
  have nonneg: "list_all (\<lambda>d. 0 \<le> d) (map int (take 3 (PyArray_DIMS a)))"
    by (simp add: list_all_iff)
  show thesis
  proof (cases "alloc_ok e Gradients")
    case True
    with assms rep nonneg show thesis
      by (intro fresh [OF rep _ refl])
        (auto simp: ensure_gradients_def PyArray_ZEROS_eq comp_def)
  next
    case False
    with assms rep show thesis
      by (intro refused [OF rep False]) (simp_all add: ensure_gradients_def PyArray_ZEROS_eq)
  qed
qed

lemma prepare_outputs_cases [consumes 1, case_names costs_fail gradients_fail continue]:
  assumes r: "r = prepare_outputs e ctx_addr ctx act a c g s"
  obtains
    (costs_fail) s1 where
      "ensure_costs e c (c_int (PyArray_DIMS a ! 1)) s = (None, s1)"
      "r = \<lparr>ret = Return 1,
            final = PyErr_Format MemoryError ''Could not allocate storage for CTC costs''
                      (ctc_context_destroy ctx s1),
            costs_out = None, gradients_out = g, ctx_out = Some ctx\<rparr>"
  | (gradients_fail) costs_arr s1 s2 where
      "ensure_costs e c (c_int (PyArray_DIMS a ! 1)) s = (Some costs_arr, s1)"
      "ensure_gradients e g a s1 = (None, s2)"
      "r = \<lparr>ret = Return 1,
            final = PyErr_Format MemoryError ''Could not allocate storage for CTC gradients!''
                      (ctc_context_destroy ctx s2),
            costs_out = Some costs_arr, gradients_out = None, ctx_out = Some ctx\<rparr>"
  | (continue) costs_arr s1 grads_arr s2 where
      "ensure_costs e c (c_int (PyArray_DIMS a ! 1)) s = (Some costs_arr, s1)"
      "ensure_gradients e g a s1 = (Some grads_arr, s2)"
      "r = call_library e ctx_addr ctx act (c_int (PyArray_DIMS a ! 2))
             (c_int (PyArray_DIMS a ! 1)) costs_arr grads_arr s2"
proof -
  obtain x s1 where c1: "ensure_costs e c (c_int (PyArray_DIMS a ! 1)) s = (x, s1)"
    by (cases "ensure_costs e c (c_int (PyArray_DIMS a ! 1)) s")
  show thesis
  proof (cases x)
    case None
    with c1 r show thesis
      by (intro costs_fail [of s1]) (simp_all add: prepare_outputs_def Let_def)
  next
    case (Some costs_arr)
    note x = Some
    obtain y s2 where c2: "ensure_gradients e g a s1 = (y, s2)"
      by (cases "ensure_gradients e g a s1")
    show thesis
    proof (cases y)
      case None
      with c1 c2 x r show thesis
        by (intro gradients_fail [of costs_arr s1 s2]) (simp_all add: prepare_outputs_def Let_def)
    next
      case (Some grads_arr)
      with c1 c2 x r show thesis
        by (intro continue [of costs_arr s1 grads_arr s2])
          (simp_all add: prepare_outputs_def Let_def)
    qed
  qed
qed


lemma create_contiguous_input_lengths_eq:
  "create_contiguous_input_lengths e arr s =
     (if alloc_ok e InputLengths
      then (Some (next_addr s, input_lengths_loop arr (c_int (PyArray_DIMS arr ! 0))),
            log_event (Malloc InputLengths (Some (next_addr s))) (take_block s))
      else (None, log_event (Malloc InputLengths None) s))"
  by (simp add: create_contiguous_input_lengths_def malloc_eq Let_def)

lemma create_flat_labels_cases [consumes 1, case_names flat_refused lengths_refused granted]:
  assumes "create_flat_labels e m fl0 ll0 s = Normal (fl, ll, s2)"
  obtains
    (flat_refused)
      "\<not> alloc_ok e FlatLabels" "fl = None" "ll = ll0"
      "s2 = log_event (Malloc FlatLabels None) s"
  | (lengths_refused)
      "alloc_ok e FlatLabels" "\<not> alloc_ok e LabelLengths" "fl = None" "ll = None"
      "s2 = free (next_addr s)
              (log_event (Malloc LabelLengths None)
                 (log_event (Malloc FlatLabels (Some (next_addr s))) (take_block s)))"
  | (granted) flat lens idx where
      "alloc_ok e FlatLabels" "alloc_ok e LabelLengths"
      "label_loops m (c_int (PyArray_DIMS m ! 0)) (c_int (PyArray_DIMS m ! 1)) =
         Normal (flat, lens, idx)"
      "fl = Some (next_addr s, flat)" "ll = Some (Suc (next_addr s), lens)"
      "s2 = log_event (Malloc LabelLengths (Some (Suc (next_addr s))))
              (take_block (log_event (Malloc FlatLabels (Some (next_addr s))) (take_block s)))"
proof (cases "alloc_ok e FlatLabels")
  case False
  with assms show thesis
    by (intro flat_refused) (auto simp: create_flat_labels_def malloc_eq Let_def)
next
  case True
  note f = True
  show thesis
  proof (cases "alloc_ok e LabelLengths")
    case False
    with assms f show thesis
      by (intro lengths_refused) (auto simp: create_flat_labels_def malloc_eq Let_def)
  next
    case True
    show thesis
    proof (cases "label_loops m (c_int (PyArray_DIMS m ! 0)) (c_int (PyArray_DIMS m ! 1))")
      case (Overrun x)
      with assms f True show thesis
        by (cases x) (simp add: create_flat_labels_def malloc_eq Let_def)
    next
      case (Normal x)
      obtain flat lens idx where x: "x = (flat, lens, idx)"
        by (cases x)
      with assms f True Normal show thesis
        by (intro granted [OF f True Normal [unfolded x]])
          (auto simp: create_flat_labels_def malloc_eq Let_def)
    qed
  qed
qed

lemma create_flat_labels_overrun:
  assumes "create_flat_labels e m fl0 ll0 s = Overrun (fl, ll, s2)"
  obtains flat lens idx where
    "alloc_ok e FlatLabels" "alloc_ok e LabelLengths"
    "label_loops m (c_int (PyArray_DIMS m ! 0)) (c_int (PyArray_DIMS m ! 1)) =
       Overrun (flat, lens, idx)"
    "fl = Some (next_addr s, flat)" "ll = Some (Suc (next_addr s), lens)"
    "s2 = log_event (Malloc LabelLengths (Some (Suc (next_addr s))))
            (take_block (log_event (Malloc FlatLabels (Some (next_addr s))) (take_block s)))"
proof (cases "alloc_ok e FlatLabels")
  case False
  with assms show thesis
    by (simp add: create_flat_labels_def malloc_eq Let_def)
next
  case True
  note f = True
  show thesis
  proof (cases "alloc_ok e LabelLengths")
    case False
    with assms f show thesis
      by (simp add: create_flat_labels_def malloc_eq Let_def)
  next
    case True
    show thesis
    proof (cases "label_loops m (c_int (PyArray_DIMS m ! 0)) (c_int (PyArray_DIMS m ! 1))")
      case (Normal x)
      with assms f True show thesis
        by (cases x) (simp add: create_flat_labels_def malloc_eq Let_def)
    next
      case (Overrun x)
      obtain flat lens idx where x: "x = (flat, lens, idx)"
        by (cases x)
      with assms f True Overrun show thesis
        by (intro that [OF f True Overrun [unfolded x]])
          (auto simp: create_flat_labels_def malloc_eq Let_def)
    qed
  qed
qed

lemma marshal_inputs_cases
  [consumes 1, case_names input_lengths_fail overrun labels_fail continue]:
  assumes r: "r = marshal_inputs e ctx_addr ctx act a l i c g s"
  obtains
    (input_lengths_fail)
      "\<not> alloc_ok e InputLengths"
      "r = \<lparr>ret = Return 1,
            final = PyErr_Format MemoryError ''Could not allocate storage for input lengths''
                      (log_event (Malloc InputLengths None) s),
            costs_out = c, gradients_out = g,
            ctx_out = Some (ctx\<lparr>input_lengths := None\<rparr>)\<rparr>"
  | (overrun) il s1 flat lens idx where
      "alloc_ok e InputLengths" "alloc_ok e FlatLabels" "alloc_ok e LabelLengths"
      "il = (next_addr s, input_lengths_loop i (c_int (PyArray_DIMS i ! 0)))"
      "s1 = log_event (Malloc InputLengths (Some (next_addr s))) (take_block s)"
      "label_loops l (c_int (PyArray_DIMS l ! 0)) (c_int (PyArray_DIMS l ! 1)) =
         Overrun (flat, lens, idx)"
      "r = \<lparr>ret = Crash,
            final = log_event (Malloc LabelLengths (Some (Suc (next_addr s1))))
                      (take_block
                         (log_event (Malloc FlatLabels (Some (next_addr s1))) (take_block s1))),
            costs_out = c, gradients_out = g,
            ctx_out = Some (ctx\<lparr>input_lengths := Some il,
                                 flat_labels := Some (next_addr s1, flat),
                                 label_lengths := Some (Suc (next_addr s1), lens)\<rparr>)\<rparr>"
  | (labels_fail) il s1 fl ll s2 ctx2 where
      "alloc_ok e InputLengths"
      "il = (next_addr s, input_lengths_loop i (c_int (PyArray_DIMS i ! 0)))"
      "s1 = log_event (Malloc InputLengths (Some (next_addr s))) (take_block s)"
      "create_flat_labels e l (flat_labels ctx) (label_lengths ctx) s1 = Normal (fl, ll, s2)"
      "ll = None \<or> fl = None"
      "ctx2 = ctx\<lparr>input_lengths := Some il, flat_labels := fl, label_lengths := ll\<rparr>"
      "r = \<lparr>ret = Return 1,
            final = PyErr_Format MemoryError
                      ''Could not allocate storage for labels and their lengths''
                      (ctc_context_destroy ctx2 s2),
            costs_out = c, gradients_out = g, ctx_out = Some ctx2\<rparr>"
  | (continue) il s1 flp llp s2 ctx2 where
      "alloc_ok e InputLengths"
      "il = (next_addr s, input_lengths_loop i (c_int (PyArray_DIMS i ! 0)))"
      "s1 = log_event (Malloc InputLengths (Some (next_addr s))) (take_block s)"
      "create_flat_labels e l (flat_labels ctx) (label_lengths ctx) s1 =
         Normal (Some flp, Some llp, s2)"
      "ctx2 = ctx\<lparr>input_lengths := Some il, flat_labels := Some flp,
                   label_lengths := Some llp\<rparr>"
      "r = prepare_outputs e ctx_addr ctx2 act a c g s2"
proof (cases "alloc_ok e InputLengths")
  case False
  with r show thesis
    by (intro input_lengths_fail)
      (simp_all add: marshal_inputs_def create_contiguous_input_lengths_eq Let_def)
next
  case True
  note ok = True
  define il where "il = (next_addr s, input_lengths_loop i (c_int (PyArray_DIMS i ! 0)))"
  define s1 where "s1 = log_event (Malloc InputLengths (Some (next_addr s))) (take_block s)"
  show thesis
  proof (cases "create_flat_labels e l (flat_labels ctx) (label_lengths ctx) s1")
    case (Overrun x)
    obtain fl ll s2 where x: "x = (fl, ll, s2)"
      by (cases x)
    note lab = Overrun [unfolded x]
    from lab show thesis
    proof (rule create_flat_labels_overrun)
      fix flat lens idx
      assume *: "alloc_ok e FlatLabels" "alloc_ok e LabelLengths"
        "label_loops l (c_int (PyArray_DIMS l ! 0)) (c_int (PyArray_DIMS l ! 1)) =
           Overrun (flat, lens, idx)"
        "fl = Some (next_addr s1, flat)" "ll = Some (Suc (next_addr s1), lens)"
        "s2 = log_event (Malloc LabelLengths (Some (Suc (next_addr s1))))
                (take_block (log_event (Malloc FlatLabels (Some (next_addr s1))) (take_block s1)))"
      show thesis
        by (rule overrun [OF ok *(1,2) il_def s1_def *(3)])
          (use r ok lab *(4-6) in
            \<open>simp add: marshal_inputs_def create_contiguous_input_lengths_eq Let_def
               il_def [symmetric] s1_def [symmetric]\<close>)
    qed
  next
    case (Normal x)
    obtain fl ll s2 where x: "x = (fl, ll, s2)"
      by (cases x)
    note lab = Normal [unfolded x]
    show thesis
    proof (cases "ll = None \<or> fl = None")
      case True
      show thesis
        by (rule labels_fail [OF ok il_def s1_def lab True refl])
          (use r ok lab True in
            \<open>simp add: marshal_inputs_def create_contiguous_input_lengths_eq Let_def
               il_def [symmetric] s1_def [symmetric]\<close>)
    next
      case False
      then obtain flp llp where some: "fl = Some flp" "ll = Some llp"
        by auto
      show thesis
        by (rule continue [OF ok il_def s1_def lab [unfolded some] refl])
          (use r ok lab some in
            \<open>simp add: marshal_inputs_def create_contiguous_input_lengths_eq Let_def
               il_def [symmetric] s1_def [symmetric]\<close>)
    qed
  qed
qed

lemma ctc_context_init_simps [simp]:
  "options (ctc_context_init ctx) = options ctx"
  "workspace (ctc_context_init ctx) = None"
  "input_lengths (ctc_context_init ctx) = None"
  "flat_labels (ctc_context_init ctx) = None"
  "label_lengths (ctc_context_init ctx) = None"
  "activations_copy (ctc_context_init ctx) = None"
  by (simp_all add: ctc_context_init_def Let_def)

lemma ctc_cost_cpu_cases [consumes 1, case_names crash copy_fail contiguous copied]:
  assumes r: "r = ctc_cost_cpu e a l i c g"
  obtains
    (crash) s0 where
      "s0 = init_world (caller_objects a l i c g)"
      "\<not> alloc_ok e Context"
      "r = \<lparr>ret = Crash, final = log_event (Malloc Context None) s0,
            costs_out = c, gradients_out = g, ctx_out = None\<rparr>"
  | (copy_fail) s0 s1 ctx where
      "s0 = init_world (caller_objects a l i c g)"
      "s1 = log_event (Malloc Context (Some (next_addr s0))) (take_block s0)"
      "ctx = (ctc_context_init (fresh_context e))\<lparr>activations_copy := None\<rparr>"
      "alloc_ok e Context" "\<not> c_contiguous a" "\<not> alloc_ok e ActivationsCopy"
      "r = \<lparr>ret = Return 1,
            final = PyErr_Format MemoryError
                      ''Could not create a contiguous copy of activations array.''
                      (log_event (NewArray ActivationsCopy None) s1),
            costs_out = c, gradients_out = g, ctx_out = Some ctx\<rparr>"
  | (contiguous) s0 s1 where
      "s0 = init_world (caller_objects a l i c g)"
      "s1 = log_event (Malloc Context (Some (next_addr s0))) (take_block s0)"
      "alloc_ok e Context" "c_contiguous a"
      "r = marshal_inputs e (next_addr s0) (ctc_context_init (fresh_context e))
             (PyArray_DATA a) a l i c g s1"
  | (copied) s0 s1 arr where
      "s0 = init_world (caller_objects a l i c g)"
      "s1 = log_event (Malloc Context (Some (next_addr s0))) (take_block s0)"
      "alloc_ok e Context" "\<not> c_contiguous a" "alloc_ok e ActivationsCopy"
      "arr = a\<lparr>ob_addr := Suc (next_addr s0), c_contiguous := True\<rparr>"
      "r = marshal_inputs e (next_addr s0)
             ((ctc_context_init (fresh_context e))\<lparr>activations_copy := Some arr\<rparr>)
             (PyArray_DATA arr) a l i c g
             (log_event (NewArray ActivationsCopy (Some arr)) (take_block s1))"
proof -
  define s0 where "s0 = init_world (caller_objects a l i c g)"
  define s1 where "s1 = log_event (Malloc Context (Some (next_addr s0))) (take_block s0)"
  show thesis
  proof (cases "alloc_ok e Context")
    case False
    with r show thesis
      by (intro crash [OF s0_def False])
        (simp add: ctc_cost_cpu_def malloc_eq Let_def s0_def [symmetric])
  next
    case True
    note ok = True
    show thesis
    proof (cases "c_contiguous a")
      case True
      with r ok show thesis
        by (intro contiguous [OF s0_def s1_def ok True])
          (simp add: ctc_cost_cpu_def malloc_eq Let_def PyArray_IS_C_CONTIGUOUS_def
             s0_def [symmetric] s1_def [symmetric])
    next
      case False
      note nc = False
      show thesis
      proof (cases "alloc_ok e ActivationsCopy")
        case False
        with r ok nc show thesis
          by (intro copy_fail [OF s0_def s1_def refl ok nc False])
            (simp add: ctc_cost_cpu_def malloc_eq Let_def PyArray_IS_C_CONTIGUOUS_def
               PyArray_GETCONTIGUOUS_eq s0_def [symmetric] s1_def [symmetric])
      next
        case True
        with r ok nc show thesis
          by (intro copied [OF s0_def s1_def ok nc True refl])
            (simp add: ctc_cost_cpu_def malloc_eq Let_def PyArray_IS_C_CONTIGUOUS_def
               PyArray_GETCONTIGUOUS_eq s0_def [symmetric] s1_def [symmetric])
      qed
    qed
  qed
qed

subsection \<open>What holds on entry to each block\<close>

lemma quiet_simps [simp]:
  "quiet []" "quiet (xs @ ys) = (quiet xs \<and> quiet ys)"
  "quiet (ev # xs) = (\<not> is_library_call ev \<and> failed_site ev = None \<and> quiet xs)"
  "quiet (map Release ps)"
  by (auto simp: quiet_def list_all_iff)

lemma quiet_no_library [dest]:
  "quiet tr \<Longrightarrow> GetWorkspaceSize args st \<in> set tr \<Longrightarrow> False"
  "quiet tr \<Longrightarrow> ComputeCtcLoss args' st \<in> set tr \<Longrightarrow> False"
  by (auto simp: quiet_def list_all_iff)

lemma quiet_no_failure [dest]:
  "quiet tr \<Longrightarrow> ev \<in> set tr \<Longrightarrow> failed_site ev = Some k \<Longrightarrow> False"
  by (auto simp: quiet_def list_all_iff)

lemma quiet_not_refused [dest]:
  "quiet tr \<Longrightarrow> Malloc k None \<in> set tr \<Longrightarrow> False"
  "quiet tr \<Longrightarrow> NewArray k None \<in> set tr \<Longrightarrow> False"
  by (auto simp: quiet_def list_all_iff)

lemma allocated_simps [simp]:
  "allocated [] = []" "allocated (xs @ ys) = allocated xs @ allocated ys"
  "allocated (ev # xs) = handed_out ev @ allocated xs"
  "allocated (map Release ps) = []"
  by (induction ps) (simp_all add: allocated_def)

lemma init_world_simps [simp]:
  "trace (init_world objs) = []" "live (init_world objs) = objs"
  "py_err (init_world objs) = None" "next_addr (init_world objs) = Suc (fold max objs 0)"
  by (simp_all add: init_world_def)

lemma quiet_ensure_costs:
  assumes "ensure_costs e c n s = (Some x, s1)" "quiet (trace s)"
  shows "quiet (trace s1)"
  using assms by (cases rule: ensure_costs_cases) auto

lemma quiet_ensure_gradients:
  assumes "ensure_gradients e g a s = (Some x, s1)" "quiet (trace s)"
  shows "quiet (trace s1)"
  using assms by (cases rule: ensure_gradients_cases) auto

lemma quiet_create_flat_labels:
  assumes "create_flat_labels e m fl0 ll0 s = Normal (Some fl, Some ll, s2)" "quiet (trace s)"
  shows "quiet (trace s2)"
  using assms by (cases rule: create_flat_labels_cases) auto

lemma option_list_simps [simp]:
  "option_list None = []" "option_list (Some x) = [x]"
  by (simp_all add: option_list_def)

lemma held_ensure_costs:
  assumes "ensure_costs e c n s = (Some x, s1)" "held ctx (trace s)"
  shows "held ctx (trace s1)"
  using assms by (cases rule: ensure_costs_cases) (auto simp: held_def owned_buffers_def)

lemma held_ensure_gradients:
  assumes "ensure_gradients e g a s = (Some x, s1)" "held ctx (trace s)"
  shows "held ctx (trace s1)"
  using assms by (cases rule: ensure_gradients_cases) (auto simp: held_def owned_buffers_def)

lemma quiet_library_sizes [dest]:
  "quiet tr \<Longrightarrow> ev \<in> set tr \<Longrightarrow> library_sizes ev = Some p \<Longrightarrow> False"
  by (cases ev) (auto simp: quiet_def list_all_iff)

lemma fold_max_ge: "x \<in> set xs \<Longrightarrow> x \<le> fold max xs (b::nat)"
proof -
  assume "x \<in> set xs"
  then have "x \<le> Max (set (b # xs))"
    by (intro Max_ge) simp_all
  then show ?thesis
    by (simp only: Max.set_eq_fold)
qed

lemma caller_objects_below: "p \<in> set objs \<Longrightarrow> p < next_addr (init_world objs)"
  using fold_max_ge [of p objs 0] by simp

lemma grows_ensure_costs:
  assumes "ensure_costs e c n s = (x, s1)"
  shows "set (trace s) \<subseteq> set (trace s1)"
  using assms by (cases rule: ensure_costs_cases) auto

lemma grows_ensure_gradients:
  assumes "ensure_gradients e g a s = (x, s1)"
  shows "set (trace s) \<subseteq> set (trace s1)"
  using assms by (cases rule: ensure_gradients_cases) auto

lemma grows_create_flat_labels:
  assumes "create_flat_labels e m fl0 ll0 s = Normal (fl, ll, s2)"
  shows "set (trace s) \<subseteq> set (trace s2)"
  using assms by (cases rule: create_flat_labels_cases) auto

lemma grows_call_library:
  assumes "r = call_library e ctx_addr ctx act al mb costs_arr grads_arr s"
  shows "set (trace s) \<subseteq> set (trace (final r))"
  using assms by (cases rule: call_library_cases) auto

lemma grows_prepare_outputs:
  assumes "r = prepare_outputs e ctx_addr ctx act a c g s"
  shows "set (trace s) \<subseteq> set (trace (final r))"
  using assms
proof (cases rule: prepare_outputs_cases)
  case (costs_fail s1)
  with grows_ensure_costs [OF costs_fail(1)] show ?thesis by auto
next
  case (gradients_fail costs_arr s1 s2)
  with grows_ensure_costs [OF gradients_fail(1)] grows_ensure_gradients [OF gradients_fail(2)]
  show ?thesis by auto
next
  case (continue costs_arr s1 grads_arr s2)
  with grows_ensure_costs [OF continue(1)] grows_ensure_gradients [OF continue(2)]
    grows_call_library [OF continue(3)]
  show ?thesis by blast
qed

lemma grows_marshal_inputs:
  assumes "r = marshal_inputs e ctx_addr ctx act a l i c g s"
  shows "set (trace s) \<subseteq> set (trace (final r))"
  using assms
proof (cases rule: marshal_inputs_cases)
  case input_lengths_fail
  then show ?thesis by auto
next
  case (overrun il s1 flat lens idx)
  then show ?thesis by auto
next
  case (labels_fail il s1 fl ll s2 ctx2)
  with grows_create_flat_labels [OF labels_fail(4)] show ?thesis by auto
next
  case (continue il s1 flp llp s2 ctx2)
  with grows_create_flat_labels [OF continue(4)] grows_prepare_outputs [OF continue(6)]
  show ?thesis by auto
qed

subsection \<open>Evaluating a run on concrete inputs\<close>

lemmas run_defs =
  ctc_cost_cpu_def marshal_inputs_def prepare_outputs_def call_library_def
  ensure_costs_def ensure_gradients_def costs_replaced_def gradients_replaced_def
  create_contiguous_input_lengths_def create_flat_labels_def
  ctc_context_destroy_def ctc_check_result_def ctc_context_init_def
  init_world_def caller_objects_def option_list_def size_query_of_def compute_args_of_def
  malloc_def new_block_def take_block_def log_event_def free_def free_opt_def Py_XDECREF_def
  PyErr_Format_def PyArray_GETCONTIGUOUS_def PyArray_ZEROS_def
  PyArray_NDIM_def PyArray_DIMS_def PyArray_IS_C_CONTIGUOUS_def PyArray_DATA_def c_int_def

text \<open>The label loops on the example matrix: no store leaves its block.\<close>

lemma demo_label_loops:
  "label_loops demo_labels 2 4 =
     Normal ([Some 3, Some 5, None, None, None, None, None, None], [Some 2, Some 0], 2)"
proof -
  have cells: "block_cells (int_mul 2 4) = 8" "block_cells 2 = 2"
    by (simp_all add: block_cells_def int_mul_def)
  have blocks: "replicate 8 None = [None, None, None, None, None, None, None, None]"
    "replicate 2 None = [None, None]"
    by (simp_all add: numeral_eq_Suc)
  show ?thesis
    unfolding label_loops_def cells blocks
    by (simp add: row_step_def label_step_def store_def int_succ_def
        PyArray_GETPTR2_def demo_labels_def upt_rec word_sle_eq)
qed

lemma demo_labels_simps:
  "ob_addr demo_labels = 2" "dims demo_labels = [2, 4]"
  by (simp_all add: demo_labels_def)

lemmas demo_defs =
  demo_activations_def demo_strided_def demo_labels_simps demo_label_loops
  demo_input_lengths_def demo_gradients_def demo_wide_def zeroed_context_def
  stale_context_def zero_options_def demo_env_def
  compute_fails_env_def size_fails_env_def no_workspace_env_def stale_env_def
  no_input_lengths_env_def


lemma c_int_fits: "fits_int d \<Longrightarrow> c_int d = int d"
  by (simp add: c_int_def fits_int_def)

subsection \<open>Owned buffers at the end of a call\<close>

text \<open>
  Whenever the computation of the library fails, the call returns 1 while the workspace
  it was given is still live: line 246 returns without the cleanup of line 248.
\<close>

lemma leaks_call_library:
  assumes "r = call_library e ctx_addr ctx act al mb costs_arr grads_arr s"
    and "quiet (trace s)"
  shows "leaks_on_failure r"
  using assms(1)
proof (cases rule: call_library_cases)
  case (size_fail st n)
  with assms(2) show ?thesis by auto
next
  case (ws_fail n)
  with assms(2) show ?thesis by auto
next
  case (compute_fail n st cw gw ctx1 cp s3)
  with assms(2) show ?thesis by (auto simp: leaked_def)
next
  case (ok n cw gw ctx1 cp s3)
  with assms(2) show ?thesis by auto
qed

lemma leaks_prepare_outputs:
  assumes "r = prepare_outputs e ctx_addr ctx act a c g s"
    and "quiet (trace s)"
  shows "leaks_on_failure r"
  using assms(1)
proof (cases rule: prepare_outputs_cases)
  case (costs_fail s1)
  from costs_fail(1) show ?thesis
    by (cases rule: ensure_costs_cases) (use costs_fail(2) assms(2) in auto)
next
  case (gradients_fail costs_arr s1 s2)
  from gradients_fail(1) assms(2) have "quiet (trace s1)"
    by (rule quiet_ensure_costs)
  with gradients_fail(2) show ?thesis
    by (cases rule: ensure_gradients_cases) (use gradients_fail(3) in auto)
next
  case (continue costs_arr s1 grads_arr s2)
  from continue(1) assms(2) have "quiet (trace s1)"
    by (rule quiet_ensure_costs)
  with continue(2) have "quiet (trace s2)"
    by (rule quiet_ensure_gradients)
  with continue(3) show ?thesis
    by (rule leaks_call_library)
qed

lemma leaks_marshal_inputs:
  assumes "r = marshal_inputs e ctx_addr ctx act a l i c g s"
    and "quiet (trace s)"
  shows "leaks_on_failure r"
  using assms(1)
proof (cases rule: marshal_inputs_cases)
  case input_lengths_fail
  with assms(2) show ?thesis by auto
next
  case (overrun il s1 flat lens idx)
  with assms(2) show ?thesis by auto
next
  case (labels_fail il s1 fl ll s2 ctx2)
  from labels_fail(4) show ?thesis
    by (cases rule: create_flat_labels_cases) (use labels_fail assms(2) in auto)
next
  case (continue il s1 flp llp s2 ctx2)
  from assms(2) continue(3) have "quiet (trace s1)" by simp
  with continue(4) have "quiet (trace s2)"
    by (rule quiet_create_flat_labels)
  with continue(6) show ?thesis
    by (rule leaks_prepare_outputs)
qed

lemma compute_failure_always_leaks:
  assumes "r = ctc_cost_cpu e a l i c g"
  shows "leaks_on_failure r"
  using assms
proof (cases rule: ctc_cost_cpu_cases)
  case (crash s0)
  then show ?thesis by auto
next
  case (copy_fail s0 s1 ctx)
  then show ?thesis by auto
next
  case (contiguous s0 s1)
  from contiguous(5) show ?thesis
    by (rule leaks_marshal_inputs) (use contiguous(1,2) in simp)
next
  case (copied s0 s1 arr)
  from copied(7) show ?thesis
    by (rule leaks_marshal_inputs) (use copied(1,2) in simp)
qed

text \<open>
  C1 says that every exit path of the entry point frees the owned buffers (workspace,
  input lengths, flat labels, label lengths, activations copy), also when the compute
  stage reports a failure. The code does not: the returns of lines 226 and 246 (a failing
  library call) and of line 148 (no storage for the input lengths) skip
  \<open>ctc_context_destroy\<close>, which the other error paths call (lines 157, 181, 207, 233).
  On a non-contiguous activations array with a library whose computation fails, the call
  returns 1 and all five owned buffers are still live.
\<close>

theorem compute_failure_leaks:
  "ret (ctc_cost_cpu compute_fails_env demo_strided demo_labels demo_input_lengths None None)
     = Return 1 \<and>
   leaked (ctc_cost_cpu compute_fails_env demo_strided demo_labels demo_input_lengths None None)
     = [5, 6, 7, 8, 11]"
  by (simp add: leaked_def allocated_def run_defs demo_defs Let_def split_def)

subsection \<open>The options given to the library\<close>

text \<open>
  \<open>ctc_context_init\<close> sets the compute location and the thread count in a local copy of
  the options (line 14), so the options of the context stay what malloc handed out.
\<close>

lemma quiet_library_options [dest]:
  "quiet tr \<Longrightarrow> ev \<in> set tr \<Longrightarrow> library_options ev = Some opts \<Longrightarrow> False"
  by (cases ev) (auto simp: quiet_def list_all_iff)

lemma options_call_library:
  assumes "r = call_library e ctx_addr ctx act al mb costs_arr grads_arr s"
    and "quiet (trace s)"
  shows "options_from (options ctx) r"
  using assms(1)
  by (cases rule: call_library_cases)
    (use assms(2) in \<open>auto simp: size_query_of_def compute_args_of_def\<close>)

lemma options_prepare_outputs:
  assumes "r = prepare_outputs e ctx_addr ctx act a c g s"
    and "quiet (trace s)"
  shows "options_from (options ctx) r"
  using assms(1)
proof (cases rule: prepare_outputs_cases)
  case (costs_fail s1)
  from costs_fail(1) show ?thesis
    by (cases rule: ensure_costs_cases) (use costs_fail(2) assms(2) in auto)
next
  case (gradients_fail costs_arr s1 s2)
  from gradients_fail(1) assms(2) have "quiet (trace s1)"
    by (rule quiet_ensure_costs)
  with gradients_fail(2) show ?thesis
    by (cases rule: ensure_gradients_cases) (use gradients_fail(3) in auto)
next
  case (continue costs_arr s1 grads_arr s2)
  from continue(1) assms(2) have "quiet (trace s1)"
    by (rule quiet_ensure_costs)
  with continue(2) have "quiet (trace s2)"
    by (rule quiet_ensure_gradients)
  with continue(3) show ?thesis
    by (rule options_call_library)
qed

lemma options_marshal_inputs:
  assumes "r = marshal_inputs e ctx_addr ctx act a l i c g s"
    and "quiet (trace s)"
  shows "options_from (options ctx) r"
  using assms(1)
proof (cases rule: marshal_inputs_cases)
  case input_lengths_fail
  with assms(2) show ?thesis by auto
next
  case (overrun il s1 flat lens idx)
  with assms(2) show ?thesis by auto
next
  case (labels_fail il s1 fl ll s2 ctx2)
  from labels_fail(4) show ?thesis
    by (cases rule: create_flat_labels_cases) (use labels_fail assms(2) in auto)
next
  case (continue il s1 flp llp s2 ctx2)
  from assms(2) continue(3) have "quiet (trace s1)" by simp
  with continue(4) have "quiet (trace s2)"
    by (rule quiet_create_flat_labels)
  with continue(6) have "options_from (options ctx2) r"
    by (rule options_prepare_outputs)
  with continue(5) show ?thesis
    by simp
qed

lemma options_never_set:
  assumes "r = ctc_cost_cpu e a l i c g"
  shows "options_from (options (fresh_context e)) r"
  using assms
proof (cases rule: ctc_cost_cpu_cases)
  case (crash s0)
  then show ?thesis by auto
next
  case (copy_fail s0 s1 ctx)
  then show ?thesis by auto
next
  case (contiguous s0 s1)
  from contiguous(1,2) have "quiet (trace s1)" by simp
  with contiguous(5) have "options_from (options (ctc_context_init (fresh_context e))) r"
    by (rule options_marshal_inputs)
  then show ?thesis by simp
next
  case (copied s0 s1 arr)
  from copied(1,2)
  have "quiet (trace (log_event (NewArray ActivationsCopy (Some arr)) (take_block s1)))"
    by simp
  with copied(7) have "options_from
      (options ((ctc_context_init (fresh_context e))\<lparr>activations_copy := Some arr\<rparr>)) r"
    by (rule options_marshal_inputs)
  then show ?thesis by simp
qed

text \<open>
  C2 says that the options of both library calls name the CPU and exactly one thread.
  The code passes the options of the context as malloc left them: with fresh memory that
  is all zero the thread count is 0, and with fresh memory that holds other bytes the
  location is the GPU and the thread count 8.
\<close>

theorem options_are_fresh_memory:
  "List.map_filter library_options
     (trace (final (ctc_cost_cpu demo_env demo_activations demo_labels demo_input_lengths
                      None None)))
     = [\<lparr>loc = CTC_CPU, num_threads = 0, blank_label = 0\<rparr>,
        \<lparr>loc = CTC_CPU, num_threads = 0, blank_label = 0\<rparr>] \<and>
   List.map_filter library_options
     (trace (final (ctc_cost_cpu stale_env demo_activations demo_labels demo_input_lengths
                      None None)))
     = [\<lparr>loc = CTC_GPU, num_threads = 8, blank_label = 0\<rparr>,
        \<lparr>loc = CTC_GPU, num_threads = 8, blank_label = 0\<rparr>]"
  by (simp add: List.map_filter_def run_defs demo_defs Let_def split_def)

subsection \<open>The label loops\<close>

text \<open>
  Inside the range of an \<open>int\<close> the machine arithmetic is the arithmetic of the integers,
  and the blocks have the cells their sizes say.
\<close>

lemma int_mul_fits:
  assumes "fits_int (x * y)"
  shows "int_mul (int x) (int y) = int (x * y)"
proof -
  from assms have "int (x * y) < 2 ^ 31"
    by (simp add: fits_int_def flip: of_nat_mult)
  then have "(int (x * y) + 2 ^ 31) mod 2 ^ 32 - 2 ^ 31 = int (x * y)"
    by simp
  then show ?thesis
    by (simp add: int_mul_def flip: of_nat_mult)
qed

lemma int_succ_fits: "0 \<le> x \<Longrightarrow> x + 1 < 2 ^ 31 \<Longrightarrow> int_succ x = x + 1"
  by (simp add: int_succ_def)

lemma block_cells_fits: "fits_int n \<Longrightarrow> block_cells (int n) = n"
  by (simp add: block_cells_def fits_int_def)

lemma store_next_cell:
  "store (map Some ws @ None # rest) (int (length ws)) v = Some (map Some (ws @ [v]) @ rest)"
  using list_update_length [of "map Some ws" None rest "Some v"] by (simp add: store_def)

lemma label_step_fold:
  "length (filter (\<lambda>v. 0 \<le>s v) (map (PyArray_GETPTR2 m r) cs)) \<le> f \<Longrightarrow>
   length ws + f < 2 ^ 31 \<Longrightarrow>
   fold (label_step m r) cs (Normal (map Some ws @ replicate f None, int (length ws), len)) =
     Normal
       (map Some (ws @ filter (\<lambda>v. 0 \<le>s v) (map (PyArray_GETPTR2 m r) cs)) @
          replicate (f - length (filter (\<lambda>v. 0 \<le>s v) (map (PyArray_GETPTR2 m r) cs))) None,
        int (length ws + length (filter (\<lambda>v. 0 \<le>s v) (map (PyArray_GETPTR2 m r) cs))),
        len + int (length (filter (\<lambda>v. 0 \<le>s v) (map (PyArray_GETPTR2 m r) cs))))"
proof (induction cs arbitrary: ws f len)
  case Nil
  then show ?case by simp
next
  case (Cons col cs)
  show ?case
  proof (cases "0 \<le>s PyArray_GETPTR2 m r col")
    case False
    with Cons show ?thesis
      by (simp add: label_step_def)
  next
    case True
    with Cons.prems obtain f' where f: "f = Suc f'"
      by (cases f) auto
    from True Cons.prems f
    have le: "length (filter (\<lambda>v. 0 \<le>s v) (map (PyArray_GETPTR2 m r) cs)) \<le> f'"
      by simp
    from Cons.prems f have room: "length (ws @ [PyArray_GETPTR2 m r col]) + f' < 2 ^ 31"
      by simp
    from Cons.prems f have succ: "int_succ (int (length ws)) = int (length ws) + 1"
      by (intro int_succ_fits) simp_all
    from True f succ
    have step: "label_step m r col
                  (Normal (map Some ws @ None # replicate f' None, int (length ws), len)) =
                Normal (map Some (ws @ [PyArray_GETPTR2 m r col]) @ replicate f' None,
                        int (length (ws @ [PyArray_GETPTR2 m r col])), len + 1)"
      by (simp add: label_step_def store_next_cell)
    from Cons.IH [OF le room, of "len + 1"] True f
    show ?thesis
      by (simp add: step)
  qed
qed


lemma length_row_values: "length (row_values m ncols r) \<le> ncols"
  using length_filter_le [of "\<lambda>v. 0 \<le>s v" "map (PyArray_GETPTR2 m r) [0..<ncols]"]
  by (simp add: row_values_def)

lemma length_rows_upto:
  "length (concat (map (row_values m ncols) [0..<k])) \<le> k * ncols"
proof (induction k)
  case 0
  then show ?case by simp
next
  case (Suc k)
  with length_row_values [of m ncols k] show ?case
    by simp
qed

lemma write_row_length:
  "k < nrows \<Longrightarrow>
   (map g [0..<k] @ replicate (nrows - k) None)[k := Some x] =
     map (\<lambda>r. if r = k then Some x else g r) [0..<Suc k] @ replicate (nrows - Suc k) None"
proof -
  assume "k < nrows"
  then obtain d where d: "nrows - k = Suc d" "nrows - Suc k = d"
    by (cases "nrows - k") auto
  with list_update_length [of "map g [0..<k]" None "replicate d None" "Some x"]
  show ?thesis
    by simp
qed

lemma store_row_length:
  "k < nrows \<Longrightarrow>
   store (map g [0..<k] @ replicate (nrows - k) None) (int k) x =
     Some (map (\<lambda>r. if r = k then Some x else g r) [0..<Suc k] @ replicate (nrows - Suc k) None)"
  using write_row_length [of k nrows g x] by (simp add: store_def)

lemma row_step_fold:
  "k \<le> nrows \<Longrightarrow> nrows * ncols < 2 ^ 31 \<Longrightarrow>
   fold (row_step m (int ncols)) [0..<k]
       (Normal (replicate (nrows * ncols) None, replicate nrows None, 0)) =
     Normal
       (map Some (concat (map (row_values m ncols) [0..<k])) @
          replicate (nrows * ncols - length (concat (map (row_values m ncols) [0..<k]))) None,
        map (\<lambda>r. Some (word_of_int (int (length (row_values m ncols r))))) [0..<k] @
          replicate (nrows - k) None,
        int (length (concat (map (row_values m ncols) [0..<k]))))"
proof (induction k)
  case 0
  then show ?case
    using map_replicate [of Some] by simp
next
  case (Suc k)
  let ?done = "concat (map (row_values m ncols) [0..<k])"
  from Suc.prems have k: "k < nrows" by simp
  then have "Suc k * ncols \<le> nrows * ncols"
    by (intro mult_le_mono1) simp
  with length_rows_upto [of m ncols k] length_row_values [of m ncols k]
  have room: "length (row_values m ncols k) \<le> nrows * ncols - length ?done"
    by simp
  from length_rows_upto [of m ncols k] \<open>Suc k * ncols \<le> nrows * ncols\<close> Suc.prems(2)
  have small: "length ?done + (nrows * ncols - length ?done) < 2 ^ 31"
    by simp
  have inner: "fold (label_step m k) [0..<ncols]
                 (Normal (map Some ?done @ replicate (nrows * ncols - length ?done) None,
                          int (length ?done), 0)) =
               Normal
                 (map Some (?done @ row_values m ncols k) @
                    replicate (nrows * ncols - length ?done - length (row_values m ncols k)) None,
                  int (length ?done + length (row_values m ncols k)),
                  int (length (row_values m ncols k)))"
    using label_step_fold [of m k "[0..<ncols]" "nrows * ncols - length ?done" ?done 0]
      room small
    by (simp add: row_values_def)
  from Suc.IH k Suc.prems(2) inner show ?case
    by (simp add: row_step_def store_row_length cong: map_cong)
qed

lemma row_values_spec:
  "row_values m (dims m ! Suc 0) = (\<lambda>r. non_negative (label_row m r))"
proof
  fix r
  have "PyArray_GETPTR2 m r = (\<lambda>col. item m [r, col])"
    by (simp add: fun_eq_iff PyArray_GETPTR2_def)
  then show "row_values m (dims m ! Suc 0) r = non_negative (label_row m r)"
    by (simp add: row_values_def non_negative_def label_row_def word_sle_eq not_less)
qed

lemma label_loops_fit:
  assumes "fits_int (dims m ! 0)" "fits_int (dims m ! 1)" "fits_int (dims m ! 0 * dims m ! 1)"
  shows "label_loops m (c_int (dims m ! 0)) (c_int (dims m ! 1)) =
           Normal
             (map Some (spec_flat_labels m) @
                replicate (dims m ! 0 * dims m ! 1 - length (spec_flat_labels m)) None,
              map (\<lambda>k. Some (word_of_int (int k))) (spec_label_lengths m),
              int (length (spec_flat_labels m)))"
proof -
  from assms(3) have small: "dims m ! 0 * dims m ! 1 < 2 ^ 31"
    by (simp add: fits_int_def)
  have flat_cells:
    "block_cells (int_mul (int (dims m ! 0)) (int (dims m ! 1))) = dims m ! 0 * dims m ! 1"
    by (simp only: int_mul_fits [OF assms(3)] block_cells_fits [OF assms(3)])
  have lens_cells: "block_cells (int (dims m ! 0)) = dims m ! 0"
    by (rule block_cells_fits [OF assms(1)])
  have "label_loops m (int (dims m ! 0)) (int (dims m ! 1)) =
          fold (row_step m (int (dims m ! 1))) [0..<dims m ! 0]
            (Normal (replicate (dims m ! 0 * dims m ! 1) None, replicate (dims m ! 0) None, 0))"
    unfolding label_loops_def flat_cells lens_cells by simp
  with row_step_fold [of "dims m ! 0" "dims m ! 0" "dims m ! 1" m, OF le_refl small] assms(1,2)
  show ?thesis
    by (simp add: c_int_fits row_values_spec spec_flat_labels_def spec_label_lengths_def comp_def)
qed

lemma label_loops_no_rows:
  assumes "dims m ! 0 = 0"
  shows "label_loops m (c_int (dims m ! 0)) cols =
           Normal
             (map Some (spec_flat_labels m) @
                replicate (dims m ! 0 * dims m ! 1 - length (spec_flat_labels m)) None,
              map (\<lambda>k. Some (word_of_int (int k))) (spec_label_lengths m),
              int (length (spec_flat_labels m)))"
  using assms
  by (simp add: label_loops_def c_int_def int_mul_def block_cells_def spec_flat_labels_def
      spec_label_lengths_def)

lemma fits_columns:
  assumes "fits_int (rows * cols)" "rows \<noteq> 0"
  shows "fits_int cols"
proof -
  from assms(2) have "cols \<le> rows * cols"
    by simp
  moreover from assms(1) have "rows * cols < 2 ^ 31"
    by (simp add: fits_int_def)
  ultimately have "cols < 2 ^ 31"
    by (rule le_less_trans)
  then show ?thesis
    by (simp add: fits_int_def)
qed

lemma label_loops_spec:
  assumes "fits_int (dims m ! 0)" "fits_int (dims m ! 0 * dims m ! 1)"
  shows "label_loops m (c_int (dims m ! 0)) (c_int (dims m ! 1)) =
           Normal
             (map Some (spec_flat_labels m) @
                replicate (dims m ! 0 * dims m ! 1 - length (spec_flat_labels m)) None,
              map (\<lambda>k. Some (word_of_int (int k))) (spec_label_lengths m),
              int (length (spec_flat_labels m)))"
proof (cases "dims m ! 0 = 0")
  case True
  then show ?thesis
    by (rule label_loops_no_rows)
next
  case False
  with assms(2) have "fits_int (dims m ! 1)"
    by (rule fits_columns)
  with assms show ?thesis
    by (intro label_loops_fit)
qed

lemma sint_count:
  assumes "fits_int ncols" "k \<le> ncols"
  shows "sint (word_of_int (int k) :: int32) = int k"
proof -
  from assms have "int k < 2 ^ 31"
    by (simp add: fits_int_def)
  then have "signed_take_bit (31::nat) (int k) = int k"
    by (intro signed_take_bit_int_eq_self) simp_all
  then show ?thesis
    by (simp only: sint_sbintrunc') simp
qed

text \<open>
  C3, as it holds: for a label matrix whose number of rows and whose number of cells are
  in the range of a C \<open>int\<close>, and when both buffers are granted, \<open>create_flat_labels\<close>
  returns, with a flat buffer of \<open>rows * cols\<close> cells of which exactly the first
  \<open>label_index\<close> are written; they hold the entries that are not negative, row by row and
  left to right within a row, and \<open>label_index\<close> is their number. The lengths buffer holds
  for each row the number of its entries that are not negative. An entry is skipped
  exactly when it is negative as a signed integer.
\<close>

theorem flat_labels_spec:
  assumes ok: "alloc_ok e FlatLabels" "alloc_ok e LabelLengths"
    and fits: "fits_int (PyArray_DIMS m ! 0)"
      "fits_int (PyArray_DIMS m ! 0 * PyArray_DIMS m ! 1)"
  shows "\<exists>p q flat lens s'.
           create_flat_labels e m fl0 ll0 s = Normal (Some (p, flat), Some (q, lens), s') \<and>
           label_loops m (c_int (PyArray_DIMS m ! 0)) (c_int (PyArray_DIMS m ! 1)) =
             Normal (flat, lens, int (length (spec_flat_labels m))) \<and>
           flat = map Some (spec_flat_labels m) @
                    replicate (PyArray_DIMS m ! 0 * PyArray_DIMS m ! 1 -
                               length (spec_flat_labels m)) None \<and>
           map (map_option sint) lens = map (\<lambda>k. Some (int k)) (spec_label_lengths m) \<and>
           length (spec_flat_labels m) = sum_list (spec_label_lengths m)"
proof -
  let ?flat = "map Some (spec_flat_labels m) @
                 replicate (dims m ! 0 * dims m ! 1 - length (spec_flat_labels m)) None"
  let ?lens = "map (\<lambda>k. Some (word_of_int (int k) :: int32)) (spec_label_lengths m)"
  note loops = label_loops_spec [OF fits [unfolded PyArray_DIMS_def]]
  have counts: "sint (word_of_int (int k) :: int32) = int k"
    if "k \<in> set (spec_label_lengths m)" for k
  proof -
    from that obtain r where r: "r < dims m ! 0" "k = length (non_negative (label_row m r))"
      by (auto simp: spec_label_lengths_def)
    from fits(2) have "fits_int (dims m ! 0 * dims m ! 1)"
      by (simp add: PyArray_DIMS_def)
    moreover from r(1) have "dims m ! 0 \<noteq> 0"
      by simp
    ultimately have cols: "fits_int (dims m ! 1)"
      by (rule fits_columns)
    from r(2) have "k \<le> dims m ! 1"
      using length_row_values [of m "dims m ! 1" r] by (simp add: row_values_spec)
    with cols show ?thesis
      by (rule sint_count)
  qed
  then have lens: "map (map_option sint) ?lens = map (\<lambda>k. Some (int k)) (spec_label_lengths m)"
    by simp
  have total: "length (spec_flat_labels m) = sum_list (spec_label_lengths m)"
    by (simp add: spec_flat_labels_def spec_label_lengths_def length_concat comp_def)
  from ok loops
  have "create_flat_labels e m fl0 ll0 s =
          Normal (Some (next_addr s, ?flat), Some (Suc (next_addr s), ?lens),
                  log_event (Malloc LabelLengths (Some (Suc (next_addr s))))
                    (take_block (log_event (Malloc FlatLabels (Some (next_addr s)))
                       (take_block s))))"
    by (simp add: create_flat_labels_def malloc_eq Let_def PyArray_DIMS_def)
  with loops lens total show ?thesis
    by (simp add: PyArray_DIMS_def)
qed

lemma demo_labels_spec:
  "spec_flat_labels demo_labels = [3, 5]" "spec_label_lengths demo_labels = [2, 0]"
  by (simp_all add: spec_flat_labels_def spec_label_lengths_def non_negative_def
      label_row_def demo_labels_def upt_rec)

theorem flat_labels_spec_witness:
  "alloc_ok demo_env FlatLabels \<and> alloc_ok demo_env LabelLengths \<and>
   fits_int (PyArray_DIMS demo_labels ! 0) \<and>
   fits_int (PyArray_DIMS demo_labels ! 0 * PyArray_DIMS demo_labels ! 1) \<and>
   (\<exists>p q lens s'.
      create_flat_labels demo_env demo_labels None None (init_world []) =
        Normal (Some (p, [Some 3, Some 5, None, None, None, None, None, None]),
                Some (q, lens), s') \<and>
      map (map_option sint) lens = [Some 2, Some 0])"
proof -
  have ok: "alloc_ok demo_env FlatLabels" "alloc_ok demo_env LabelLengths"
    by (simp_all add: demo_env_def)
  have fits: "fits_int (PyArray_DIMS demo_labels ! 0)"
    "fits_int (PyArray_DIMS demo_labels ! 0 * PyArray_DIMS demo_labels ! 1)"
    by (simp_all add: fits_int_def PyArray_DIMS_def demo_labels_def)
  have shape: "PyArray_DIMS demo_labels = [2, 4]"
    by (simp add: PyArray_DIMS_def demo_labels_def)
  from flat_labels_spec [OF ok fits, of None None "init_world []"] obtain p q flat lens s' where
    "create_flat_labels demo_env demo_labels None None (init_world []) =
       Normal (Some (p, flat), Some (q, lens), s')"
    "flat = map Some (spec_flat_labels demo_labels) @
       replicate (PyArray_DIMS demo_labels ! 0 * PyArray_DIMS demo_labels ! 1 -
                  length (spec_flat_labels demo_labels)) None"
    "map (map_option sint) lens = map (\<lambda>k. Some (int k)) (spec_label_lengths demo_labels)"
    by blast
  moreover have "map Some (spec_flat_labels demo_labels) @
       replicate (PyArray_DIMS demo_labels ! 0 * PyArray_DIMS demo_labels ! 1 -
                  length (spec_flat_labels demo_labels)) None =
     [Some 3, Some 5, None, None, None, None, None, None]"
    by (simp add: demo_labels_spec shape numeral_eq_Suc)
  ultimately show ?thesis
    using ok fits by (simp add: demo_labels_spec)
qed

lemma label_step_overrun: "fold (label_step m r) cs (Overrun x) = Overrun x"
  by (induction cs) (simp_all add: label_step_def)

lemma row_step_overrun: "fold (row_step m cols) rs (Overrun x) = Overrun x"
  by (induction rs) (simp_all add: row_step_def)

lemma square_label_loops:
  "label_loops square_labels 65536 65536 = Overrun ([], replicate 65536 None, 0)"
proof -
  have rows: "[0..<nat 65536] = 0 # [Suc 0..<nat 65536]"
    by (rule upt_conv_Cons) simp
  have step: "label_step square_labels 0 0 (Normal ([], 0, 0)) = Overrun ([], 0, 0)"
    by (simp add: label_step_def store_def PyArray_GETPTR2_def square_labels_def)
  have inner: "fold (label_step square_labels 0) [0..<nat 65536] (Normal ([], 0, 0)) =
               Overrun ([], 0, 0)"
    unfolding rows fold_Cons comp_apply step by (rule label_step_overrun)
  have cells: "block_cells (int_mul 65536 65536) = 0" "block_cells 65536 = 65536"
    by (simp_all add: block_cells_def int_mul_def)
  have first: "row_step square_labels 65536 0 (Normal ([], replicate 65536 None, 0)) =
               Overrun ([], replicate 65536 None, 0)"
    unfolding row_step_def by (simp only: outcome.case prod.case inner)
  show ?thesis
    unfolding label_loops_def cells rows fold_Cons comp_apply
    by (simp only: replicate_0 first row_step_overrun)
qed


text \<open>
  C3 as the spec words it speaks of every label matrix. A matrix of 65536 rows and 65536
  columns has 4294967296 cells, which is 0 as an \<open>int\<close>: with both buffers granted,
  the flat block of line 81 has no cell, and the first entry, which is not negative, is
  stored outside it (line 102). \<open>create_flat_labels\<close> does not return.
\<close>

theorem flat_labels_overrun:
  "alloc_ok demo_env FlatLabels \<and> alloc_ok demo_env LabelLengths \<and>
   PyArray_DIMS square_labels = [65536, 65536] \<and>
   PyArray_GETPTR2 square_labels 0 0 = 0 \<and>
   \<not> returned (create_flat_labels demo_env square_labels None None (init_world [])) \<and>
   fst (reached (create_flat_labels demo_env square_labels None None (init_world []))) =
     Some (1, [])"
proof -
  have loops: "label_loops square_labels (c_int (PyArray_DIMS square_labels ! 0))
                 (c_int (PyArray_DIMS square_labels ! 1)) =
               Overrun ([], replicate 65536 None, 0)"
    using square_label_loops by (simp add: c_int_def PyArray_DIMS_def square_labels_def)
  have "create_flat_labels demo_env square_labels None None (init_world []) =
          Overrun (Some (1, []), Some (2, replicate 65536 None),
                   log_event (Malloc LabelLengths (Some 2))
                     (take_block (log_event (Malloc FlatLabels (Some 1))
                        (take_block (init_world [])))))"
    using loops by (simp add: create_flat_labels_def malloc_eq Let_def demo_env_def)
  then show ?thesis
    by (simp add: demo_env_def PyArray_DIMS_def PyArray_GETPTR2_def square_labels_def)
qed

text \<open>
  The number of rows is read as an \<open>int\<close> of its own (line 78): for a matrix of
  4294967297 rows and no column, whose cells are none, \<open>create_flat_labels\<close> returns a
  lengths buffer of one cell.
\<close>

lemma flat_labels_tall:
  "length (spec_label_lengths tall_labels) = 4294967297 \<and>
   returned (create_flat_labels demo_env tall_labels None None (init_world [])) \<and>
   fst (snd (reached (create_flat_labels demo_env tall_labels None None (init_world [])))) =
     Some (2, [Some 0])"
proof -
  have cells: "block_cells (int_mul 1 0) = 0" "block_cells 1 = 1"
    by (simp_all add: block_cells_def int_mul_def)
  have "label_loops tall_labels 1 0 = Normal ([], [Some 0], 0)"
    unfolding label_loops_def cells
    by (simp add: row_step_def store_def)
  then have loops: "label_loops tall_labels (c_int (PyArray_DIMS tall_labels ! 0))
                 (c_int (PyArray_DIMS tall_labels ! 1)) = Normal ([], [Some 0], 0)"
    by (simp add: c_int_def PyArray_DIMS_def tall_labels_def)
  have "create_flat_labels demo_env tall_labels None None (init_world []) =
          Normal (Some (1, []), Some (2, [Some 0]),
                  log_event (Malloc LabelLengths (Some 2))
                    (take_block (log_event (Malloc FlatLabels (Some 1))
                       (take_block (init_world [])))))"
    using loops by (simp add: create_flat_labels_def malloc_eq Let_def demo_env_def)
  then show ?thesis
    by (simp add: spec_label_lengths_def tall_labels_def)
qed

subsection \<open>Calls that return\<close>

text \<open>
  Past the label loops nothing stops a call, and the label loops stay inside their blocks
  when the rows and the cells of the label matrix are in the range of an \<open>int\<close>: with a
  context struct, such a call returns.
\<close>

lemma returns_prepare_outputs:
  assumes "r = prepare_outputs e ctx_addr ctx act a c g s"
  shows "ret r \<noteq> Crash"
  using assms
proof (cases rule: prepare_outputs_cases)
  case (costs_fail s1)
  then show ?thesis by simp
next
  case (gradients_fail costs_arr s1 s2)
  then show ?thesis by simp
next
  case (continue costs_arr s1 grads_arr s2)
  from continue(3) show ?thesis
    by (cases rule: call_library_cases) simp_all
qed

lemma returns_marshal_inputs:
  assumes "r = marshal_inputs e ctx_addr ctx act a l i c g s"
    and "fits_int (PyArray_DIMS l ! 0)" "fits_int (PyArray_DIMS l ! 0 * PyArray_DIMS l ! 1)"
  shows "ret r \<noteq> Crash"
  using assms(1)
proof (cases rule: marshal_inputs_cases)
  case input_lengths_fail
  then show ?thesis by simp
next
  case (overrun il s1 flat lens idx)
  with label_loops_spec [OF assms(2,3) [unfolded PyArray_DIMS_def]] show ?thesis
    by (simp add: PyArray_DIMS_def)
next
  case (labels_fail il s1 fl ll s2 ctx2)
  then show ?thesis by simp
next
  case (continue il s1 flp llp s2 ctx2)
  from continue(6) show ?thesis
    by (rule returns_prepare_outputs)
qed

lemma in_range_call_returns:
  assumes "r = ctc_cost_cpu e a l i c g"
    and "alloc_ok e Context"
    and "fits_int (PyArray_DIMS l ! 0)" "fits_int (PyArray_DIMS l ! 0 * PyArray_DIMS l ! 1)"
  shows "ret r \<noteq> Crash"
  using assms(1)
proof (cases rule: ctc_cost_cpu_cases)
  case (crash s0)
  with assms(2) show ?thesis by simp
next
  case (copy_fail s0 s1 ctx)
  then show ?thesis by simp
next
  case (contiguous s0 s1)
  from contiguous(5) assms(3,4) show ?thesis
    by (rule returns_marshal_inputs)
next
  case (copied s0 s1 arr)
  from copied(7) assms(3,4) show ?thesis
    by (rule returns_marshal_inputs)
qed

subsection \<open>The activations pointer\<close>

lemma passed_call_library:
  assumes "r = call_library e ctx_addr ctx act al mb costs_arr grads_arr s"
    and "quiet (trace s)"
  shows "activations_passed act (activations_copy ctx) s r"
  using assms(1)
proof (cases rule: call_library_cases)
  case (size_fail st n)
  with assms(2) show ?thesis by auto
next
  case (ws_fail n)
  with assms(2) show ?thesis by auto
next
  case (compute_fail n st cw gw ctx1 cp s3)
  with assms(2) show ?thesis by (auto simp: compute_args_of_def)
next
  case (ok n cw gw ctx1 cp s3)
  with assms(2) show ?thesis by (auto simp: compute_args_of_def)
qed

lemma passed_prepare_outputs:
  assumes "r = prepare_outputs e ctx_addr ctx act a c g s"
    and "quiet (trace s)"
  shows "activations_passed act (activations_copy ctx) s r"
  using assms(1)
proof (cases rule: prepare_outputs_cases)
  case (costs_fail s1)
  from costs_fail(1) show ?thesis
    by (cases rule: ensure_costs_cases) (use costs_fail(2) assms(2) in auto)
next
  case (gradients_fail costs_arr s1 s2)
  from gradients_fail(1) assms(2) have q1: "quiet (trace s1)"
    by (rule quiet_ensure_costs)
  from gradients_fail(1) have t1: "\<forall>x. NewArray ActivationsCopy x \<in> set (trace s1) \<longrightarrow>
      NewArray ActivationsCopy x \<in> set (trace s)"
    by (cases rule: ensure_costs_cases) auto
  from gradients_fail(2) show ?thesis
    by (cases rule: ensure_gradients_cases) (use gradients_fail(3) q1 t1 in auto)
next
  case (continue costs_arr s1 grads_arr s2)
  from continue(1) assms(2) have q1: "quiet (trace s1)"
    by (rule quiet_ensure_costs)
  with continue(2) have q2: "quiet (trace s2)"
    by (rule quiet_ensure_gradients)
  from continue(1) have t1: "\<forall>x. NewArray ActivationsCopy x \<in> set (trace s1) \<longrightarrow>
      NewArray ActivationsCopy x \<in> set (trace s)"
    by (cases rule: ensure_costs_cases) auto
  from continue(2) have t2: "\<forall>x. NewArray ActivationsCopy x \<in> set (trace s2) \<longrightarrow>
      NewArray ActivationsCopy x \<in> set (trace s1)"
    by (cases rule: ensure_gradients_cases) auto
  from continue(3) q2 have "activations_passed act (activations_copy ctx) s2 r"
    by (rule passed_call_library)
  with t1 t2 show ?thesis
    by blast
qed

lemma passed_marshal_inputs:
  assumes "r = marshal_inputs e ctx_addr ctx act a l i c g s"
    and "quiet (trace s)"
  shows "activations_passed act (activations_copy ctx) s r"
  using assms(1)
proof (cases rule: marshal_inputs_cases)
  case input_lengths_fail
  with assms(2) show ?thesis by auto
next
  case (overrun il s1 flat lens idx)
  with assms(2) show ?thesis by auto
next
  case (labels_fail il s1 fl ll s2 ctx2)
  from labels_fail(4) show ?thesis
    by (cases rule: create_flat_labels_cases) (use labels_fail assms(2) in auto)
next
  case (continue il s1 flp llp s2 ctx2)
  from assms(2) continue(3) have "quiet (trace s1)" by simp
  with continue(4) have q2: "quiet (trace s2)"
    by (rule quiet_create_flat_labels)
  from continue(4) have t2: "\<forall>x. NewArray ActivationsCopy x \<in> set (trace s2) \<longrightarrow>
      NewArray ActivationsCopy x \<in> set (trace s)"
    by (cases rule: create_flat_labels_cases) (use continue(3) in auto)
  from continue(6) q2 have "activations_passed act (activations_copy ctx2) s2 r"
    by (rule passed_prepare_outputs)
  with t2 continue(5) show ?thesis
    by auto
qed

text \<open>
  The computation of the library is reached whenever nothing before it ends the call, and
  every call that returns 0 has run it with success.
\<close>

lemma called_call_library:
  assumes "r = call_library e ctx_addr ctx act al mb costs_arr grads_arr s"
  shows "(ret r = Return 0 \<longrightarrow>
            (\<exists>args. ComputeCtcLoss args CTC_STATUS_SUCCESS \<in> set (trace (final r)))) \<and>
         ((\<forall>q. fst (get_workspace_size e q) = CTC_STATUS_SUCCESS) \<and> alloc_ok e Workspace \<longrightarrow>
            (\<exists>args st. ComputeCtcLoss args st \<in> set (trace (final r))))"
  using assms
proof (cases rule: call_library_cases)
  case (size_fail st n)
  from size_fail(1,2) have "\<not> (\<forall>q. fst (get_workspace_size e q) = CTC_STATUS_SUCCESS)"
    by (auto intro: exI [of _ "size_query_of ctx al mb"])
  with size_fail(3) show ?thesis by auto
next
  case (ws_fail n)
  then show ?thesis by simp
next
  case (compute_fail n st cw gw ctx1 cp s3)
  from compute_fail(8) have "ComputeCtcLoss cp st \<in> set (trace (final r))"
    by simp
  with compute_fail(8) show ?thesis by auto
next
  case (ok n cw gw ctx1 cp s3)
  from ok(7) have "ComputeCtcLoss cp CTC_STATUS_SUCCESS \<in> set (trace (final r))"
    by simp
  then show ?thesis by auto
qed

lemma called_prepare_outputs:
  assumes "r = prepare_outputs e ctx_addr ctx act a c g s"
  shows "(ret r = Return 0 \<longrightarrow>
            (\<exists>args. ComputeCtcLoss args CTC_STATUS_SUCCESS \<in> set (trace (final r)))) \<and>
         ((\<forall>q. fst (get_workspace_size e q) = CTC_STATUS_SUCCESS) \<and> alloc_ok e Workspace \<and>
          alloc_ok e Costs \<and> alloc_ok e Gradients \<and> 0 \<le> c_int (PyArray_DIMS a ! 1) \<longrightarrow>
            (\<exists>args st. ComputeCtcLoss args st \<in> set (trace (final r))))"
  using assms
proof (cases rule: prepare_outputs_cases)
  case (costs_fail s1)
  from costs_fail(1)
  have "\<not> (alloc_ok e Costs \<and> 0 \<le> c_int (PyArray_DIMS a ! 1))"
    by (cases rule: ensure_costs_cases) simp_all
  with costs_fail(2) show ?thesis by auto
next
  case (gradients_fail costs_arr s1 s2)
  from gradients_fail(2) have "\<not> alloc_ok e Gradients"
    by (cases rule: ensure_gradients_cases) simp_all
  with gradients_fail(3) show ?thesis by auto
next
  case (continue costs_arr s1 grads_arr s2)
  from called_call_library [OF continue(3)] show ?thesis
    by blast
qed

lemma called_marshal_inputs:
  assumes "r = marshal_inputs e ctx_addr ctx act a l i c g s"
  shows "(ret r = Return 0 \<longrightarrow>
            (\<exists>args. ComputeCtcLoss args CTC_STATUS_SUCCESS \<in> set (trace (final r)))) \<and>
         ((\<forall>k. alloc_ok e k) \<and> (\<forall>q. fst (get_workspace_size e q) = CTC_STATUS_SUCCESS) \<and>
          0 \<le> c_int (PyArray_DIMS a ! 1) \<and> ret r \<noteq> Crash \<longrightarrow>
            (\<exists>args st. ComputeCtcLoss args st \<in> set (trace (final r))))"
  using assms
proof (cases rule: marshal_inputs_cases)
  case input_lengths_fail
  then show ?thesis by auto
next
  case (overrun il s1 flat lens idx)
  then show ?thesis by simp
next
  case (labels_fail il s1 fl ll s2 ctx2)
  from labels_fail(4) have "\<not> (alloc_ok e FlatLabels \<and> alloc_ok e LabelLengths)"
    by (cases rule: create_flat_labels_cases) (use labels_fail(5) in auto)
  with labels_fail(7) show ?thesis by auto
next
  case (continue il s1 flp llp s2 ctx2)
  from called_prepare_outputs [OF continue(6)] show ?thesis
    by blast
qed

text \<open>
  C4: when the activations array is C-contiguous, no copy is requested, the context holds
  no copy, and the computation is given the data pointer of the caller's own array.
  When it is not contiguous and the copy is granted, the copy is a new object, contiguous,
  with the shape, type and elements of the original, the context owns it, and the
  computation is given its data pointer. When the copy is refused, the call returns 1 with
  a MemoryError that names the copy, and the library is never called. The computation is
  run in every call that returns 0, and in every call that returns when all storage is
  granted, the size query succeeds and the batch size is not negative as an \<open>int\<close>; so in
  these calls the library does receive the pointer named above.
\<close>

theorem contiguous_activations_or_copy:
  assumes "r = ctc_cost_cpu e a l i c g"
  shows "(c_contiguous a \<longrightarrow>
            (\<forall>x. NewArray ActivationsCopy x \<notin> set (trace (final r))) \<and>
            (\<forall>ctx'. ctx_out r = Some ctx' \<longrightarrow> activations_copy ctx' = None) \<and>
            (\<forall>args st. ComputeCtcLoss args st \<in> set (trace (final r)) \<longrightarrow>
               cp_activations args = PyArray_DATA a \<and>
               buffer_of (cp_activations args) = ob_addr a)) \<and>
         (\<not> c_contiguous a \<and> alloc_ok e Context \<and> alloc_ok e ActivationsCopy \<longrightarrow>
            (\<exists>arr ctx'.
               NewArray ActivationsCopy (Some arr) \<in> set (trace (final r)) \<and>
               ctx_out r = Some ctx' \<and> activations_copy ctx' = Some arr \<and>
               ob_addr arr \<notin> set (caller_objects a l i c g) \<and>
               c_contiguous arr \<and> item arr = item a \<and> dims arr = dims a \<and>
               type_num arr = type_num a \<and>
               (\<forall>args st. ComputeCtcLoss args st \<in> set (trace (final r)) \<longrightarrow>
                  cp_activations args = PyArray_DATA arr))) \<and>
         (\<not> c_contiguous a \<and> alloc_ok e Context \<and> \<not> alloc_ok e ActivationsCopy \<longrightarrow>
            ret r = Return 1 \<and>
            py_err (final r) =
              Some (MemoryError, ''Could not create a contiguous copy of activations array.'') \<and>
            (\<forall>ev \<in> set (trace (final r)). \<not> is_library_call ev)) \<and>
         (ret r = Return 0 \<longrightarrow>
            (\<exists>args. ComputeCtcLoss args CTC_STATUS_SUCCESS \<in> set (trace (final r)))) \<and>
         ((\<forall>k. alloc_ok e k) \<and> (\<forall>q. fst (get_workspace_size e q) = CTC_STATUS_SUCCESS) \<and>
          0 \<le> c_int (PyArray_DIMS a ! 1) \<and> ret r \<noteq> Crash \<longrightarrow>
            (\<exists>args st. ComputeCtcLoss args st \<in> set (trace (final r))))"
  using assms
proof (cases rule: ctc_cost_cpu_cases)
  case (crash s0)
  then show ?thesis by auto
next
  case (copy_fail s0 s1 ctx)
  then show ?thesis by auto
next
  case (contiguous s0 s1)
  from contiguous(1,2) have "quiet (trace s1)" by simp
  with contiguous(5)
  have "activations_passed (PyArray_DATA a)
          (activations_copy (ctc_context_init (fresh_context e))) s1 r"
    by (rule passed_marshal_inputs)
  with contiguous(1-4) have old: "(\<forall>x. NewArray ActivationsCopy x \<notin> set (trace (final r))) \<and>
      (\<forall>ctx'. ctx_out r = Some ctx' \<longrightarrow> activations_copy ctx' = None) \<and>
      (\<forall>args st. ComputeCtcLoss args st \<in> set (trace (final r)) \<longrightarrow>
         cp_activations args = PyArray_DATA a \<and> buffer_of (cp_activations args) = ob_addr a)"
    by (auto simp: PyArray_DATA_def)
  from old called_marshal_inputs [OF contiguous(5)] contiguous(4) show ?thesis
    by blast
next
  case (copied s0 s1 arr)
  from copied(1,2)
  have "quiet (trace (log_event (NewArray ActivationsCopy (Some arr)) (take_block s1)))"
    by simp
  with copied(7)
  have *: "activations_passed (PyArray_DATA arr)
          (activations_copy ((ctc_context_init (fresh_context e))\<lparr>activations_copy := Some arr\<rparr>))
          (log_event (NewArray ActivationsCopy (Some arr)) (take_block s1)) r"
    by (rule passed_marshal_inputs)
  have fresh: "ob_addr arr \<notin> set (caller_objects a l i c g)"
    using caller_objects_below [of "ob_addr arr" "caller_objects a l i c g"] copied(1,6)
    by auto
  have mem: "NewArray ActivationsCopy (Some arr) \<in> set (trace (final r))"
    using grows_marshal_inputs [OF copied(7)] by auto
  from * fresh mem copied(3-6)
  have old: "\<exists>arr ctx'.
      NewArray ActivationsCopy (Some arr) \<in> set (trace (final r)) \<and>
      ctx_out r = Some ctx' \<and> activations_copy ctx' = Some arr \<and>
      ob_addr arr \<notin> set (caller_objects a l i c g) \<and>
      c_contiguous arr \<and> item arr = item a \<and> dims arr = dims a \<and>
      type_num arr = type_num a \<and>
      (\<forall>args st. ComputeCtcLoss args st \<in> set (trace (final r)) \<longrightarrow>
         cp_activations args = PyArray_DATA arr)"
    by auto
  from old called_marshal_inputs [OF copied(7)] copied(4,5) show ?thesis
    by blast
qed

theorem contiguous_activations_or_copy_witness:
  "c_contiguous demo_activations \<and>
   (\<forall>x. NewArray ActivationsCopy x \<notin>
      set (trace (final (ctc_cost_cpu demo_env demo_activations demo_labels
                           demo_input_lengths None None)))) \<and>
   ret (ctc_cost_cpu demo_env demo_activations demo_labels demo_input_lengths None None)
     = Return 0 \<and>
   (\<exists>args. ComputeCtcLoss args CTC_STATUS_SUCCESS \<in>
      set (trace (final (ctc_cost_cpu demo_env demo_activations demo_labels
                           demo_input_lengths None None))) \<and>
      cp_activations args = PyArray_DATA demo_activations \<and>
      buffer_of (cp_activations args) = ob_addr demo_activations) \<and>
   \<not> c_contiguous demo_strided \<and> alloc_ok demo_env Context \<and>
   alloc_ok demo_env ActivationsCopy \<and>
   ret (ctc_cost_cpu demo_env demo_strided demo_labels demo_input_lengths None None)
     = Return 0 \<and>
   (\<exists>arr args. NewArray ActivationsCopy (Some arr) \<in>
      set (trace (final (ctc_cost_cpu demo_env demo_strided demo_labels
                           demo_input_lengths None None))) \<and>
      ob_addr arr \<noteq> ob_addr demo_strided \<and> dims arr = [4, 2, 7] \<and> c_contiguous arr \<and>
      ComputeCtcLoss args CTC_STATUS_SUCCESS \<in>
        set (trace (final (ctc_cost_cpu demo_env demo_strided demo_labels
                             demo_input_lengths None None))) \<and>
      cp_activations args = PyArray_DATA arr \<and>
      buffer_of (cp_activations args) = ob_addr arr) \<and>
   alloc_ok no_copy_env Context \<and> \<not> alloc_ok no_copy_env ActivationsCopy \<and>
   ret (ctc_cost_cpu no_copy_env demo_strided demo_labels demo_input_lengths None None)
     = Return 1"
proof -
  let ?p = "ctc_cost_cpu demo_env demo_activations demo_labels demo_input_lengths None None"
  let ?q = "ctc_cost_cpu demo_env demo_strided demo_labels demo_input_lengths None None"
  let ?n = "ctc_cost_cpu no_copy_env demo_strided demo_labels demo_input_lengths None None"
  have facts: "c_contiguous demo_activations" "\<not> c_contiguous demo_strided"
    "alloc_ok demo_env Context" "alloc_ok demo_env ActivationsCopy"
    "alloc_ok no_copy_env Context" "\<not> alloc_ok no_copy_env ActivationsCopy"
    "dims demo_strided = [4, 2, 7]"
    by (simp_all add: demo_defs no_copy_env_def)
  have objs: "ob_addr demo_strided \<in>
      set (caller_objects demo_strided demo_labels demo_input_lengths None None)"
    by (simp add: caller_objects_def)
  have zero: "ret ?p = Return 0" "ret ?q = Return 0"
    by (simp_all add: run_defs demo_defs Let_def split_def)
  note p = contiguous_activations_or_copy [OF refl, where e = demo_env and a = demo_activations
      and l = demo_labels and i = demo_input_lengths and c = None and g = None]
  note q = contiguous_activations_or_copy [OF refl, where e = demo_env and a = demo_strided
      and l = demo_labels and i = demo_input_lengths and c = None and g = None]
  note n = contiguous_activations_or_copy [OF refl, where e = no_copy_env and a = demo_strided
      and l = demo_labels and i = demo_input_lengths and c = None and g = None]
  from p facts(1) have p1: "\<forall>x. NewArray ActivationsCopy x \<notin> set (trace (final ?p))"
    and p2: "\<forall>args st. ComputeCtcLoss args st \<in> set (trace (final ?p)) \<longrightarrow>
               cp_activations args = PyArray_DATA demo_activations \<and>
               buffer_of (cp_activations args) = ob_addr demo_activations"
    by blast+
  from p zero(1) obtain pa where pa: "ComputeCtcLoss pa CTC_STATUS_SUCCESS \<in> set (trace (final ?p))"
    by blast
  from q facts(2-4) obtain arr where
    arr: "NewArray ActivationsCopy (Some arr) \<in> set (trace (final ?q))"
      "ob_addr arr \<notin> set (caller_objects demo_strided demo_labels demo_input_lengths None None)"
      "c_contiguous arr" "dims arr = dims demo_strided"
      "\<forall>args st. ComputeCtcLoss args st \<in> set (trace (final ?q)) \<longrightarrow>
         cp_activations args = PyArray_DATA arr"
    by blast
  from q zero(2) obtain qa where qa: "ComputeCtcLoss qa CTC_STATUS_SUCCESS \<in> set (trace (final ?q))"
    by blast
  from arr(5) qa have qptr: "cp_activations qa = PyArray_DATA arr"
    by blast
  then have qbuf: "buffer_of (cp_activations qa) = ob_addr arr"
    by (simp add: PyArray_DATA_def)
  from arr(2) objs have ne: "ob_addr arr \<noteq> ob_addr demo_strided"
    by auto
  from n facts(2,5,6) have n1: "ret ?n = Return 1"
    by blast
  have first: "\<exists>args. ComputeCtcLoss args CTC_STATUS_SUCCESS \<in> set (trace (final ?p)) \<and>
      cp_activations args = PyArray_DATA demo_activations \<and>
      buffer_of (cp_activations args) = ob_addr demo_activations"
    using p2 pa by blast
  have second: "\<exists>arr args. NewArray ActivationsCopy (Some arr) \<in> set (trace (final ?q)) \<and>
      ob_addr arr \<noteq> ob_addr demo_strided \<and> dims arr = [4, 2, 7] \<and> c_contiguous arr \<and>
      ComputeCtcLoss args CTC_STATUS_SUCCESS \<in> set (trace (final ?q)) \<and>
      cp_activations args = PyArray_DATA arr \<and>
      buffer_of (cp_activations args) = ob_addr arr"
    using arr(1,3,4) ne qa qptr qbuf facts(7) by (intro exI [of _ arr] exI [of _ qa]) simp
  from facts(1-6) p1 zero first second n1 show ?thesis
    by (intro conjI) assumption+
qed

subsection \<open>The output arrays\<close>

lemma costs_replaced_iff:
  "costs_replaced c n \<longleftrightarrow>
     \<not> (\<exists>arr. c = Some arr \<and> PyArray_NDIM arr = 1 \<and> int (PyArray_DIMS arr ! 0) = n)"
  by (cases c) (auto simp: costs_replaced_def)

lemma gradients_replaced_iff:
  "gradients_replaced g a \<longleftrightarrow>
     \<not> (\<exists>arr. g = Some arr \<and> PyArray_NDIM arr = 3 \<and>
            PyArray_DIMS arr ! 0 = PyArray_DIMS a ! 0 \<and>
            PyArray_DIMS arr ! 1 = PyArray_DIMS a ! 1 \<and>
            PyArray_DIMS arr ! 2 = PyArray_DIMS a ! 2)"
  by (cases g) (auto simp: gradients_replaced_def)

lemma ensure_costs_kept:
  assumes "ensure_costs e c n s = (x, s1)"
    and "c = Some arr" "PyArray_NDIM arr = 1" "int (PyArray_DIMS arr ! 0) = n"
  shows "x = Some arr \<and> s1 = s"
  using assms by (cases rule: ensure_costs_cases) (auto simp: costs_replaced_iff)

lemma ensure_costs_replaced:
  assumes "ensure_costs e c n s = (x, s1)"
    and "\<not> (\<exists>arr. c = Some arr \<and> PyArray_NDIM arr = 1 \<and> int (PyArray_DIMS arr ! 0) = n)"
    and "\<forall>y. NewArray Costs y \<notin> set (trace s)"
    and "\<forall>p \<in> set objs. p < next_addr s"
  shows "NewArray Costs x \<in> set (trace s1) \<and>
         (\<forall>y. NewArray Costs y \<in> set (trace s1) \<longrightarrow> y = x) \<and>
         (x \<noteq> None \<longleftrightarrow> alloc_ok e Costs \<and> 0 \<le> n) \<and>
         (\<forall>z. x = Some z \<longrightarrow>
            type_num z = NPY_FLOAT32 \<and> PyArray_DIMS z = [nat n] \<and> item z = (\<lambda>_. 0) \<and>
            ob_addr z \<notin> set objs)"
  using assms by (cases rule: ensure_costs_cases) (auto simp: PyArray_DIMS_def)

lemma ensure_gradients_kept:
  assumes "ensure_gradients e g a s = (x, s1)"
    and "g = Some arr" "PyArray_NDIM arr = 3"
      "PyArray_DIMS arr ! 0 = PyArray_DIMS a ! 0"
      "PyArray_DIMS arr ! 1 = PyArray_DIMS a ! 1"
      "PyArray_DIMS arr ! 2 = PyArray_DIMS a ! 2"
  shows "x = Some arr \<and> s1 = s"
  using assms by (cases rule: ensure_gradients_cases) (auto simp: gradients_replaced_iff)

lemma ensure_gradients_replaced:
  assumes "ensure_gradients e g a s = (x, s1)"
    and "\<not> (\<exists>arr. g = Some arr \<and> PyArray_NDIM arr = 3 \<and>
            PyArray_DIMS arr ! 0 = PyArray_DIMS a ! 0 \<and>
            PyArray_DIMS arr ! 1 = PyArray_DIMS a ! 1 \<and>
            PyArray_DIMS arr ! 2 = PyArray_DIMS a ! 2)"
    and "\<forall>y. NewArray Gradients y \<notin> set (trace s)"
    and "\<forall>p \<in> set objs. p < next_addr s"
  shows "NewArray Gradients x \<in> set (trace s1) \<and>
         (\<forall>y. NewArray Gradients y \<in> set (trace s1) \<longrightarrow> y = x) \<and>
         (x \<noteq> None \<longleftrightarrow> alloc_ok e Gradients) \<and>
         (\<forall>z. x = Some z \<longrightarrow>
            type_num z = NPY_FLOAT32 \<and> PyArray_DIMS z = take 3 (PyArray_DIMS a) \<and>
            item z = (\<lambda>_. 0) \<and> ob_addr z \<notin> set objs)"
  using assms by (cases rule: ensure_gradients_cases) (auto simp: PyArray_DIMS_def)

lemma ensure_costs_others:
  assumes "ensure_costs e c n s = (x, s1)"
  shows "next_addr s \<le> next_addr s1 \<and>
         (\<forall>k y. k \<noteq> Costs \<longrightarrow> NewArray k y \<in> set (trace s1) \<longrightarrow> NewArray k y \<in> set (trace s))"
  using assms by (cases rule: ensure_costs_cases) auto

lemma ensure_gradients_others:
  assumes "ensure_gradients e g a s = (x, s1)"
  shows "next_addr s \<le> next_addr s1 \<and>
         (\<forall>k y. k \<noteq> Gradients \<longrightarrow> NewArray k y \<in> set (trace s1) \<longrightarrow>
            NewArray k y \<in> set (trace s))"
  using assms by (cases rule: ensure_gradients_cases) auto

lemma kept_call_library:
  assumes "r = call_library e ctx_addr ctx act al mb costs_arr grads_arr s"
  shows "outputs_kept costs_arr grads_arr s r"
  using assms by (cases rule: call_library_cases) auto

text \<open>After the costs block: the handle and the Costs events do not change any more.\<close>

lemma costs_settled:
  assumes "r = prepare_outputs e ctx_addr ctx act a c g s"
    and "ensure_costs e c (c_int (PyArray_DIMS a ! 1)) s = (x, s1)"
  shows "map_option ob_addr (costs_out r) = map_option ob_addr x \<and>
         (\<forall>y. NewArray Costs y \<in> set (trace (final r)) \<longleftrightarrow> NewArray Costs y \<in> set (trace s1))"
  using assms(1)
proof (cases rule: prepare_outputs_cases)
  case (costs_fail s1')
  with assms(2) show ?thesis by auto
next
  case (gradients_fail costs_arr s1' s2)
  from gradients_fail(2) have "\<forall>y. NewArray Costs y \<in> set (trace s2) \<longleftrightarrow>
      NewArray Costs y \<in> set (trace s1')"
    by (cases rule: ensure_gradients_cases) auto
  with gradients_fail(1,3) assms(2) show ?thesis by auto
next
  case (continue costs_arr s1' grads_arr s2)
  from continue(2) have "\<forall>y. NewArray Costs y \<in> set (trace s2) \<longleftrightarrow>
      NewArray Costs y \<in> set (trace s1')"
    by (cases rule: ensure_gradients_cases) auto
  moreover from continue(3) have "outputs_kept costs_arr grads_arr s2 r"
    by (rule kept_call_library)
  moreover note grows_call_library [OF continue(3)]
  ultimately show ?thesis
    using continue(1) assms(2) by auto
qed

lemma gradients_settled:
  assumes "r = prepare_outputs e ctx_addr ctx act a c g s"
    and "ensure_costs e c (c_int (PyArray_DIMS a ! 1)) s = (Some costs_arr, s1)"
    and "ensure_gradients e g a s1 = (y, s2)"
  shows "map_option ob_addr (gradients_out r) = map_option ob_addr y \<and>
         (\<forall>z. NewArray Gradients z \<in> set (trace (final r)) \<longleftrightarrow>
              NewArray Gradients z \<in> set (trace s2))"
  using assms(1)
proof (cases rule: prepare_outputs_cases)
  case (costs_fail s1')
  with assms(2) show ?thesis by auto
next
  case (gradients_fail costs_arr' s1' s2')
  with assms(2,3) show ?thesis by auto
next
  case (continue costs_arr' s1' grads_arr s2')
  from continue(3) have "outputs_kept costs_arr' grads_arr s2' r"
    by (rule kept_call_library)
  moreover note grows_call_library [OF continue(3)]
  ultimately show ?thesis
    using continue(1,2) assms(2,3) by auto
qed

lemma reach_prepare_outputs:
  assumes "r = marshal_inputs e ctx_addr ctx act a l i c g s"
    and "alloc_ok e InputLengths" "alloc_ok e FlatLabels" "alloc_ok e LabelLengths"
    and "ret r \<noteq> Crash"
  obtains ctx2 s2 where
    "r = prepare_outputs e ctx_addr ctx2 act a c g s2"
    "next_addr s \<le> next_addr s2"
    "\<forall>k x. NewArray k x \<in> set (trace s2) \<longrightarrow> NewArray k x \<in> set (trace s)"
  using assms(1)
proof (cases rule: marshal_inputs_cases)
  case input_lengths_fail
  with assms(2) show ?thesis by simp
next
  case (overrun il s1 flat lens idx)
  with assms(5) show ?thesis by simp
next
  case (labels_fail il s1 fl ll s2 ctx2)
  from labels_fail(4) show ?thesis
    by (cases rule: create_flat_labels_cases) (use labels_fail(5) assms(3,4) in auto)
next
  case (continue il s1 flp llp s2 ctx2)
  from continue(4) have "next_addr s1 \<le> next_addr s2 \<and>
      (\<forall>k x. NewArray k x \<in> set (trace s2) \<longrightarrow> NewArray k x \<in> set (trace s1))"
    by (cases rule: create_flat_labels_cases) auto
  with continue(3,6) show ?thesis
    by (intro that [of ctx2 s2]) auto
qed

lemma reach_marshal_inputs:
  assumes "r = ctc_cost_cpu e a l i c g"
    and "alloc_ok e Context" "c_contiguous a \<or> alloc_ok e ActivationsCopy"
  obtains ctx_addr ctx act s1 where
    "r = marshal_inputs e ctx_addr ctx act a l i c g s1"
    "\<forall>p \<in> set (caller_objects a l i c g). p < next_addr s1"
    "\<forall>k x. NewArray k x \<in> set (trace s1) \<longrightarrow> k = ActivationsCopy"
  using assms(1)
proof (cases rule: ctc_cost_cpu_cases)
  case (crash s0)
  with assms(2) show ?thesis by simp
next
  case (copy_fail s0 s1 ctx)
  with assms(3) show ?thesis by simp
next
  case (contiguous s0 s1)
  have "\<forall>p \<in> set (caller_objects a l i c g). p < next_addr s1"
    using caller_objects_below [of _ "caller_objects a l i c g"] contiguous(1,2)
    by (auto simp: less_Suc_eq)
  with contiguous(1,2,5) show ?thesis
    by (intro that [of "next_addr s0" "ctc_context_init (fresh_context e)" "PyArray_DATA a" s1])
      auto
next
  case (copied s0 s1 arr)
  have "\<forall>p \<in> set (caller_objects a l i c g).
          p < next_addr (log_event (NewArray ActivationsCopy (Some arr)) (take_block s1))"
    using caller_objects_below [of _ "caller_objects a l i c g"] copied(1,2)
    by (auto simp: less_Suc_eq)
  with copied(1,2,7) show ?thesis
    by (intro that [of "next_addr s0"
          "(ctc_context_init (fresh_context e))\<lparr>activations_copy := Some arr\<rparr>"
          "PyArray_DATA arr" "log_event (NewArray ActivationsCopy (Some arr)) (take_block s1)"])
      auto
qed

lemma dims3_eq:
  assumes "PyArray_NDIM a = 3"
  shows "PyArray_NDIM arr = 3 \<and> PyArray_DIMS arr ! 0 = PyArray_DIMS a ! 0 \<and>
         PyArray_DIMS arr ! 1 = PyArray_DIMS a ! 1 \<and> PyArray_DIMS arr ! 2 = PyArray_DIMS a ! 2
         \<longleftrightarrow> PyArray_DIMS arr = PyArray_DIMS a"
proof -
  from assms obtain x y z where a: "PyArray_DIMS a = [x, y, z]"
    by (auto simp: PyArray_NDIM_def PyArray_DIMS_def length_Suc_conv numeral_3_eq_3)
  show ?thesis
  proof
    assume l: "PyArray_NDIM arr = 3 \<and> PyArray_DIMS arr ! 0 = PyArray_DIMS a ! 0 \<and>
      PyArray_DIMS arr ! 1 = PyArray_DIMS a ! 1 \<and> PyArray_DIMS arr ! 2 = PyArray_DIMS a ! 2"
    then obtain x' y' z' where "PyArray_DIMS arr = [x', y', z']"
      by (auto simp: PyArray_NDIM_def PyArray_DIMS_def length_Suc_conv numeral_3_eq_3)
    with l a show "PyArray_DIMS arr = PyArray_DIMS a"
      by simp
  next
    assume "PyArray_DIMS arr = PyArray_DIMS a"
    with assms show "PyArray_NDIM arr = 3 \<and> PyArray_DIMS arr ! 0 = PyArray_DIMS a ! 0 \<and>
      PyArray_DIMS arr ! 1 = PyArray_DIMS a ! 1 \<and> PyArray_DIMS arr ! 2 = PyArray_DIMS a ! 2"
      by (simp add: PyArray_NDIM_def PyArray_DIMS_def)
  qed
qed

text \<open>
  C5: in a call that reaches the output arrays (the context, the activations, the input
  lengths and both label buffers were obtained, and the call did not stop in the label
  loops; the activations array has three dimensions), the costs array the caller passed stays in its handle, and no new costs
  array is requested, exactly when it is present, has one dimension and its length is the
  batch size. In every other case one new array is requested and its result replaces the
  handle: a float32 array of that length with every element zero, new to the caller, or
  NULL when the request is refused. When the costs block passes, the same holds of the
  gradients array, with three dimensions and the shape of the activations.
\<close>

theorem outputs_reused_or_replaced:
  assumes r: "r = ctc_cost_cpu e a l i c g"
    and reach: "alloc_ok e Context" "c_contiguous a \<or> alloc_ok e ActivationsCopy"
      "alloc_ok e InputLengths" "alloc_ok e FlatLabels" "alloc_ok e LabelLengths"
    and returns: "ret r \<noteq> Crash"
    and rank: "PyArray_NDIM a = 3"
    and n: "n = c_int (PyArray_DIMS a ! 1)"
  shows "(\<forall>arr. c = Some arr \<and> PyArray_NDIM arr = 1 \<and> int (PyArray_DIMS arr ! 0) = n \<longrightarrow>
            (\<forall>x. NewArray Costs x \<notin> set (trace (final r))) \<and>
            map_option ob_addr (costs_out r) = Some (ob_addr arr)) \<and>
         (\<not> (\<exists>arr. c = Some arr \<and> PyArray_NDIM arr = 1 \<and> int (PyArray_DIMS arr ! 0) = n) \<longrightarrow>
            (\<exists>x. NewArray Costs x \<in> set (trace (final r)) \<and>
                 (\<forall>y. NewArray Costs y \<in> set (trace (final r)) \<longrightarrow> y = x) \<and>
                 map_option ob_addr (costs_out r) = map_option ob_addr x \<and>
                 (x \<noteq> None \<longleftrightarrow> alloc_ok e Costs \<and> 0 \<le> n) \<and>
                 (\<forall>z. x = Some z \<longrightarrow>
                    type_num z = NPY_FLOAT32 \<and> PyArray_DIMS z = [nat n] \<and>
                    item z = (\<lambda>_. 0) \<and> ob_addr z \<notin> set (caller_objects a l i c g)))) \<and>
         ((\<exists>arr. c = Some arr \<and> PyArray_NDIM arr = 1 \<and> int (PyArray_DIMS arr ! 0) = n) \<or>
          alloc_ok e Costs \<and> 0 \<le> n \<longrightarrow>
            (\<forall>arr. g = Some arr \<and> PyArray_NDIM arr = 3 \<and> PyArray_DIMS arr = PyArray_DIMS a \<longrightarrow>
               (\<forall>x. NewArray Gradients x \<notin> set (trace (final r))) \<and>
               map_option ob_addr (gradients_out r) = Some (ob_addr arr)) \<and>
            (\<not> (\<exists>arr. g = Some arr \<and> PyArray_NDIM arr = 3 \<and>
                      PyArray_DIMS arr = PyArray_DIMS a) \<longrightarrow>
               (\<exists>x. NewArray Gradients x \<in> set (trace (final r)) \<and>
                    (\<forall>y. NewArray Gradients y \<in> set (trace (final r)) \<longrightarrow> y = x) \<and>
                    map_option ob_addr (gradients_out r) = map_option ob_addr x \<and>
                    (x \<noteq> None \<longleftrightarrow> alloc_ok e Gradients) \<and>
                    (\<forall>z. x = Some z \<longrightarrow>
                       type_num z = NPY_FLOAT32 \<and> PyArray_DIMS z = PyArray_DIMS a \<and>
                       item z = (\<lambda>_. 0) \<and> ob_addr z \<notin> set (caller_objects a l i c g)))))"
proof -
  define objs where "objs = caller_objects a l i c g"
  from r reach(1,2) obtain ctx_addr ctx act s1 where
    m: "r = marshal_inputs e ctx_addr ctx act a l i c g s1"
    and below1: "\<forall>p \<in> set objs. p < next_addr s1"
    and new1: "\<forall>k x. NewArray k x \<in> set (trace s1) \<longrightarrow> k = ActivationsCopy"
    unfolding objs_def by (rule reach_marshal_inputs)
  from m reach(3-5) returns obtain ctx2 s2 where
    p: "r = prepare_outputs e ctx_addr ctx2 act a c g s2"
    and le2: "next_addr s1 \<le> next_addr s2"
    and new2: "\<forall>k x. NewArray k x \<in> set (trace s2) \<longrightarrow> NewArray k x \<in> set (trace s1)"
    by (rule reach_prepare_outputs)
  from below1 le2 have below2: "\<forall>p \<in> set objs. p < next_addr s2"
    by auto
  from new1 new2 have none2: "\<forall>y. NewArray Costs y \<notin> set (trace s2)"
    "\<forall>y. NewArray Gradients y \<notin> set (trace s2)"
    by auto
  obtain x s3 where ec: "ensure_costs e c n s2 = (x, s3)"
    by (cases "ensure_costs e c n s2")
  note cs = costs_settled [OF p ec [unfolded n]]
  have costs_kept: "(\<forall>x. NewArray Costs x \<notin> set (trace (final r))) \<and>
      map_option ob_addr (costs_out r) = Some (ob_addr arr)"
    if "c = Some arr" "PyArray_NDIM arr = 1" "int (PyArray_DIMS arr ! 0) = n" for arr
    using ensure_costs_kept [OF ec that] cs none2(1) by auto
  have costs_new: "\<exists>x. NewArray Costs x \<in> set (trace (final r)) \<and>
      (\<forall>y. NewArray Costs y \<in> set (trace (final r)) \<longrightarrow> y = x) \<and>
      map_option ob_addr (costs_out r) = map_option ob_addr x \<and>
      (x \<noteq> None \<longleftrightarrow> alloc_ok e Costs \<and> 0 \<le> n) \<and>
      (\<forall>z. x = Some z \<longrightarrow>
         type_num z = NPY_FLOAT32 \<and> PyArray_DIMS z = [nat n] \<and>
         item z = (\<lambda>_. 0) \<and> ob_addr z \<notin> set objs)"
    if "\<not> (\<exists>arr. c = Some arr \<and> PyArray_NDIM arr = 1 \<and> int (PyArray_DIMS arr ! 0) = n)"
    using ensure_costs_replaced [OF ec that none2(1) below2] cs
    by (intro exI [of _ x]) simp
  have grads: "(\<forall>arr. g = Some arr \<and> PyArray_NDIM arr = 3 \<and>
                 PyArray_DIMS arr = PyArray_DIMS a \<longrightarrow>
               (\<forall>x. NewArray Gradients x \<notin> set (trace (final r))) \<and>
               map_option ob_addr (gradients_out r) = Some (ob_addr arr)) \<and>
            (\<not> (\<exists>arr. g = Some arr \<and> PyArray_NDIM arr = 3 \<and>
                      PyArray_DIMS arr = PyArray_DIMS a) \<longrightarrow>
               (\<exists>x. NewArray Gradients x \<in> set (trace (final r)) \<and>
                    (\<forall>y. NewArray Gradients y \<in> set (trace (final r)) \<longrightarrow> y = x) \<and>
                    map_option ob_addr (gradients_out r) = map_option ob_addr x \<and>
                    (x \<noteq> None \<longleftrightarrow> alloc_ok e Gradients) \<and>
                    (\<forall>z. x = Some z \<longrightarrow>
                       type_num z = NPY_FLOAT32 \<and> PyArray_DIMS z = PyArray_DIMS a \<and>
                       item z = (\<lambda>_. 0) \<and> ob_addr z \<notin> set objs)))"
    if pass: "(\<exists>arr. c = Some arr \<and> PyArray_NDIM arr = 1 \<and> int (PyArray_DIMS arr ! 0) = n) \<or>
              alloc_ok e Costs \<and> 0 \<le> n"
  proof -
    from ec pass obtain costs_arr where x: "x = Some costs_arr"
      by (cases rule: ensure_costs_cases) (auto simp: costs_replaced_iff)
    note others = ensure_costs_others [OF ec]
    from others below2 have below3: "\<forall>p \<in> set objs. p < next_addr s3"
      by auto
    from others none2(2) have none3: "\<forall>y. NewArray Gradients y \<notin> set (trace s3)"
      by auto
    obtain y s4 where eg: "ensure_gradients e g a s3 = (y, s4)"
      by (cases "ensure_gradients e g a s3")
    note gs = gradients_settled [OF p ec [unfolded n x] eg]
    have take3: "take 3 (PyArray_DIMS a) = PyArray_DIMS a"
      using rank by (simp add: PyArray_NDIM_def PyArray_DIMS_def)
    show ?thesis
    proof (intro conjI allI impI)
      fix arr
      assume "g = Some arr \<and> PyArray_NDIM arr = 3 \<and> PyArray_DIMS arr = PyArray_DIMS a"
      then have k: "g = Some arr" "PyArray_NDIM arr = 3"
          "PyArray_DIMS arr ! 0 = PyArray_DIMS a ! 0"
          "PyArray_DIMS arr ! 1 = PyArray_DIMS a ! 1"
          "PyArray_DIMS arr ! 2 = PyArray_DIMS a ! 2"
        by simp_all
      from ensure_gradients_kept [OF eg k] gs none3
      show "NewArray Gradients x \<notin> set (trace (final r))" for x
        by auto
      from ensure_gradients_kept [OF eg k] gs
      show "map_option ob_addr (gradients_out r) = Some (ob_addr arr)"
        by auto
    next
      assume "\<not> (\<exists>arr. g = Some arr \<and> PyArray_NDIM arr = 3 \<and>
                PyArray_DIMS arr = PyArray_DIMS a)"
      then have "\<not> (\<exists>arr. g = Some arr \<and> PyArray_NDIM arr = 3 \<and>
            PyArray_DIMS arr ! 0 = PyArray_DIMS a ! 0 \<and>
            PyArray_DIMS arr ! 1 = PyArray_DIMS a ! 1 \<and>
            PyArray_DIMS arr ! 2 = PyArray_DIMS a ! 2)"
        using dims3_eq [OF rank] by blast
      from ensure_gradients_replaced [OF eg this none3 below3] gs
      show "\<exists>x. NewArray Gradients x \<in> set (trace (final r)) \<and>
                    (\<forall>y. NewArray Gradients y \<in> set (trace (final r)) \<longrightarrow> y = x) \<and>
                    map_option ob_addr (gradients_out r) = map_option ob_addr x \<and>
                    (x \<noteq> None \<longleftrightarrow> alloc_ok e Gradients) \<and>
                    (\<forall>z. x = Some z \<longrightarrow>
                       type_num z = NPY_FLOAT32 \<and> PyArray_DIMS z = PyArray_DIMS a \<and>
                       item z = (\<lambda>_. 0) \<and> ob_addr z \<notin> set objs)"
        by (intro exI [of _ y]) (simp add: take3)
    qed
  qed
  from costs_kept costs_new grads show ?thesis
    unfolding objs_def by blast
qed

theorem outputs_reused_or_replaced_witness:
  "alloc_ok demo_env Context \<and> c_contiguous demo_activations \<and>
   alloc_ok demo_env InputLengths \<and> alloc_ok demo_env FlatLabels \<and>
   alloc_ok demo_env LabelLengths \<and>
   ret (ctc_cost_cpu demo_env demo_activations demo_labels demo_input_lengths None
          (Some demo_gradients)) = Return 0 \<and>
   PyArray_NDIM demo_activations = 3 \<and>
   alloc_ok demo_env Costs \<and> c_int (PyArray_DIMS demo_activations ! 1) = 2 \<and>
   (\<exists>z. NewArray Costs (Some z) \<in>
           set (trace (final (ctc_cost_cpu demo_env demo_activations demo_labels
                                demo_input_lengths None (Some demo_gradients)))) \<and>
        PyArray_DIMS z = [2] \<and> item z = (\<lambda>_. 0) \<and>
        map_option ob_addr
          (costs_out (ctc_cost_cpu demo_env demo_activations demo_labels
                        demo_input_lengths None (Some demo_gradients))) = Some (ob_addr z)) \<and>
   map_option ob_addr
     (gradients_out (ctc_cost_cpu demo_env demo_activations demo_labels
                       demo_input_lengths None (Some demo_gradients))) = Some 4"
proof -
  let ?r = "ctc_cost_cpu demo_env demo_activations demo_labels demo_input_lengths None
              (Some demo_gradients)"
  have reach: "alloc_ok demo_env Context"
    "c_contiguous demo_activations \<or> alloc_ok demo_env ActivationsCopy"
    "alloc_ok demo_env InputLengths" "alloc_ok demo_env FlatLabels"
    "alloc_ok demo_env LabelLengths"
    by (simp_all add: demo_defs)
  have ret0: "ret ?r = Return 0"
    by (simp add: run_defs demo_defs Let_def split_def)
  then have returns: "ret ?r \<noteq> Crash"
    by simp
  have rank: "PyArray_NDIM demo_activations = 3"
    by (simp add: PyArray_NDIM_def demo_defs)
  have n: "2 = c_int (PyArray_DIMS demo_activations ! 1)"
    by (simp add: c_int_def PyArray_DIMS_def demo_defs)
  have more: "alloc_ok demo_env Costs" "c_contiguous demo_activations"
    "PyArray_NDIM demo_gradients = 3" "PyArray_DIMS demo_gradients = PyArray_DIMS demo_activations"
    "ob_addr demo_gradients = 4"
    by (simp_all add: PyArray_NDIM_def PyArray_DIMS_def demo_defs)
  note inst = outputs_reused_or_replaced [OF refl reach returns rank n]
  from inst more obtain x where x: "NewArray Costs x \<in> set (trace (final ?r))"
    "map_option ob_addr (costs_out ?r) = map_option ob_addr x"
    "x \<noteq> None"
    "\<forall>z. x = Some z \<longrightarrow> PyArray_DIMS z = [nat 2] \<and> item z = (\<lambda>_. 0)"
    by auto
  then obtain z where z: "x = Some z"
    by auto
  from inst more have "map_option ob_addr (gradients_out ?r) = Some 4"
    by auto
  with x z reach ret0 rank n [symmetric] more show ?thesis
    by auto
qed

subsection \<open>A refused workspace\<close>

lemma stocked_append [simp]: "stocked tr \<Longrightarrow> stocked (tr @ evs)"
  by (auto simp: stocked_def)

lemma stocked_ensure_costs:
  assumes "ensure_costs e c n s = (x, s1)" "stocked (trace s)"
  shows "stocked (trace s1)"
  using assms by (cases rule: ensure_costs_cases) auto

lemma stocked_ensure_gradients:
  assumes "ensure_gradients e g a s = (x, s1)" "stocked (trace s)"
  shows "stocked (trace s1)"
  using assms by (cases rule: ensure_gradients_cases) auto

lemma cleanup_call_library:
  assumes "r = call_library e ctx_addr ctx act al mb costs_arr grads_arr s"
    and "quiet (trace s)" "held ctx (trace s)" "stocked (trace s)"
  shows "workspace_cleanup r"
  using assms(1)
proof (cases rule: call_library_cases)
  case (size_fail st n)
  with assms(2) show ?thesis by auto
next
  case (ws_fail n)
  with assms(2-4) show ?thesis by (auto simp: held_def owned_buffers_def)
next
  case (compute_fail n st cw gw ctx1 cp s3)
  with assms(2) show ?thesis by auto
next
  case (ok n cw gw ctx1 cp s3)
  with assms(2) show ?thesis by auto
qed

lemma cleanup_prepare_outputs:
  assumes "r = prepare_outputs e ctx_addr ctx act a c g s"
    and "quiet (trace s)" "held ctx (trace s)" "stocked (trace s)"
  shows "workspace_cleanup r"
  using assms(1)
proof (cases rule: prepare_outputs_cases)
  case (costs_fail s1)
  from costs_fail(1) show ?thesis
    by (cases rule: ensure_costs_cases) (use costs_fail(2) assms(2) in auto)
next
  case (gradients_fail costs_arr s1 s2)
  from gradients_fail(1) assms(2) have "quiet (trace s1)"
    by (rule quiet_ensure_costs)
  with gradients_fail(2) show ?thesis
    by (cases rule: ensure_gradients_cases) (use gradients_fail(3) in auto)
next
  case (continue costs_arr s1 grads_arr s2)
  from continue(1) assms(2) have q1: "quiet (trace s1)"
    by (rule quiet_ensure_costs)
  from continue(1) assms(3) have h1: "held ctx (trace s1)"
    by (rule held_ensure_costs)
  from continue(1) assms(4) have k1: "stocked (trace s1)"
    by (rule stocked_ensure_costs)
  from continue(2) q1 have "quiet (trace s2)"
    by (rule quiet_ensure_gradients)
  moreover from continue(2) h1 have "held ctx (trace s2)"
    by (rule held_ensure_gradients)
  moreover from continue(2) k1 have "stocked (trace s2)"
    by (rule stocked_ensure_gradients)
  ultimately show ?thesis
    using continue(3) by (intro cleanup_call_library)
qed

lemma cleanup_marshal_inputs:
  assumes "r = marshal_inputs e ctx_addr ctx act a l i c g s"
    and "quiet (trace s)" "held ctx (trace s)"
    and "input_lengths ctx = None" "flat_labels ctx = None" "label_lengths ctx = None"
  shows "workspace_cleanup r"
  using assms(1)
proof (cases rule: marshal_inputs_cases)
  case input_lengths_fail
  with assms(2) show ?thesis by auto
next
  case (overrun il s1 flat lens idx)
  with assms(2) show ?thesis by auto
next
  case (labels_fail il s1 fl ll s2 ctx2)
  from labels_fail(4) show ?thesis
    by (cases rule: create_flat_labels_cases) (use labels_fail assms(2) in auto)
next
  case (continue il s1 flp llp s2 ctx2)
  from assms(2) continue(3) have q1: "quiet (trace s1)" by simp
  with continue(4) have "quiet (trace s2)"
    by (rule quiet_create_flat_labels)
  moreover from continue(4) have "held ctx2 (trace s2) \<and> stocked (trace s2)"
    by (cases rule: create_flat_labels_cases)
      (use continue(2,3,5) assms(3-6) in \<open>auto simp: held_def owned_buffers_def stocked_def\<close>)
  then have "held ctx2 (trace s2)" and "stocked (trace s2)"
    by simp_all
  ultimately show ?thesis
    using continue(6) by (intro cleanup_prepare_outputs)
qed

lemma cleanup_ctc_cost_cpu:
  assumes "r = ctc_cost_cpu e a l i c g"
  shows "workspace_cleanup r"
  using assms
proof (cases rule: ctc_cost_cpu_cases)
  case (crash s0)
  then show ?thesis by auto
next
  case (copy_fail s0 s1 ctx)
  then show ?thesis by auto
next
  case (contiguous s0 s1)
  from contiguous(5) show ?thesis
    by (rule cleanup_marshal_inputs)
      (use contiguous(1,2) in \<open>simp_all add: held_def\<close>)
next
  case (copied s0 s1 arr)
  from copied(7) show ?thesis
    by (rule cleanup_marshal_inputs)
      (use copied(1,2) in \<open>simp_all add: held_def owned_buffers_def\<close>)
qed

text \<open>
  C6: when the request for the workspace is refused, the call returns 1 with the
  MemoryError of the workspace; the input lengths, the flat labels and the label lengths
  had been granted; every owned buffer that was handed out (those three and the
  activations copy, if one was made) has been released and is not live any more; and the
  computation of the library was never called.
\<close>

theorem workspace_refused_cleanup:
  assumes "r = ctc_cost_cpu e a l i c g"
    and "Malloc Workspace None \<in> set (trace (final r))"
  shows "ret r = Return 1 \<and>
         py_err (final r) =
           Some (MemoryError, ''Failed to allocate memory for CTC workspace!'') \<and>
         (\<exists>p. Malloc InputLengths (Some p) \<in> set (trace (final r))) \<and>
         (\<exists>p. Malloc FlatLabels (Some p) \<in> set (trace (final r))) \<and>
         (\<exists>p. Malloc LabelLengths (Some p) \<in> set (trace (final r))) \<and>
         (\<forall>p \<in> set (allocated (trace (final r))).
            Release p \<in> set (trace (final r)) \<and> p \<notin> set (live (final r))) \<and>
         leaked r = [] \<and>
         (\<forall>args st. ComputeCtcLoss args st \<notin> set (trace (final r)))"
proof -
  from assms(1) have "workspace_cleanup r"
    by (rule cleanup_ctc_cost_cpu)
  with assms(2) have *: "ret r = Return 1"
    "py_err (final r) = Some (MemoryError, ''Failed to allocate memory for CTC workspace!'')"
    "stocked (trace (final r))"
    "\<forall>p \<in> set (allocated (trace (final r))).
       Release p \<in> set (trace (final r)) \<and> p \<notin> set (live (final r))"
    "\<forall>args st. ComputeCtcLoss args st \<notin> set (trace (final r))"
    by simp_all
  from *(4) have "leaked r = []"
    by (simp add: leaked_def filter_empty_conv)
  with * show ?thesis
    by (simp add: stocked_def)
qed

theorem workspace_refused_cleanup_witness:
  "Malloc Workspace None \<in>
     set (trace (final (ctc_cost_cpu no_workspace_env demo_strided demo_labels
                          demo_input_lengths None None))) \<and>
   ret (ctc_cost_cpu no_workspace_env demo_strided demo_labels demo_input_lengths None None)
     = Return 1 \<and>
   leaked (ctc_cost_cpu no_workspace_env demo_strided demo_labels demo_input_lengths
             None None) = []"
proof -
  let ?r = "ctc_cost_cpu no_workspace_env demo_strided demo_labels demo_input_lengths
              None None"
  have mem: "Malloc Workspace None \<in> set (trace (final ?r))"
    by (simp add: run_defs demo_defs Let_def split_def)
  from workspace_refused_cleanup [OF refl mem] mem show ?thesis
    by simp
qed

subsection \<open>A failing library call\<close>

lemma status_call_library:
  assumes "r = call_library e ctx_addr ctx act al mb costs_arr grads_arr s" "quiet (trace s)"
  shows "status_reported e r"
  using assms by (cases rule: call_library_cases) auto

lemma status_prepare_outputs:
  assumes "r = prepare_outputs e ctx_addr ctx act a c g s" "quiet (trace s)"
  shows "status_reported e r"
  using assms(1)
proof (cases rule: prepare_outputs_cases)
  case (costs_fail s1)
  from costs_fail(1) show ?thesis
    by (cases rule: ensure_costs_cases) (use costs_fail(2) assms(2) in auto)
next
  case (gradients_fail costs_arr s1 s2)
  from gradients_fail(1) assms(2) have "quiet (trace s1)"
    by (rule quiet_ensure_costs)
  with gradients_fail(2) show ?thesis
    by (cases rule: ensure_gradients_cases) (use gradients_fail(3) in auto)
next
  case (continue costs_arr s1 grads_arr s2)
  from continue(1) assms(2) have "quiet (trace s1)"
    by (rule quiet_ensure_costs)
  with continue(2) have "quiet (trace s2)"
    by (rule quiet_ensure_gradients)
  with continue(3) show ?thesis
    by (rule status_call_library)
qed

lemma status_marshal_inputs:
  assumes "r = marshal_inputs e ctx_addr ctx act a l i c g s" "quiet (trace s)"
  shows "status_reported e r"
  using assms(1)
proof (cases rule: marshal_inputs_cases)
  case input_lengths_fail
  with assms(2) show ?thesis by auto
next
  case (overrun il s1 flat lens idx)
  with assms(2) show ?thesis by auto
next
  case (labels_fail il s1 fl ll s2 ctx2)
  from labels_fail(4) show ?thesis
    by (cases rule: create_flat_labels_cases) (use labels_fail assms(2) in auto)
next
  case (continue il s1 flp llp s2 ctx2)
  from assms(2) continue(3) have "quiet (trace s1)" by simp
  with continue(4) have "quiet (trace s2)"
    by (rule quiet_create_flat_labels)
  with continue(6) show ?thesis
    by (rule status_prepare_outputs)
qed

lemma status_ctc_cost_cpu:
  "status_reported e (ctc_cost_cpu e a l i c g)"
proof -
  define r where "r = ctc_cost_cpu e a l i c g"
  then have "status_reported e r"
  proof (cases rule: ctc_cost_cpu_cases)
    case (crash s0)
    then show ?thesis by auto
  next
    case (copy_fail s0 s1 ctx)
    then show ?thesis by auto
  next
    case (contiguous s0 s1)
    from contiguous(1,2) have "quiet (trace s1)" by simp
    with contiguous(5) show ?thesis by (rule status_marshal_inputs)
  next
    case (copied s0 s1 arr)
    from copied(1,2) have "quiet (trace (log_event (NewArray ActivationsCopy (Some arr)) (take_block s1)))" by simp
    with copied(7) show ?thesis by (rule status_marshal_inputs)
  qed
  then show ?thesis by (simp add: r_def)
qed

text \<open>
  C7: when the size query or the computation of the library returns a status other than
  success, the call returns 1 and the error is a RuntimeError whose message is the
  message of that stage, a separator, and the status string the library gives for that
  status; so the message contains both.
\<close>

theorem library_status_reported:
  assumes "r = ctc_cost_cpu e a l i c g"
    and "st \<noteq> CTC_STATUS_SUCCESS"
  shows "(GetWorkspaceSize args st \<in> set (trace (final r)) \<longrightarrow>
            ret r = Return 1 \<and>
            (\<exists>m. py_err (final r) = Some (RuntimeError, m) \<and>
                 m = ''Failed to obtain CTC workspace size!'' @
                     '' | CTC library error message: '' @ ctcGetStatusString e st \<and>
                 sublist ''Failed to obtain CTC workspace size!'' m \<and>
                 sublist (ctcGetStatusString e st) m)) \<and>
         (ComputeCtcLoss args' st \<in> set (trace (final r)) \<longrightarrow>
            ret r = Return 1 \<and>
            (\<exists>m. py_err (final r) = Some (RuntimeError, m) \<and>
                 m = ''Failed to compute CTC loss function!'' @
                     '' | CTC library error message: '' @ ctcGetStatusString e st \<and>
                 sublist ''Failed to compute CTC loss function!'' m \<and>
                 sublist (ctcGetStatusString e st) m))"
proof -
  have inside: "sublist x (x @ sep @ y) \<and> sublist y (x @ sep @ y)" for x sep y :: string
    using sublist_append_rightI [of x "sep @ y"] sublist_append_leftI [of y "x @ sep"]
    by simp
  have "status_reported e r"
    unfolding assms(1) by (rule status_ctc_cost_cpu)
  with assms(2) inside show ?thesis
    by blast
qed

theorem library_status_reported_witness:
  "(\<exists>args. GetWorkspaceSize args (CTC_STATUS_FAILURE 2) \<in>
      set (trace (final (ctc_cost_cpu size_fails_env demo_activations demo_labels
                           demo_input_lengths None None)))) \<and>
   CTC_STATUS_FAILURE 2 \<noteq> CTC_STATUS_SUCCESS \<and>
   py_err (final (ctc_cost_cpu size_fails_env demo_activations demo_labels
                    demo_input_lengths None None)) =
     Some (RuntimeError,
           ''Failed to obtain CTC workspace size! | CTC library error message: execution failed'') \<and>
   (\<exists>args. ComputeCtcLoss args (CTC_STATUS_FAILURE 3) \<in>
      set (trace (final (ctc_cost_cpu compute_fails_env demo_activations demo_labels
                           demo_input_lengths None None)))) \<and>
   CTC_STATUS_FAILURE 3 \<noteq> CTC_STATUS_SUCCESS \<and>
   ret (ctc_cost_cpu compute_fails_env demo_activations demo_labels demo_input_lengths
          None None) = Return 1 \<and>
   py_err (final (ctc_cost_cpu compute_fails_env demo_activations demo_labels
                    demo_input_lengths None None)) =
     Some (RuntimeError,
           ''Failed to compute CTC loss function! | CTC library error message: execution failed'')"
proof -
  let ?q = "ctc_cost_cpu size_fails_env demo_activations demo_labels demo_input_lengths
              None None"
  let ?r = "ctc_cost_cpu compute_fails_env demo_activations demo_labels demo_input_lengths
              None None"
  have "\<exists>args. GetWorkspaceSize args (CTC_STATUS_FAILURE 2) \<in> set (trace (final ?q))"
    by (simp add: run_defs demo_defs Let_def split_def)
  then obtain sq where
    mem_q: "GetWorkspaceSize sq (CTC_STATUS_FAILURE 2) \<in> set (trace (final ?q))"
    by blast
  have "\<exists>args. ComputeCtcLoss args (CTC_STATUS_FAILURE 3) \<in> set (trace (final ?r))"
    by (simp add: run_defs demo_defs Let_def split_def)
  then obtain cp where
    mem_r: "ComputeCtcLoss cp (CTC_STATUS_FAILURE 3) \<in> set (trace (final ?r))"
    by blast
  have st: "CTC_STATUS_FAILURE 2 \<noteq> CTC_STATUS_SUCCESS"
    "CTC_STATUS_FAILURE 3 \<noteq> CTC_STATUS_SUCCESS"
    by simp_all
  have str: "ctcGetStatusString size_fails_env (CTC_STATUS_FAILURE 2) = ''execution failed''"
    "ctcGetStatusString compute_fails_env (CTC_STATUS_FAILURE 3) = ''execution failed''"
    by (simp_all add: demo_defs)
  from library_status_reported [OF refl st(1), where args = sq and e = size_fails_env
      and a = demo_activations and l = demo_labels and i = demo_input_lengths
      and c = None and g = None] mem_q
  have q: "py_err (final ?q) =
       Some (RuntimeError,
             ''Failed to obtain CTC workspace size!'' @
             '' | CTC library error message: '' @
             ctcGetStatusString size_fails_env (CTC_STATUS_FAILURE 2))"
    by auto
  from library_status_reported [OF refl st(2), where args' = cp and e = compute_fails_env
      and a = demo_activations and l = demo_labels and i = demo_input_lengths
      and c = None and g = None] mem_r
  have r: "ret ?r = Return 1"
    "py_err (final ?r) =
       Some (RuntimeError,
             ''Failed to compute CTC loss function!'' @
             '' | CTC library error message: '' @
             ctcGetStatusString compute_fails_env (CTC_STATUS_FAILURE 3))"
    by auto
  from mem_q mem_r have ex:
    "\<exists>args. GetWorkspaceSize args (CTC_STATUS_FAILURE 2) \<in> set (trace (final ?q))"
    "\<exists>args. ComputeCtcLoss args (CTC_STATUS_FAILURE 3) \<in> set (trace (final ?r))"
    by blast+
  from q r show ?thesis
    unfolding str by (intro conjI ex st) simp_all
qed

subsection \<open>A refused request for storage\<close>

lemma after_failure_simps [simp]:
  "after_failure [] = []"
  "after_failure (ev # xs) = (if failed_site ev = None then after_failure xs else xs)"
  "after_failure (map Release ps @ xs) = after_failure xs"
  by (induction ps) (simp_all add: after_failure_def)

lemma after_failure_quiet [simp]:
  "quiet pre \<Longrightarrow> after_failure (pre @ xs) = after_failure xs"
  by (induction pre) simp_all

lemma list_all_release [simp]: "list_all is_release (map Release ps)"
  by (simp add: list_all_iff)

lemma refusal_call_library:
  assumes "r = call_library e ctx_addr ctx act al mb costs_arr grads_arr s"
    and "quiet (trace s)"
  shows "refusal_reported r"
  using assms(1)
proof (cases rule: call_library_cases)
  case (size_fail st n)
  with assms(2) show ?thesis by auto
next
  case (ws_fail n)
  with assms(2) show ?thesis by auto
next
  case (compute_fail n st cw gw ctx1 cp s3)
  with assms(2) show ?thesis by auto
next
  case (ok n cw gw ctx1 cp s3)
  with assms(2) show ?thesis by auto
qed

lemma refusal_prepare_outputs:
  assumes "r = prepare_outputs e ctx_addr ctx act a c g s"
    and "quiet (trace s)"
  shows "refusal_reported r"
  using assms(1)
proof (cases rule: prepare_outputs_cases)
  case (costs_fail s1)
  from costs_fail(1) show ?thesis
    by (cases rule: ensure_costs_cases) (use costs_fail(2) assms(2) in auto)
next
  case (gradients_fail costs_arr s1 s2)
  from gradients_fail(1) assms(2) have "quiet (trace s1)"
    by (rule quiet_ensure_costs)
  with gradients_fail(2) show ?thesis
    by (cases rule: ensure_gradients_cases) (use gradients_fail(3) in auto)
next
  case (continue costs_arr s1 grads_arr s2)
  from continue(1) assms(2) have "quiet (trace s1)"
    by (rule quiet_ensure_costs)
  with continue(2) have "quiet (trace s2)"
    by (rule quiet_ensure_gradients)
  with continue(3) show ?thesis
    by (rule refusal_call_library)
qed

lemma refusal_marshal_inputs:
  assumes "r = marshal_inputs e ctx_addr ctx act a l i c g s"
    and "quiet (trace s)"
  shows "refusal_reported r"
  using assms(1)
proof (cases rule: marshal_inputs_cases)
  case input_lengths_fail
  with assms(2) show ?thesis by auto
next
  case (overrun il s1 flat lens idx)
  with assms(2) show ?thesis by auto
next
  case (labels_fail il s1 fl ll s2 ctx2)
  from labels_fail(4) show ?thesis
    by (cases rule: create_flat_labels_cases) (use labels_fail assms(2) in auto)
next
  case (continue il s1 flp llp s2 ctx2)
  from assms(2) continue(3) have "quiet (trace s1)" by simp
  with continue(4) have "quiet (trace s2)"
    by (rule quiet_create_flat_labels)
  with continue(6) show ?thesis
    by (rule refusal_prepare_outputs)
qed

lemma refusal_ctc_cost_cpu:
  assumes "r = ctc_cost_cpu e a l i c g"
  shows "refusal_reported r"
  using assms
proof (cases rule: ctc_cost_cpu_cases)
  case (crash s0)
  then show ?thesis by auto
next
  case (copy_fail s0 s1 ctx)
  then show ?thesis by auto
next
  case (contiguous s0 s1)
  from contiguous(5) show ?thesis
    by (rule refusal_marshal_inputs) (use contiguous(1,2) in simp)
next
  case (copied s0 s1 arr)
  from copied(7) show ?thesis
    by (rule refusal_marshal_inputs) (use copied(1,2) in simp)
qed

lemma single_refusal:
  assumes "list_all is_release (after_failure tr)"
    and "ev \<in> set tr" "failed_site ev \<noteq> None"
    and "ev' \<in> set tr" "failed_site ev' \<noteq> None"
  shows "ev' = ev"
proof -
  define rest where "rest = dropWhile (\<lambda>ev. failed_site ev = None) tr"
  have after: "failed_site x = None" if "x \<in> set (drop 1 rest)" for x
  proof -
    from assms(1) that have "is_release x"
      by (simp add: after_failure_def list_all_iff rest_def)
    then show ?thesis
      by (cases x) simp_all
  qed
  have first: "rest \<noteq> [] \<and> x = hd rest" if "x \<in> set tr" "failed_site x \<noteq> None" for x
  proof -
    have "set tr = set (takeWhile (\<lambda>ev. failed_site ev = None) tr) \<union> set rest"
      unfolding rest_def by (simp only: set_append [symmetric] takeWhile_dropWhile_id)
    moreover have "x \<notin> set (takeWhile (\<lambda>ev. failed_site ev = None) tr)"
      using that(2) by (auto dest: set_takeWhileD)
    ultimately have in_rest: "x \<in> set rest"
      using that(1) by simp
    then obtain y ys where rest: "rest = y # ys"
      by (cases rest) simp_all
    with in_rest have "x = y \<or> x \<in> set (drop 1 rest)"
      by simp
    with after that(2) rest show ?thesis
      by auto
  qed
  from first [OF assms(2,3)] first [OF assms(4,5)] show ?thesis
    by simp
qed

text \<open>
  C8: a refused request for storage at any site of the entry point other than the
  unchecked context struct (the activations copy, the input lengths, the flat labels, the
  label lengths, the costs array, the gradients array, the workspace) ends the call: it
  returns 1, the error is a MemoryError with the message of that site, every event after
  the refusal is a release (no further request, no library call), and no other request of
  the call was refused.
\<close>

theorem refused_request_reported:
  assumes "r = ctc_cost_cpu e a l i c g"
    and "ev \<in> set (trace (final r))" "failed_site ev = Some k" "k \<noteq> Context"
  shows "ret r = Return 1 \<and>
         py_err (final r) = Some (MemoryError, oom_message k) \<and>
         list_all is_release (after_failure (trace (final r))) \<and>
         (\<forall>ev' \<in> set (trace (final r)). failed_site ev' \<noteq> None \<longrightarrow> ev' = ev)"
proof -
  from assms(1) have "refusal_reported r"
    by (rule refusal_ctc_cost_cpu)
  note * = this [rule_format, of ev k, OF conjI [OF assms(2) conjI [OF assms(3,4)]]]
  from * have rel: "list_all is_release (after_failure (trace (final r)))"
    by simp
  from assms(3) have failed: "failed_site ev \<noteq> None"
    by simp
  have uniq: "\<forall>ev' \<in> set (trace (final r)). failed_site ev' \<noteq> None \<longrightarrow> ev' = ev"
  proof (intro ballI impI)
    fix ev'
    assume "ev' \<in> set (trace (final r))" "failed_site ev' \<noteq> None"
    with rel assms(2) failed show "ev' = ev"
      by (rule single_refusal)
  qed
  from * have "ret r = Return 1" and "py_err (final r) = Some (MemoryError, oom_message k)"
    by simp_all
  with rel uniq show ?thesis
    by (intro conjI) assumption+
qed

theorem refused_request_reported_witness:
  "Malloc InputLengths None \<in>
     set (trace (final (ctc_cost_cpu no_input_lengths_env demo_activations demo_labels
                          demo_input_lengths None None))) \<and>
   failed_site (Malloc InputLengths None) = Some InputLengths \<and> InputLengths \<noteq> Context \<and>
   ret (ctc_cost_cpu no_input_lengths_env demo_activations demo_labels demo_input_lengths
          None None) = Return 1 \<and>
   py_err (final (ctc_cost_cpu no_input_lengths_env demo_activations demo_labels
                    demo_input_lengths None None)) =
     Some (MemoryError, ''Could not allocate storage for input lengths'')"
proof -
  let ?r = "ctc_cost_cpu no_input_lengths_env demo_activations demo_labels
              demo_input_lengths None None"
  have mem: "Malloc InputLengths None \<in> set (trace (final ?r))"
    by (simp add: run_defs demo_defs Let_def split_def)
  have site: "failed_site (Malloc InputLengths None) = Some InputLengths"
    "InputLengths \<noteq> Context"
    by simp_all
  note inst = refused_request_reported [OF refl mem site]
  from inst have "ret ?r = Return 1"
    by (rule conjunct1)
  moreover from inst have "py_err (final ?r) = Some (MemoryError, oom_message InputLengths)"
    by (rule conjunct2 [THEN conjunct1])
  ultimately show ?thesis
    using mem site by simp
qed

subsection \<open>The sizes given to the library\<close>

lemma sizes_call_library:
  assumes "r = call_library e ctx_addr ctx act (c_int (PyArray_DIMS a ! 2))
                 (c_int (PyArray_DIMS a ! 1)) costs_arr grads_arr s"
    and "quiet (trace s)"
    and "PyArray_NDIM costs_arr = 1"
    and "int (PyArray_DIMS costs_arr ! 0) = c_int (PyArray_DIMS a ! 1)"
  shows "sizes_from a r"
  using assms(1)
proof (cases rule: call_library_cases)
  case (size_fail st n)
  with assms(2) show ?thesis by (auto simp: size_query_of_def)
next
  case (ws_fail n)
  with assms(2) show ?thesis by (auto simp: size_query_of_def)
next
  case (compute_fail n st cw gw ctx1 cp s3)
  with assms(2) show ?thesis by (auto simp: size_query_of_def compute_args_of_def)
next
  case (ok n cw gw ctx1 cp s3)
  with assms(2-4) show ?thesis
    by (auto simp: size_query_of_def compute_args_of_def PyArray_NDIM_def PyArray_DIMS_def)
qed

lemma sizes_prepare_outputs:
  assumes "r = prepare_outputs e ctx_addr ctx act a c g s"
    and "quiet (trace s)"
  shows "sizes_from a r"
  using assms(1)
proof (cases rule: prepare_outputs_cases)
  case (costs_fail s1)
  from costs_fail(1) show ?thesis
    by (cases rule: ensure_costs_cases) (use costs_fail(2) assms(2) in auto)
next
  case (gradients_fail costs_arr s1 s2)
  from gradients_fail(1) assms(2) have "quiet (trace s1)"
    by (rule quiet_ensure_costs)
  with gradients_fail(2) show ?thesis
    by (cases rule: ensure_gradients_cases) (use gradients_fail(3) in auto)
next
  case (continue costs_arr s1 grads_arr s2)
  from continue(1) assms(2) have "quiet (trace s1)"
    by (rule quiet_ensure_costs)
  with continue(2) have q2: "quiet (trace s2)"
    by (rule quiet_ensure_gradients)
  from continue(1) have shape: "PyArray_NDIM costs_arr = 1 \<and>
      int (PyArray_DIMS costs_arr ! 0) = c_int (PyArray_DIMS a ! 1)"
    by (cases rule: ensure_costs_cases) (auto simp: PyArray_NDIM_def PyArray_DIMS_def)
  from continue(3) q2 shape show ?thesis
    by (intro sizes_call_library [of r e ctx_addr ctx act a costs_arr grads_arr s2]) simp_all
qed

lemma sizes_marshal_inputs:
  assumes "r = marshal_inputs e ctx_addr ctx act a l i c g s"
    and "quiet (trace s)"
  shows "sizes_from a r"
  using assms(1)
proof (cases rule: marshal_inputs_cases)
  case input_lengths_fail
  with assms(2) show ?thesis by auto
next
  case (overrun il s1 flat lens idx)
  with assms(2) show ?thesis by auto
next
  case (labels_fail il s1 fl ll s2 ctx2)
  from labels_fail(4) show ?thesis
    by (cases rule: create_flat_labels_cases) (use labels_fail assms(2) in auto)
next
  case (continue il s1 flp llp s2 ctx2)
  from assms(2) continue(3) have "quiet (trace s1)" by simp
  with continue(4) have "quiet (trace s2)"
    by (rule quiet_create_flat_labels)
  with continue(6) show ?thesis
    by (rule sizes_prepare_outputs)
qed

lemma sizes_ctc_cost_cpu:
  assumes "r = ctc_cost_cpu e a l i c g"
  shows "sizes_from a r"
  using assms
proof (cases rule: ctc_cost_cpu_cases)
  case (crash s0)
  then show ?thesis by auto
next
  case (copy_fail s0 s1 ctx)
  then show ?thesis by auto
next
  case (contiguous s0 s1)
  from contiguous(5) show ?thesis
    by (rule sizes_marshal_inputs) (use contiguous(1,2) in simp)
next
  case (copied s0 s1 arr)
  from copied(7) show ?thesis
    by (rule sizes_marshal_inputs) (use copied(1,2) in simp)
qed

text \<open>
  C9: in every library call of a run, the alphabet size and the batch size are dimensions
  2 and 1 of the activations array, converted to \<open>int\<close>; neither the label matrix nor
  the input lengths enter. A call that returns 0 leaves a costs array of one dimension
  whose length is that batch size, which is dimension 1 of the activations when it is in
  the range of an \<open>int\<close>.
\<close>

theorem sizes_read_from_activations:
  assumes "r = ctc_cost_cpu e a l i c g"
  shows "(\<forall>ev \<in> set (trace (final r)). \<forall>al mb. library_sizes ev = Some (al, mb) \<longrightarrow>
            al = c_int (PyArray_DIMS a ! 2) \<and> mb = c_int (PyArray_DIMS a ! 1)) \<and>
         (ret r = Return 0 \<longrightarrow>
            (\<exists>z. costs_out r = Some z \<and> PyArray_NDIM z = 1 \<and>
                 int (PyArray_DIMS z ! 0) = c_int (PyArray_DIMS a ! 1) \<and>
                 (fits_int (PyArray_DIMS a ! 1) \<longrightarrow> PyArray_DIMS z = [PyArray_DIMS a ! 1])))"
proof -
  have *: "sizes_from a r"
    using assms by (rule sizes_ctc_cost_cpu)
  have shape: "PyArray_DIMS z = [d]"
    if "PyArray_NDIM z = 1" "int (PyArray_DIMS z ! 0) = c_int d" "fits_int d" for z d
  proof -
    from that(1) obtain x where "PyArray_DIMS z = [x]"
      by (cases "PyArray_DIMS z") (auto simp: PyArray_NDIM_def PyArray_DIMS_def)
    with that(2,3) show ?thesis
      by (simp add: c_int_fits)
  qed
  show ?thesis
  proof (intro conjI impI)
    from * show "\<forall>ev \<in> set (trace (final r)). \<forall>al mb. library_sizes ev = Some (al, mb) \<longrightarrow>
        al = c_int (PyArray_DIMS a ! 2) \<and> mb = c_int (PyArray_DIMS a ! 1)"
      by auto
  next
    assume "ret r = Return 0"
    with * obtain z where z: "costs_out r = Some z" "PyArray_NDIM z = 1"
        "int (PyArray_DIMS z ! 0) = c_int (PyArray_DIMS a ! 1)"
      by blast
    from z(2,3) have "fits_int (PyArray_DIMS a ! 1) \<longrightarrow> PyArray_DIMS z = [PyArray_DIMS a ! 1]"
      by (blast intro: shape)
    with z show "\<exists>z. costs_out r = Some z \<and> PyArray_NDIM z = 1 \<and>
        int (PyArray_DIMS z ! 0) = c_int (PyArray_DIMS a ! 1) \<and>
        (fits_int (PyArray_DIMS a ! 1) \<longrightarrow> PyArray_DIMS z = [PyArray_DIMS a ! 1])"
      by blast
  qed
qed

theorem sizes_read_from_activations_witness:
  "PyArray_DIMS demo_labels ! 0 = 2 \<and> PyArray_DIMS demo_wide ! 1 = 3 \<and>
   ret (ctc_cost_cpu demo_env demo_wide demo_labels demo_input_lengths None None)
     = Return 0 \<and>
   fits_int (PyArray_DIMS demo_wide ! 1) \<and>
   (\<exists>z. costs_out (ctc_cost_cpu demo_env demo_wide demo_labels demo_input_lengths
                      None None) = Some z \<and>
        PyArray_DIMS z = [3]) \<and>
   (\<exists>ev \<in> set (trace (final (ctc_cost_cpu demo_env demo_wide demo_labels
                               demo_input_lengths None None))).
      library_sizes ev = Some (7, 3))"
proof -
  let ?r = "ctc_cost_cpu demo_env demo_wide demo_labels demo_input_lengths None None"
  have ret0: "ret ?r = Return 0"
    by (simp add: run_defs demo_defs Let_def split_def)
  have "\<exists>ev \<in> set (trace (final ?r)). \<exists>al mb. library_sizes ev = Some (al, mb)"
    by (simp add: run_defs demo_defs Let_def split_def)
  then obtain ev al mb where ev: "ev \<in> set (trace (final ?r))"
    "library_sizes ev = Some (al, mb)"
    by blast
  have shape: "PyArray_DIMS demo_wide = [4, 3, 7]" "PyArray_DIMS demo_labels = [2, 4]"
    by (simp_all add: PyArray_DIMS_def demo_defs)
  have fits: "fits_int (PyArray_DIMS demo_wide ! 1)"
    by (simp add: shape fits_int_def)
  note inst = sizes_read_from_activations [OF refl, where e = demo_env
      and a = demo_wide and l = demo_labels and i = demo_input_lengths
      and c = None and g = None]
  from inst ev have "al = c_int (PyArray_DIMS demo_wide ! 2)"
    "mb = c_int (PyArray_DIMS demo_wide ! 1)"
    by blast+
  then have sizes: "library_sizes ev = Some (7, 3)"
    using ev(2) by (simp add: shape c_int_def)
  from inst ret0 fits obtain z where z: "costs_out ?r = Some z"
    "PyArray_DIMS z = [PyArray_DIMS demo_wide ! 1]"
    by blast
  from z have costs: "\<exists>z. costs_out ?r = Some z \<and> PyArray_DIMS z = [3]"
    by (simp add: shape)
  from ev(1) sizes have lib: "\<exists>ev \<in> set (trace (final ?r)). library_sizes ev = Some (7, 3)"
    by blast
  from ret0 fits costs lib show ?thesis
    by (simp add: shape)
qed

subsection \<open>The two label buffers\<close>

text \<open>
  On its first failure (line 83) \<open>create_flat_labels\<close> returns without writing the
  second out-parameter, which keeps what it held on entry.
\<close>

lemma create_flat_labels_first_failure:
  assumes "create_flat_labels e m fl0 ll0 s = Normal (fl, ll, s')" "\<not> alloc_ok e FlatLabels"
  shows "fl = None \<and> ll = ll0"
  using assms by (cases rule: create_flat_labels_cases) simp_all

text \<open>
  In every run of the entry point the context ends with both label pointers NULL or with
  neither.
\<close>

lemma paired_call_library:
  assumes "r = call_library e ctx_addr ctx act al mb costs_arr grads_arr s"
    and "flat_labels ctx = None \<longleftrightarrow> label_lengths ctx = None"
  shows "labels_paired r"
  using assms(1) by (cases rule: call_library_cases) (use assms(2) in auto)

lemma paired_prepare_outputs:
  assumes "r = prepare_outputs e ctx_addr ctx act a c g s"
    and "flat_labels ctx = None \<longleftrightarrow> label_lengths ctx = None"
  shows "labels_paired r"
  using assms(1)
proof (cases rule: prepare_outputs_cases)
  case (costs_fail s1)
  with assms(2) show ?thesis by auto
next
  case (gradients_fail costs_arr s1 s2)
  with assms(2) show ?thesis by auto
next
  case (continue costs_arr s1 grads_arr s2)
  from continue(3) assms(2) show ?thesis
    by (rule paired_call_library)
qed

lemma paired_marshal_inputs:
  assumes "r = marshal_inputs e ctx_addr ctx act a l i c g s"
    and "flat_labels ctx = None" "label_lengths ctx = None"
  shows "labels_paired r"
  using assms(1)
proof (cases rule: marshal_inputs_cases)
  case input_lengths_fail
  with assms(2,3) show ?thesis by auto
next
  case (overrun il s1 flat lens idx)
  with assms(2,3) show ?thesis by auto
next
  case (labels_fail il s1 fl ll s2 ctx2)
  from labels_fail(4) show ?thesis
    by (cases rule: create_flat_labels_cases) (use labels_fail assms(2,3) in auto)
next
  case (continue il s1 flp llp s2 ctx2)
  from continue(6) show ?thesis
    by (rule paired_prepare_outputs) (use continue(5) in simp)
qed

lemma labels_paired_in_every_run:
  assumes "r = ctc_cost_cpu e a l i c g"
  shows "labels_paired r"
  using assms
proof (cases rule: ctc_cost_cpu_cases)
  case (crash s0)
  then show ?thesis by auto
next
  case (copy_fail s0 s1 ctx)
  then show ?thesis by auto
next
  case (contiguous s0 s1)
  from contiguous(5) show ?thesis
    by (rule paired_marshal_inputs) simp_all
next
  case (copied s0 s1 arr)
  from copied(7) show ?thesis
    by (rule paired_marshal_inputs) simp_all
qed

text \<open>
  C10: \<open>create_flat_labels\<close>, called as the entry point calls it (line 152: on the
  pointers of a context that \<open>ctc_context_init\<close> initialised, so both are NULL on
  entry), leaves either two NULL pointers or two buffers granted by its own two
  requests, both live; this holds when it returns, and also of the pointers it has written
  when it stops at a store outside the flat block. When the flat buffer is granted and the
  lengths buffer is refused, it returns, both pointers are NULL and the flat buffer has
  been released and is not live.
\<close>

theorem flat_labels_all_or_nothing:
  assumes call: "reached (create_flat_labels e m (flat_labels ctx) (label_lengths ctx) s) =
                   (fl, ll, s')"
    and ctx: "ctx = (ctc_context_init c0)\<lparr>activations_copy := cp, input_lengths := il\<rparr>"
  shows "(fl = None \<and> ll = None \<or>
          (\<exists>flat lens.
             fl = Some (next_addr s, flat) \<and> ll = Some (Suc (next_addr s), lens) \<and>
             Malloc FlatLabels (Some (next_addr s)) \<in> set (trace s') \<and>
             Malloc LabelLengths (Some (Suc (next_addr s))) \<in> set (trace s') \<and>
             next_addr s \<in> set (live s') \<and> Suc (next_addr s) \<in> set (live s'))) \<and>
         (alloc_ok e FlatLabels \<and> \<not> alloc_ok e LabelLengths \<longrightarrow>
            returned (create_flat_labels e m (flat_labels ctx) (label_lengths ctx) s) \<and>
            fl = None \<and> ll = None \<and>
            Malloc FlatLabels (Some (next_addr s)) \<in> set (trace s') \<and>
            Release (next_addr s) \<in> set (trace s') \<and>
            next_addr s \<notin> set (live s'))"
proof (cases "create_flat_labels e m (flat_labels ctx) (label_lengths ctx) s")
  case (Normal x)
  with call have eq: "create_flat_labels e m (flat_labels ctx) (label_lengths ctx) s =
      Normal (fl, ll, s')"
    by simp
  from eq show ?thesis
  proof (cases rule: create_flat_labels_cases)
    case flat_refused
    with ctx eq show ?thesis by simp
  next
    case lengths_refused
    with eq show ?thesis by simp
  next
    case (granted flat lens idx)
    with eq show ?thesis by simp
  qed
next
  case (Overrun x)
  with call have eq: "create_flat_labels e m (flat_labels ctx) (label_lengths ctx) s =
      Overrun (fl, ll, s')"
    by simp
  from eq show ?thesis
    by (rule create_flat_labels_overrun) simp
qed

theorem flat_labels_all_or_nothing_witness:
  "alloc_ok no_label_lengths_env FlatLabels \<and> \<not> alloc_ok no_label_lengths_env LabelLengths \<and>
   returned (create_flat_labels no_label_lengths_env demo_labels None None (init_world [])) \<and>
   fst (reached (create_flat_labels no_label_lengths_env demo_labels None None (init_world [])))
     = None \<and>
   fst (snd (reached (create_flat_labels no_label_lengths_env demo_labels None None
                        (init_world []))))
     = None \<and>
   Release 1 \<in>
     set (trace (snd (snd (reached (create_flat_labels no_label_lengths_env demo_labels None
                                      None (init_world []))))))"
proof -
  let ?ctx = "(ctc_context_init zeroed_context)\<lparr>activations_copy := None, input_lengths := None\<rparr>"
  let ?x = "reached (create_flat_labels no_label_lengths_env demo_labels (flat_labels ?ctx)
                       (label_lengths ?ctx) (init_world []))"
  have env: "alloc_ok no_label_lengths_env FlatLabels"
    "\<not> alloc_ok no_label_lengths_env LabelLengths"
    by (simp_all add: demo_defs no_label_lengths_env_def)
  have call: "?x = (fst ?x, fst (snd ?x), snd (snd ?x))"
    by simp
  from flat_labels_all_or_nothing [OF call refl] env show ?thesis
    by simp
qed

end
